theory Spec2Isabelle
  imports Complex_Main "HOL-Library.Word" "HOL-Library.AList" "HOL-Library.Sublist"
begin

unbundle bit_operations_syntax

section \<open>ECMAScript values\<close>

subsection \<open>Strings\<close>

text \<open>
  An ECMAScript string is a sequence of UTF-16 code units. String literals of the program
  are ASCII and are written \<open>lit ''...''\<close>.
\<close>

type_synonym jsstring = "16 word list"

definition lit :: "string \<Rightarrow> jsstring" where
  "lit s = map of_char s"

text \<open>
  \<open>String.prototype.trim\<close> removes WhiteSpace and LineTerminator code units from both ends.
\<close>

definition isWhiteSpace :: "16 word \<Rightarrow> bool" where
  "isWhiteSpace c \<longleftrightarrow>
     c \<in> {0x9, 0xA, 0xB, 0xC, 0xD, 0x20, 0xA0, 0x1680, 0x2028, 0x2029, 0x202F, 0x205F,
          0x3000, 0xFEFF}
     \<or> (0x2000 \<le> c \<and> c \<le> 0x200A)"

definition trim :: "jsstring \<Rightarrow> jsstring" where
  "trim s = rev (dropWhile isWhiteSpace (rev (dropWhile isWhiteSpace s)))"

text \<open>\<open>a.includes(b)\<close> is \<open>sublist b a\<close>; \<open>a.startsWith(b)\<close> is \<open>prefix b a\<close>.\<close>

definition includesStr :: "jsstring \<Rightarrow> jsstring \<Rightarrow> bool" where
  "includesStr s needle = sublist needle s"

definition startsWithStr :: "jsstring \<Rightarrow> jsstring \<Rightarrow> bool" where
  "startsWithStr s p = prefix p s"

text \<open>\<open>xs.join(sep)\<close> on a list of strings.\<close>

fun join :: "jsstring \<Rightarrow> jsstring list \<Rightarrow> jsstring" where
  "join sep [] = []"
| "join sep [x] = x"
| "join sep (x # y # ys) = x @ sep @ join sep (y # ys)"

text \<open>
  The decimal rendering of a natural number: what ToString gives for a non-negative
  integer below \<open>2^53\<close> (string lengths and array indices are far below that).
\<close>

definition digit :: "nat \<Rightarrow> 16 word" where
  "digit d = of_nat (48 + d)"

function decimal :: "nat \<Rightarrow> jsstring" where
  "decimal n = (if n < 10 then [digit n] else decimal (n div 10) @ [digit (n mod 10)])"
  by pat_completeness auto
termination
  by (relation "measure id") auto

declare decimal.simps [simp del]

subsection \<open>Numbers\<close>

text \<open>
  A Number is an IEEE double: NaN, an infinity, or a finite value, which is a rational.
  (\<open>-0\<close> and \<open>+0\<close> are not told apart by anything this program does.) The conversions
  between numbers and strings are left to the engine, see \<open>engine\<close> below.
\<close>

datatype jsnum = NaN | PosInf | NegInf | Fin rat

definition numTruthy :: "jsnum \<Rightarrow> bool" where
  "numTruthy n \<longleftrightarrow> n \<noteq> NaN \<and> n \<noteq> Fin 0"

text \<open>\<open>a < b\<close> on numbers: false as soon as one side is NaN.\<close>

fun numLess :: "jsnum \<Rightarrow> jsnum \<Rightarrow> bool" where
  "numLess NaN _ = False"
| "numLess _ NaN = False"
| "numLess (Fin a) (Fin b) = (a < b)"
| "numLess NegInf NegInf = False"
| "numLess NegInf _ = True"
| "numLess _ NegInf = False"
| "numLess PosInf _ = False"
| "numLess _ PosInf = True"

subsection \<open>Values\<close>

text \<open>
  Request bodies, the stored secrets and the replies are plain data: what \<open>JSON.parse\<close>
  returns, plus \<open>undefined\<close> for a property that is not there. An object is the list of
  its own properties.
\<close>

datatype jsval =
    Undefined
  | Null
  | Bool bool
  | Num jsnum
  | Str jsstring
  | Arr "jsval list"
  | Obj "(jsstring \<times> jsval) list"

fun nullish :: "jsval \<Rightarrow> bool" where
  "nullish Undefined = True"
| "nullish Null = True"
| "nullish _ = False"

text \<open>\<open>Boolean(v)\<close>, and the test of \<open>if (v)\<close>, \<open>v && w\<close>, \<open>v ? a : b\<close>.\<close>

fun truthy :: "jsval \<Rightarrow> bool" where
  "truthy Undefined = False"
| "truthy Null = False"
| "truthy (Bool b) = b"
| "truthy (Num n) = numTruthy n"
| "truthy (Str s) = (s \<noteq> [])"
| "truthy (Arr _) = True"
| "truthy (Obj _) = True"

text \<open>
  \<open>v.k\<close> on a value that is not nullish. The keys the program reads are fixed identifiers,
  none of them an index, \<open>length\<close> or a member of a prototype, so only an object has them.
\<close>

fun getProp :: "jsval \<Rightarrow> jsstring \<Rightarrow> jsval" where
  "getProp (Obj kvs) k = (case map_of kvs k of Some v \<Rightarrow> v | None \<Rightarrow> Undefined)"
| "getProp _ k = Undefined"

text \<open>\<open>v?.k\<close>\<close>

definition getOpt :: "jsval \<Rightarrow> jsstring \<Rightarrow> jsval" where
  "getOpt v k = (if nullish v then Undefined else getProp v k)"

text \<open>\<open>a && b\<close> and \<open>a ?? b\<close>\<close>

definition jsAnd :: "jsval \<Rightarrow> jsval \<Rightarrow> jsval" where
  "jsAnd a b = (if truthy a then b else a)"

definition coalesce :: "jsval \<Rightarrow> jsval \<Rightarrow> jsval" where
  "coalesce a b = (if nullish a then b else a)"

text \<open>
  The own enumerable string-keyed properties of a value that is not nullish: what
  \<open>Object.values\<close>, \<open>Object.hasOwn\<close> and the spread \<open>{...v}\<close> see.
\<close>

fun ownEntries :: "jsval \<Rightarrow> (jsstring \<times> jsval) list" where
  "ownEntries (Obj kvs) = kvs"
| "ownEntries (Arr xs) = zip (map decimal [0..<length xs]) xs"
| "ownEntries (Str s) = zip (map decimal [0..<length s]) (map (\<lambda>c. Str [c]) s)"
| "ownEntries _ = []"

definition objectValues :: "jsval \<Rightarrow> jsval list" where
  "objectValues v = map snd (ownEntries v)"

text \<open>What the program throws: every thrown value carries a message.\<close>

datatype js_error =
    TypeError jsstring
  | HelperError nat jsstring
  | FetchError jsstring


text \<open>\<open>v.k\<close>: reading a property of \<open>null\<close> or \<open>undefined\<close> throws.\<close>

definition cannotRead :: "jsval \<Rightarrow> string \<Rightarrow> jsstring" where
  "cannotRead v k =
     lit ''Cannot read properties of '' @ (if v = Null then lit ''null'' else lit ''undefined'')
       @ lit '' (reading '' @ [0x27] @ lit k @ [0x27] @ lit '')''"

definition member :: "jsval \<Rightarrow> string \<Rightarrow> js_error + jsval" where
  "member v k = (if nullish v then Inl (TypeError (cannotRead v k)) else Inr (getProp v (lit k)))"

section \<open>The helper: credentials\<close>

definition platforms :: "jsstring list" where
  "platforms = [lit ''x'', lit ''bluesky'', lit ''mastodon'']"

definition hasX :: "jsval \<Rightarrow> bool" where
  "hasX secrets = truthy (getOpt (getProp secrets (lit ''x'')) (lit ''authToken''))"

definition hasBluesky :: "jsval \<Rightarrow> bool" where
  "hasBluesky secrets =
     truthy (jsAnd (jsAnd (getOpt (getProp secrets (lit ''bluesky'')) (lit ''identifier''))
                          (getOpt (getProp secrets (lit ''bluesky'')) (lit ''pdsUrl'')))
                   (getOpt (getProp secrets (lit ''bluesky'')) (lit ''appPassword'')))"

definition hasMastodon :: "jsval \<Rightarrow> bool" where
  "hasMastodon secrets =
     truthy (jsAnd (getOpt (getProp secrets (lit ''mastodon'')) (lit ''instanceUrl''))
                   (getOpt (getProp secrets (lit ''mastodon'')) (lit ''accessToken'')))"

text \<open>\<open>summarizeSecrets(secrets)\<close>, for a \<open>secrets\<close> that is not nullish.\<close>

definition summarizeSecrets :: "jsval \<Rightarrow> jsval" where
  "summarizeSecrets secrets =
     Obj [(lit ''gatewayApiKey'', Bool (truthy (getProp secrets (lit ''gatewayApiKey'')))),
          (lit ''x'', Bool (hasX secrets)),
          (lit ''bluesky'', Bool (hasBluesky secrets)),
          (lit ''mastodon'', Bool (hasMastodon secrets))]"

record resolved =
  targets :: jsval
  missing :: "jsstring list"
  selectedCount :: nat

text \<open>
  The two accumulators of \<open>resolveTargetsFromSelection\<close>, \<open>missing\<close> and \<open>targets\<close>, are
  threaded through its three blocks as a pair.
\<close>

type_synonym resolve_acc = "jsstring list \<times> (jsstring \<times> jsval) list"

definition pushMissing :: "jsstring \<Rightarrow> resolve_acc \<Rightarrow> resolve_acc" where
  "pushMissing p acc = (fst acc @ [p], snd acc)"

definition setTarget :: "jsstring \<Rightarrow> jsval \<Rightarrow> resolve_acc \<Rightarrow> resolve_acc" where
  "setTarget p block acc = (fst acc, AList.update p block (snd acc))"

definition xBlock :: "jsval \<Rightarrow> jsval" where
  "xBlock secrets =
     Obj [(lit ''authToken'', getProp (getProp secrets (lit ''x'')) (lit ''authToken'')),
          (lit ''client'', Str (lit ''web''))]"

definition blueskyBlock :: "jsval \<Rightarrow> jsval" where
  "blueskyBlock secrets =
     Obj [(lit ''identifier'', getProp (getProp secrets (lit ''bluesky'')) (lit ''identifier'')),
          (lit ''pdsUrl'', getProp (getProp secrets (lit ''bluesky'')) (lit ''pdsUrl'')),
          (lit ''appPassword'', getProp (getProp secrets (lit ''bluesky'')) (lit ''appPassword''))]"

definition mastodonBlock :: "jsval \<Rightarrow> jsval" where
  "mastodonBlock secrets =
     Obj [(lit ''instanceUrl'', getProp (getProp secrets (lit ''mastodon'')) (lit ''instanceUrl'')),
          (lit ''accessToken'', getProp (getProp secrets (lit ''mastodon'')) (lit ''accessToken'')),
          (lit ''visibility'',
             coalesce (getProp (getProp secrets (lit ''mastodon'')) (lit ''visibility''))
                      (Str (lit ''public'')))]"

definition selectedOf :: "jsval \<Rightarrow> jsval \<Rightarrow> jsval" where
  "selectedOf secrets requestedTargets =
     coalesce requestedTargets
       (Obj [(lit ''x'', Bool (hasX secrets)),
             (lit ''bluesky'', Bool (hasBluesky secrets)),
             (lit ''mastodon'', Bool (hasMastodon secrets))])"

definition resolveX :: "jsval \<Rightarrow> jsval \<Rightarrow> resolve_acc \<Rightarrow> resolve_acc" where
  "resolveX secrets selected acc =
     (if truthy (getProp selected (lit ''x''))
      then (if \<not> hasX secrets then pushMissing (lit ''x'') acc
            else setTarget (lit ''x'') (xBlock secrets) acc)
      else acc)"

definition resolveBluesky :: "jsval \<Rightarrow> jsval \<Rightarrow> resolve_acc \<Rightarrow> resolve_acc" where
  "resolveBluesky secrets selected acc =
     (if truthy (getProp selected (lit ''bluesky''))
      then (if \<not> hasBluesky secrets then pushMissing (lit ''bluesky'') acc
            else setTarget (lit ''bluesky'') (blueskyBlock secrets) acc)
      else acc)"

definition resolveMastodon :: "jsval \<Rightarrow> jsval \<Rightarrow> resolve_acc \<Rightarrow> resolve_acc" where
  "resolveMastodon secrets selected acc =
     (if truthy (getProp selected (lit ''mastodon''))
      then (if \<not> hasMastodon secrets then pushMissing (lit ''mastodon'') acc
            else setTarget (lit ''mastodon'') (mastodonBlock secrets) acc)
      else acc)"

definition resolveTargetsFromSelection :: "jsval \<Rightarrow> jsval \<Rightarrow> js_error + resolved" where
  "resolveTargetsFromSelection secrets requestedTargets =
     (if nullish secrets then Inl (TypeError (cannotRead secrets ''x''))
      else
        let selected = selectedOf secrets requestedTargets;
            acc = resolveMastodon secrets selected
                    (resolveBluesky secrets selected
                      (resolveX secrets selected ([], [])))
        in Inr \<lparr> targets = Obj (snd acc),
                 missing = fst acc,
                 selectedCount = length (filter truthy (objectValues selected)) \<rparr>)"

subsection \<open>The resolver as the specification words it\<close>

text \<open>
  A platform is credentialed when its credential tuple is complete, it is requested when
  the selection has a truthy entry for it, and its authenticated block carries the stored
  values.
\<close>

definition credentialed :: "jsval \<Rightarrow> jsstring \<Rightarrow> bool" where
  "credentialed secrets p =
     (if p = lit ''x'' then hasX secrets
      else if p = lit ''bluesky'' then hasBluesky secrets
      else if p = lit ''mastodon'' then hasMastodon secrets
      else False)"

definition requested :: "jsval \<Rightarrow> jsstring \<Rightarrow> bool" where
  "requested selected p = truthy (getProp selected p)"

definition requestedPlatforms :: "jsval \<Rightarrow> jsstring list" where
  "requestedPlatforms selected = filter (requested selected) platforms"

definition authBlock :: "jsval \<Rightarrow> jsstring \<Rightarrow> jsval" where
  "authBlock secrets p =
     (if p = lit ''x'' then xBlock secrets
      else if p = lit ''bluesky'' then blueskyBlock secrets
      else mastodonBlock secrets)"

text \<open>A selection of the declared shape: an object with no other keys than the platforms.\<close>

fun platformSelection :: "jsval \<Rightarrow> bool" where
  "platformSelection (Obj kvs) = (distinct (map fst kvs) \<and> list_all (\<lambda>k. k \<in> set platforms) (map fst kvs))"
| "platformSelection _ = False"

section \<open>The engine and the platform\<close>

text \<open>
  What the program takes from its engine and its platform, and what this development leaves
  to them: the rendering and parsing of numbers that are no small integers, \<open>JSON.parse\<close>
  and \<open>JSON.stringify\<close>, the WHATWG \<open>URL\<close> class, \<open>Date\<close>, and the message of the
  \<open>TypeError\<close> that \<open>Headers.set\<close> throws for a value it refuses. Every theorem below holds
  for every engine.
\<close>

record 'u engine =
  numberToString :: "jsnum \<Rightarrow> jsstring"
  stringToNumber :: "jsstring \<Rightarrow> jsnum"
  jsonParse :: "jsstring \<Rightarrow> jsval option"
  jsonStringify :: "jsval \<Rightarrow> jsstring"
  urlParse :: "jsstring \<Rightarrow> 'u option"
  urlProtocol :: "'u \<Rightarrow> jsstring"
  urlPathname :: "'u \<Rightarrow> jsstring"
  urlSetPathname :: "'u \<Rightarrow> jsstring \<Rightarrow> 'u"
  urlSetSearch :: "'u \<Rightarrow> jsstring \<Rightarrow> 'u"
  urlSetHash :: "'u \<Rightarrow> jsstring \<Rightarrow> 'u"
  urlToString :: "'u \<Rightarrow> jsstring"
  dateGetTime :: "jsstring \<Rightarrow> jsnum"
  invalidHeaderMessage :: "jsstring \<Rightarrow> jsstring"

text \<open>
  ToString of a number: a non-negative integer below \<open>2^53\<close> is rendered by its decimal
  digits. From \<open>2^53\<close> on ToString gives the shortest digits that read back as the same
  number, padded with zeros, and then an exponent: that, like the rendering of fractions and
  of negative numbers, is the engine's.
\<close>

definition isNatNumber :: "jsnum \<Rightarrow> bool" where
  "isNatNumber n = (case n of Fin r \<Rightarrow> 0 \<le> r \<and> r = of_int \<lfloor>r\<rfloor> \<and> r < 2 ^ 53 | _ \<Rightarrow> False)"

definition natOfNumber :: "jsnum \<Rightarrow> nat" where
  "natOfNumber n = (case n of Fin r \<Rightarrow> nat \<lfloor>r\<rfloor> | _ \<Rightarrow> 0)"

definition showNumber :: "'u engine \<Rightarrow> jsnum \<Rightarrow> jsstring" where
  "showNumber E n = (if isNatNumber n then decimal (natOfNumber n) else numberToString E n)"

text \<open>A \<open>map\<close> whose function may throw: it stops at the first throw.\<close>

fun mapE :: "('a \<Rightarrow> 'e + 'b) \<Rightarrow> 'a list \<Rightarrow> 'e + 'b list" where
  "mapE f [] = Inr []"
| "mapE f (x # xs) =
     (case f x of
        Inl e \<Rightarrow> Inl e
      | Inr y \<Rightarrow> (case mapE f xs of Inl e \<Rightarrow> Inl e | Inr ys \<Rightarrow> Inr (y # ys)))"

text \<open>
  \<open>String(v)\<close> and \<open>`${v}`\<close>. An array joins the renderings of its elements (nothing for
  \<open>null\<close> and \<open>undefined\<close>). A plain object renders as \<open>[object Object]\<close> through
  \<open>Object.prototype.toString\<close>, unless it has an own property \<open>toString\<close>: that property
  is data, not a function, \<open>valueOf\<close> returns the object itself, and the conversion throws.
\<close>

fun toStringJS :: "'u engine \<Rightarrow> jsval \<Rightarrow> js_error + jsstring"
  and toStringElems :: "'u engine \<Rightarrow> jsval list \<Rightarrow> js_error + jsstring list" where
  "toStringJS E Undefined = Inr (lit ''undefined'')"
| "toStringJS E Null = Inr (lit ''null'')"
| "toStringJS E (Bool b) = Inr (if b then lit ''true'' else lit ''false'')"
| "toStringJS E (Num n) = Inr (showNumber E n)"
| "toStringJS E (Str s) = Inr s"
| "toStringJS E (Arr xs) =
     (case toStringElems E xs of Inl e \<Rightarrow> Inl e | Inr ss \<Rightarrow> Inr (join (lit '','') ss))"
| "toStringJS E (Obj kvs) =
     (if map_of kvs (lit ''toString'') \<noteq> None
      then Inl (TypeError (lit ''Cannot convert object to primitive value''))
      else Inr (lit ''[object Object]''))"
| "toStringElems E [] = Inr []"
| "toStringElems E (x # xs) =
     (case (if nullish x then Inr [] else toStringJS E x) of
        Inl e \<Rightarrow> Inl e
      | Inr s \<Rightarrow> (case toStringElems E xs of Inl e \<Rightarrow> Inl e | Inr ss \<Rightarrow> Inr (s # ss)))"

text \<open>\<open>Number(v)\<close>: an object or array is first converted to a string.\<close>

fun toNumberJS :: "'u engine \<Rightarrow> jsval \<Rightarrow> js_error + jsnum" where
  "toNumberJS E Undefined = Inr NaN"
| "toNumberJS E Null = Inr (Fin 0)"
| "toNumberJS E (Bool b) = Inr (Fin (if b then 1 else 0))"
| "toNumberJS E (Num n) = Inr n"
| "toNumberJS E (Str s) = Inr (stringToNumber E s)"
| "toNumberJS E v =
     (case toStringJS E v of Inl e \<Rightarrow> Inl e | Inr s \<Rightarrow> Inr (stringToNumber E s))"

definition isInteger :: "jsnum \<Rightarrow> bool" where
  "isInteger n = (case n of Fin r \<Rightarrow> r = of_int \<lfloor>r\<rfloor> | _ \<Rightarrow> False)"

fun isArray :: "jsval \<Rightarrow> bool" where
  "isArray (Arr _) = True"
| "isArray _ = False"

fun isString :: "jsval \<Rightarrow> bool" where
  "isString (Str _) = True"
| "isString _ = False"

text \<open>\<open>typeof v === 'object'\<close> holds of objects, arrays and \<open>null\<close>.\<close>

fun typeofObject :: "jsval \<Rightarrow> bool" where
  "typeofObject (Obj _) = True"
| "typeofObject (Arr _) = True"
| "typeofObject Null = True"
| "typeofObject _ = False"

text \<open>The string inside a string value (used only under \<open>isString\<close>).\<close>

fun strOf :: "jsval \<Rightarrow> jsstring" where
  "strOf (Str s) = s"
| "strOf _ = []"

fun elemsOf :: "jsval \<Rightarrow> jsval list" where
  "elemsOf (Arr xs) = xs"
| "elemsOf _ = []"

section \<open>The helper: small functions\<close>

definition problem :: "nat \<Rightarrow> jsstring \<Rightarrow> jsstring \<Rightarrow> jsval" where
  "problem status title detail =
     Obj [(lit ''type'', Str (lit ''about:blank'')),
          (lit ''title'', Str title),
          (lit ''status'', Num (Fin (of_nat status))),
          (lit ''detail'', Str detail)]"

text \<open>\<open>s.replace(/\/$/, '')\<close>\<close>

definition stripTrailingSlash :: "jsstring \<Rightarrow> jsstring" where
  "stripTrailingSlash s = (if s \<noteq> [] \<and> last s = 0x2F then butlast s else s)"

definition normalizeBaseUrl :: "'u engine \<Rightarrow> jsval \<Rightarrow> jsval" where
  "normalizeBaseUrl E input =
     (if \<not> isString input \<or> trim (strOf input) = [] then Null
      else
        (case urlParse E (trim (strOf input)) of
           None \<Rightarrow> Null
         | Some normalized \<Rightarrow>
             if urlProtocol E normalized \<noteq> lit ''http:''
                \<and> urlProtocol E normalized \<noteq> lit ''https:''
             then Null
             else
               let n1 = urlSetPathname E normalized
                          (stripTrailingSlash (urlPathname E normalized));
                   n2 = urlSetSearch E n1 [];
                   n3 = urlSetHash E n2 []
               in Str (stripTrailingSlash (urlToString E n3))))"

definition trimToUndefined :: "jsval \<Rightarrow> jsval" where
  "trimToUndefined v =
     (if \<not> isString v then Undefined
      else if length (trim (strOf v)) > 0 then Str (trim (strOf v)) else Undefined)"

section \<open>The helper: the gateway payload\<close>

definition segmentText :: "'u engine \<Rightarrow> jsval \<Rightarrow> js_error + jsstring" where
  "segmentText E segment =
     (if isString (getOpt segment (lit ''text'')) then Inr (strOf (getOpt segment (lit ''text'')))
      else if nullish (getOpt segment (lit ''text'')) then Inr []
      else toStringJS E (getProp segment (lit ''text'')))"

definition sanitizeSegment :: "'u engine \<Rightarrow> jsval \<Rightarrow> js_error + jsval" where
  "sanitizeSegment E segment =
     (case segmentText E segment of
        Inl e \<Rightarrow> Inl e
      | Inr t \<Rightarrow> Inr (Obj [(lit ''text'', Str t)]))"

definition sanitizeThread :: "'u engine \<Rightarrow> jsval \<Rightarrow> js_error + jsval" where
  "sanitizeThread E thread =
     (if \<not> isArray thread then Inr Undefined
      else
        (case mapE (sanitizeSegment E) (elemsOf thread) of
           Inl e \<Rightarrow> Inl e
         | Inr normalized \<Rightarrow> Inr (if length normalized > 0 then Arr normalized else Undefined)))"

definition sanitizeMediaItem :: "'u engine \<Rightarrow> jsval \<Rightarrow> js_error + jsval" where
  "sanitizeMediaItem E item =
     (case toNumberJS E (getOpt item (lit ''threadIndex'')) of
        Inl e \<Rightarrow> Inl e
      | Inr threadIndex \<Rightarrow>
          Inr (if \<not> isInteger threadIndex \<or> numLess threadIndex (Fin 0) then Null
               else if isString (getOpt item (lit ''altText''))
                       \<and> length (trim (strOf (getOpt item (lit ''altText'')))) > 0
               then Obj [(lit ''threadIndex'', Num threadIndex),
                         (lit ''altText'', Str (trim (strOf (getOpt item (lit ''altText'')))))]
               else Obj [(lit ''threadIndex'', Num threadIndex)]))"

definition sanitizeMedia :: "'u engine \<Rightarrow> jsval \<Rightarrow> js_error + jsval" where
  "sanitizeMedia E media =
     (if \<not> isArray media then Inr Undefined
      else
        (case mapE (sanitizeMediaItem E) (elemsOf media) of
           Inl e \<Rightarrow> Inl e
         | Inr mapped \<Rightarrow>
             let normalized = filter truthy mapped
             in Inr (if length normalized > 0 then Arr normalized else Undefined)))"

text \<open>
  \<open>buildGatewayPayload\<close> assigns the properties of \<open>payload\<close> one after the other; each
  assignment is a step on the list of properties.
\<close>

definition setText :: "jsval \<Rightarrow> (jsstring \<times> jsval) list \<Rightarrow> (jsstring \<times> jsval) list" where
  "setText clientPayload payload =
     (if isString (getOpt clientPayload (lit ''text''))
         \<and> length (strOf (getOpt clientPayload (lit ''text''))) > 0
      then AList.update (lit ''text'') (getOpt clientPayload (lit ''text'')) payload
      else payload)"

definition setThread :: "jsval \<Rightarrow> (jsstring \<times> jsval) list \<Rightarrow> (jsstring \<times> jsval) list" where
  "setThread thread payload =
     (if truthy thread then AList.update (lit ''thread'') thread payload else payload)"

definition setScheduleAt :: "jsval \<Rightarrow> (jsstring \<times> jsval) list \<Rightarrow> (jsstring \<times> jsval) list" where
  "setScheduleAt clientPayload payload =
     (if isString (getOpt clientPayload (lit ''scheduleAt''))
         \<and> length (trim (strOf (getOpt clientPayload (lit ''scheduleAt'')))) > 0
      then AList.update (lit ''scheduleAt'') (getOpt clientPayload (lit ''scheduleAt'')) payload
      else payload)"

definition setClientRequestId ::
  "jsval \<Rightarrow> (jsstring \<times> jsval) list \<Rightarrow> (jsstring \<times> jsval) list" where
  "setClientRequestId clientPayload payload =
     (if isString (getOpt clientPayload (lit ''clientRequestId''))
         \<and> length (trim (strOf (getOpt clientPayload (lit ''clientRequestId'')))) > 0
      then AList.update (lit ''clientRequestId'')
             (Str (trim (strOf (getOpt clientPayload (lit ''clientRequestId''))))) payload
      else payload)"

definition setMedia :: "jsval \<Rightarrow> (jsstring \<times> jsval) list \<Rightarrow> (jsstring \<times> jsval) list" where
  "setMedia media payload =
     (if truthy media then AList.update (lit ''media'') media payload else payload)"

definition buildGatewayPayload :: "'u engine \<Rightarrow> jsval \<Rightarrow> jsval \<Rightarrow> js_error + jsval" where
  "buildGatewayPayload E clientPayload targets' =
     (let p1 = setText clientPayload [(lit ''targets'', targets')] in
      case sanitizeThread E (getOpt clientPayload (lit ''thread'')) of
        Inl e \<Rightarrow> Inl e
      | Inr thread \<Rightarrow>
          let p2 = setThread thread p1;
              p3 = setScheduleAt clientPayload p2;
              p4 = setClientRequestId clientPayload p3
          in (case sanitizeMedia E (getOpt clientPayload (lit ''media'')) of
                Inl e \<Rightarrow> Inl e
              | Inr media \<Rightarrow> Inr (Obj (setMedia media p4))))"

section \<open>The helper: replies, the keychain and the gateway\<close>

text \<open>
  A reply is the status code, the headers the handler sets and the value handed to
  \<open>reply.send\<close> (or returned by the handler, under status 200).
\<close>

record reply =
  replyCode :: nat
  replyHeaders :: "(jsstring \<times> jsstring) list"
  replyPayload :: jsval

definition sendProblem :: "nat \<Rightarrow> jsstring \<Rightarrow> jsstring \<Rightarrow> reply" where
  "sendProblem status title detail =
     \<lparr> replyCode = status, replyHeaders = [], replyPayload = problem status title detail \<rparr>"

definition returnValue :: "jsval \<Rightarrow> reply" where
  "returnValue v = \<lparr> replyCode = 200, replyHeaders = [], replyPayload = v \<rparr>"

text \<open>
  The keychain entry of the helper is a string or absent. \<open>readSecrets\<close> parses it.
  \<open>writeSecrets\<close> replaces it: a handler returns the strings it has written, in order,
  and the entry afterwards is the last of them.
\<close>

type_synonym keychain = "jsstring option"

definition readSecrets :: "'u engine \<Rightarrow> keychain \<Rightarrow> jsval" where
  "readSecrets E keychain =
     (case keychain of
        None \<Rightarrow> Obj []
      | Some raw \<Rightarrow>
          if raw = [] then Obj []
          else (case jsonParse E raw of Some v \<Rightarrow> v | None \<Rightarrow> Obj []))"

definition writeSecrets :: "'u engine \<Rightarrow> jsval \<Rightarrow> jsstring list" where
  "writeSecrets E nextSecrets = [jsonStringify E nextSecrets]"

definition keychainAfter :: "keychain \<Rightarrow> jsstring list \<Rightarrow> keychain" where
  "keychainAfter keychain writes = (if writes = [] then keychain else Some (last writes))"

record config =
  gatewayBaseUrl :: jsstring

text \<open>The response of the gateway as \<open>relayUpstream\<close> reads it.\<close>

record upstream =
  upStatus :: nat
  upContentType :: "jsstring option"
  upText :: jsstring

record upload =
  filename :: jsstring
  mimetype :: jsstring
  data :: "8 word list"

datatype req_body = NoBody | JsonBody jsval | FormBody jsval "upload list"









definition isJsonContentType :: "jsstring option \<Rightarrow> bool" where
  "isJsonContentType contentType =
     (case contentType of
        None \<Rightarrow> False
      | Some ct \<Rightarrow> includesStr ct (lit ''application/json'') \<or> includesStr ct (lit ''problem+json''))"

definition relayUpstream :: "'u engine \<Rightarrow> upstream \<Rightarrow> reply" where
  "relayUpstream E upstreamResponse =
     (let contentType = upContentType upstreamResponse;
          payloadText = upText upstreamResponse;
          hdrs = (case contentType of
                    None \<Rightarrow> []
                  | Some ct \<Rightarrow> if ct \<noteq> [] then [(lit ''content-type'', ct)] else [])
      in \<lparr> replyCode = upStatus upstreamResponse,
           replyHeaders = hdrs,
           replyPayload =
             (if isJsonContentType contentType
              then (case jsonParse E payloadText of Some v \<Rightarrow> v | None \<Rightarrow> Str payloadText)
              else Str payloadText) \<rparr>)"

section \<open>The helper: the settings routes\<close>

text \<open>The \<open>profile\<close> object that both settings routes build.\<close>

definition profileOf :: "jsval \<Rightarrow> jsval" where
  "profileOf secrets =
     Obj [(lit ''blueskyIdentifier'',
             coalesce (getOpt (getProp secrets (lit ''bluesky'')) (lit ''identifier'')) (Str [])),
          (lit ''blueskyPdsUrl'',
             coalesce (getOpt (getProp secrets (lit ''bluesky'')) (lit ''pdsUrl''))
               (Str (lit ''https://bsky.social''))),
          (lit ''mastodonInstanceUrl'',
             coalesce (getOpt (getProp secrets (lit ''mastodon'')) (lit ''instanceUrl'')) (Str [])),
          (lit ''mastodonVisibility'',
             coalesce (getOpt (getProp secrets (lit ''mastodon'')) (lit ''visibility''))
               (Str (lit ''public'')))]"

text \<open>
  \<open>GET /api/settings\<close>. The route has no handler of its own for a throw: reading a property
  of a stored \<open>null\<close> is left to the framework.
\<close>

definition getSettings :: "'u engine \<Rightarrow> config \<Rightarrow> keychain \<Rightarrow> js_error + reply" where
  "getSettings E cfg keychain =
     (let secrets = readSecrets E keychain in
      if nullish secrets then Inl (TypeError (cannotRead secrets ''gatewayApiKey''))
      else Inr (returnValue
             (Obj [(lit ''gatewayBaseUrl'', Str (gatewayBaseUrl cfg)),
                   (lit ''configured'', summarizeSecrets secrets),
                   (lit ''profile'', profileOf secrets)])))"

text \<open>\<open>request.body && typeof request.body === 'object' ? request.body : {}\<close>\<close>

definition bodyObject :: "jsval \<Rightarrow> jsval" where
  "bodyObject body = (if truthy body \<and> typeofObject body then body else Obj [])"

definition hasOwn :: "jsval \<Rightarrow> jsstring \<Rightarrow> bool" where
  "hasOwn v k = (map_of (ownEntries v) k \<noteq> None)"

type_synonym props = "(jsstring \<times> jsval) list"

definition saveGatewayApiKey :: "jsval \<Rightarrow> props \<Rightarrow> props" where
  "saveGatewayApiKey body next =
     (if hasOwn body (lit ''gatewayApiKey'')
      then (let gatewayApiKey = trimToUndefined (getProp body (lit ''gatewayApiKey''))
            in if truthy gatewayApiKey
               then AList.update (lit ''gatewayApiKey'') gatewayApiKey next
               else AList.delete (lit ''gatewayApiKey'') next)
      else next)"

definition saveXAuthToken :: "jsval \<Rightarrow> props \<Rightarrow> props" where
  "saveXAuthToken body next =
     (if hasOwn body (lit ''xAuthToken'')
      then (let authToken = trimToUndefined (getProp body (lit ''xAuthToken''))
            in if truthy authToken
               then AList.update (lit ''x'') (Obj [(lit ''authToken'', authToken)]) next
               else AList.delete (lit ''x'') next)
      else next)"

definition touchesBluesky :: "jsval \<Rightarrow> bool" where
  "touchesBluesky body \<longleftrightarrow>
     hasOwn body (lit ''blueskyIdentifier'') \<or> hasOwn body (lit ''blueskyPdsUrl'')
     \<or> hasOwn body (lit ''blueskyAppPassword'')"

definition blueskyIdentifier :: "jsval \<Rightarrow> jsval" where
  "blueskyIdentifier body = trimToUndefined (getProp body (lit ''blueskyIdentifier''))"

definition blueskyPdsUrl :: "'u engine \<Rightarrow> jsval \<Rightarrow> jsval" where
  "blueskyPdsUrl E body =
     (let pdsUrlRaw = trimToUndefined (getProp body (lit ''blueskyPdsUrl''))
      in if truthy pdsUrlRaw then normalizeBaseUrl E pdsUrlRaw else Undefined)"

definition blueskyAppPassword :: "jsval \<Rightarrow> jsval" where
  "blueskyAppPassword body = trimToUndefined (getProp body (lit ''blueskyAppPassword''))"

definition saveBluesky :: "'u engine \<Rightarrow> jsval \<Rightarrow> props \<Rightarrow> reply + props" where
  "saveBluesky E body next =
     (if touchesBluesky body
      then
        (let identifier = blueskyIdentifier body;
             pdsUrl = blueskyPdsUrl E body;
             appPassword = blueskyAppPassword body
         in if \<not> truthy identifier \<and> \<not> truthy pdsUrl \<and> \<not> truthy appPassword
            then Inr (AList.delete (lit ''bluesky'') next)
            else if truthy identifier \<and> truthy pdsUrl \<and> truthy appPassword
            then Inr (AList.update (lit ''bluesky'')
                        (Obj [(lit ''identifier'', identifier),
                              (lit ''pdsUrl'', pdsUrl),
                              (lit ''appPassword'', appPassword)]) next)
            else Inl (sendProblem 400 (lit ''Bluesky credentials incomplete'')
                   (lit ''Set identifier, PDS URL, and app password together, or clear all three.'')))
      else Inr next)"

definition touchesMastodon :: "jsval \<Rightarrow> bool" where
  "touchesMastodon body \<longleftrightarrow>
     hasOwn body (lit ''mastodonInstanceUrl'') \<or> hasOwn body (lit ''mastodonAccessToken'')
     \<or> hasOwn body (lit ''mastodonVisibility'')"

definition mastodonInstanceUrl :: "'u engine \<Rightarrow> jsval \<Rightarrow> jsval" where
  "mastodonInstanceUrl E body =
     (let instanceUrlRaw = trimToUndefined (getProp body (lit ''mastodonInstanceUrl''))
      in if truthy instanceUrlRaw then normalizeBaseUrl E instanceUrlRaw else Undefined)"

definition mastodonAccessToken :: "jsval \<Rightarrow> jsval" where
  "mastodonAccessToken body = trimToUndefined (getProp body (lit ''mastodonAccessToken''))"

definition mastodonVisibility :: "jsval \<Rightarrow> jsval" where
  "mastodonVisibility body =
     coalesce (trimToUndefined (getProp body (lit ''mastodonVisibility''))) (Str (lit ''public''))"

definition saveMastodon :: "'u engine \<Rightarrow> jsval \<Rightarrow> props \<Rightarrow> reply + props" where
  "saveMastodon E body next =
     (if touchesMastodon body
      then
        (let instanceUrl = mastodonInstanceUrl E body;
             accessToken = mastodonAccessToken body;
             visibility = mastodonVisibility body
         in if \<not> truthy instanceUrl \<and> \<not> truthy accessToken
            then Inr (AList.delete (lit ''mastodon'') next)
            else if truthy instanceUrl \<and> truthy accessToken
            then Inr (AList.update (lit ''mastodon'')
                        (Obj [(lit ''instanceUrl'', instanceUrl),
                              (lit ''accessToken'', accessToken),
                              (lit ''visibility'', visibility)]) next)
            else Inl (sendProblem 400 (lit ''Mastodon credentials incomplete'')
                   (lit ''Set instance URL and access token together, or clear both fields.'')))
      else Inr next)"

text \<open>
  The handler refuses a request in two places, the last branch of its Bluesky block and
  the last branch of its Mastodon block. These are the conditions under which each is
  reached, on the values the handler computes.
\<close>

definition blueskyIncomplete :: "'u engine \<Rightarrow> jsval \<Rightarrow> bool" where
  "blueskyIncomplete E body \<longleftrightarrow>
     touchesBluesky body
     \<and> (truthy (blueskyIdentifier body) \<or> truthy (blueskyPdsUrl E body)
          \<or> truthy (blueskyAppPassword body))
     \<and> \<not> (truthy (blueskyIdentifier body) \<and> truthy (blueskyPdsUrl E body)
            \<and> truthy (blueskyAppPassword body))"

definition mastodonIncomplete :: "'u engine \<Rightarrow> jsval \<Rightarrow> bool" where
  "mastodonIncomplete E body \<longleftrightarrow>
     touchesMastodon body
     \<and> (truthy (mastodonInstanceUrl E body) \<noteq> truthy (mastodonAccessToken body))"

text \<open>
  \<open>POST /api/settings/secrets\<close>: the writes to the keychain, and the reply. \<open>next\<close> starts
  as the spread of the stored value.
\<close>

definition nextSecrets :: "'u engine \<Rightarrow> keychain \<Rightarrow> jsval \<Rightarrow> reply + props" where
  "nextSecrets E keychain requestBody =
     (let body = bodyObject requestBody;
          current = readSecrets E keychain;
          next = saveXAuthToken body (saveGatewayApiKey body (ownEntries current))
      in case saveBluesky E body next of
           Inl r \<Rightarrow> Inl r
         | Inr next' \<Rightarrow> saveMastodon E body next')"

definition postSecrets :: "'u engine \<Rightarrow> keychain \<Rightarrow> jsval \<Rightarrow> jsstring list \<times> reply" where
  "postSecrets E keychain requestBody =
     (case nextSecrets E keychain requestBody of
        Inl r \<Rightarrow> ([], r)
      | Inr next \<Rightarrow>
          (writeSecrets E (Obj next),
           returnValue (Obj [(lit ''configured'', summarizeSecrets (Obj next)),
                             (lit ''profile'', profileOf (Obj next))])))"

section \<open>The helper: publishing\<close>

text \<open>
  A request to \<open>POST /api/posts\<close>: its content-type header, the parts of a multipart body
  and the parsed body of any other request.
\<close>

datatype part =
    FilePart "jsstring option" "jsstring option" "8 word list"
  | FieldPart jsstring jsval

record request =
  reqContentType :: "jsstring option"
  reqParts :: "part list"
  reqJson :: jsval

type_synonym collected = "jsstring \<times> upload list"

definition collectPart :: "'u engine \<Rightarrow> part \<Rightarrow> collected \<Rightarrow> js_error + collected" where
  "collectPart E p acc =
     (case p of
        FilePart name type bytes \<Rightarrow>
          Inr (fst acc,
               snd acc @ [\<lparr> filename = (case name of Some n \<Rightarrow> n | None \<Rightarrow> lit ''upload.bin''),
                            mimetype = (case type of Some t \<Rightarrow> t
                                        | None \<Rightarrow> lit ''application/octet-stream''),
                            data = bytes \<rparr>])
      | FieldPart fieldname v \<Rightarrow>
          if fieldname = lit ''payload''
          then (case toStringJS E (coalesce v (Str [])) of
                  Inl e \<Rightarrow> Inl e
                | Inr payloadRaw \<Rightarrow> Inr (payloadRaw, snd acc))
          else Inr acc)"

fun collectParts :: "'u engine \<Rightarrow> part list \<Rightarrow> collected \<Rightarrow> js_error + collected" where
  "collectParts E [] acc = Inr acc"
| "collectParts E (p # ps) acc =
     (case collectPart E p acc of Inl e \<Rightarrow> Inl e | Inr acc' \<Rightarrow> collectParts E ps acc')"

text \<open>
  What the handler has once the request is read: an early reply, or the client payload of
  one of its two branches.
\<close>

datatype received =
    Rejected reply
  | Multipart jsval "upload list"
  | Json jsval

definition receive :: "'u engine \<Rightarrow> request \<Rightarrow> js_error + received" where
  "receive E req =
     (let contentType = (case reqContentType req of Some c \<Rightarrow> c | None \<Rightarrow> [])
      in if includesStr contentType (lit ''multipart/form-data'')
         then
           (case collectParts E (reqParts req) ([], []) of
              Inl e \<Rightarrow> Inl e
            | Inr collected \<Rightarrow>
                if fst collected = []
                then Inr (Rejected (sendProblem 400 (lit ''Missing payload'')
                                      (lit ''payload field is required.'')))
                else
                  (case jsonParse E (fst collected) of
                     None \<Rightarrow> Inr (Rejected (sendProblem 400 (lit ''Invalid payload JSON'')
                                              (lit ''payload must be valid JSON.'')))
                   | Some clientPayload \<Rightarrow> Inr (Multipart clientPayload (snd collected))))
         else Inr (Json (bodyObject (reqJson req))))"


text \<open>\<open>resolveTargetsFromSelection(secrets, clientPayload.selectedTargets)\<close>\<close>

definition resolvedFor :: "jsval \<Rightarrow> jsval \<Rightarrow> js_error + resolved" where
  "resolvedFor secrets clientPayload =
     (case member clientPayload ''selectedTargets'' of
        Inl e \<Rightarrow> Inl e
      | Inr requestedTargets \<Rightarrow> resolveTargetsFromSelection secrets requestedTargets)"






section \<open>The compose pane: validation\<close>

text \<open>
  The state that \<open>getValidationErrors\<close> reads. The web client is typed: its values have
  the shapes of \<open>ComposeDraft\<close>, \<open>DraftMedia\<close>, \<open>TargetSelection\<close> and \<open>LimitsResponse\<close>. Of
  a media file only its MIME type is read. A \<open>threadIndex\<close> is the index of a thread
  segment.
\<close>

datatype compose_mode = Single | Thread

record target_selection =
  selX :: bool
  selBluesky :: bool
  selMastodon :: bool

record draft_media =
  mediaId :: jsstring
  mediaFileType :: jsstring
  mediaThreadIndex :: nat
  mediaAltText :: jsstring

record compose_draft =
  draftMode :: compose_mode
  draftText :: jsstring
  draftThread :: "jsstring list"
  draftScheduleAt :: jsstring
  draftTargets :: target_selection
  draftClientRequestId :: jsstring
  draftMedia :: "draft_media list"

record mastodon_limits =
  mastodonMaxCharacters :: jsnum
  mastodonMaxMediaAttachments :: jsnum

record limits_response =
  xMaxCharacters :: jsnum
  blueskyMaxCharacters :: jsnum
  mastodonLimits :: "mastodon_limits option"

text \<open>
  \<open>[...input].length\<close>: the string iterator yields one item for a high surrogate followed
  by a low surrogate, and one item for any other code unit.
\<close>

definition isHighSurrogate :: "16 word \<Rightarrow> bool" where
  "isHighSurrogate c \<longleftrightarrow> 0xD800 \<le> c \<and> c \<le> 0xDBFF"

definition isLowSurrogate :: "16 word \<Rightarrow> bool" where
  "isLowSurrogate c \<longleftrightarrow> 0xDC00 \<le> c \<and> c \<le> 0xDFFF"

fun codePoints :: "jsstring \<Rightarrow> nat list" where
  "codePoints [] = []"
| "codePoints [c] = [unat c]"
| "codePoints (c # d # rest) =
     (if isHighSurrogate c \<and> isLowSurrogate d
      then (0x10000 + (unat c - 0xD800) * 0x400 + (unat d - 0xDC00)) # codePoints rest
      else unat c # codePoints (d # rest))"

definition countCharacters :: "jsstring \<Rightarrow> nat" where
  "countCharacters input = length (codePoints input)"

text \<open>The limits in force, with the defaults of the client.\<close>

definition xLimitOf :: "limits_response option \<Rightarrow> jsnum" where
  "xLimitOf limits = (case limits of None \<Rightarrow> Fin 280 | Some l \<Rightarrow> xMaxCharacters l)"

definition blueskyLimitOf :: "limits_response option \<Rightarrow> jsnum" where
  "blueskyLimitOf limits = (case limits of None \<Rightarrow> Fin 300 | Some l \<Rightarrow> blueskyMaxCharacters l)"

definition mastodonLimitOf :: "limits_response option \<Rightarrow> jsnum option" where
  "mastodonLimitOf limits =
     (case limits of
        None \<Rightarrow> None
      | Some l \<Rightarrow> (case mastodonLimits l of None \<Rightarrow> None
                   | Some m \<Rightarrow> Some (mastodonMaxCharacters m)))"

definition mastodonMaxMediaOf :: "limits_response option \<Rightarrow> jsnum option" where
  "mastodonMaxMediaOf limits =
     (case limits of
        None \<Rightarrow> None
      | Some l \<Rightarrow> (case mastodonLimits l of None \<Rightarrow> None
                   | Some m \<Rightarrow> Some (mastodonMaxMediaAttachments m)))"

text \<open>\<open>n > limit\<close> for a count \<open>n\<close>.\<close>

definition exceeds :: "nat \<Rightarrow> jsnum \<Rightarrow> bool" where
  "exceeds n limit = numLess limit (Fin (of_nat n))"

definition hasSelectedTarget :: "target_selection \<Rightarrow> bool" where
  "hasSelectedTarget sel \<longleftrightarrow> selX sel \<or> selBluesky sel \<or> selMastodon sel"

definition trimmedSegments :: "compose_draft \<Rightarrow> jsstring list" where
  "trimmedSegments st =
     map trim (if draftMode st = Single then [draftText st] else draftThread st)"

text \<open>The pushes onto \<open>errors\<close>, block by block, in the order of the source.\<close>

definition targetErrors :: "compose_draft \<Rightarrow> jsstring list" where
  "targetErrors st =
     (if \<not> hasSelectedTarget (draftTargets st)
      then [lit ''Select at least one target platform.''] else [])"

definition textErrors :: "compose_draft \<Rightarrow> jsstring list" where
  "textErrors st =
     (if list_all (\<lambda>v. length v = 0) (trimmedSegments st)
      then [lit ''Add post text before publishing.''] else [])"

definition threadErrors :: "compose_draft \<Rightarrow> jsstring list" where
  "threadErrors st =
     (if draftMode st = Thread \<and> list_ex (\<lambda>v. length v = 0) (trimmedSegments st)
      then [lit ''Each thread segment should contain text.''] else [])"

definition segmentLabel :: "compose_mode \<Rightarrow> nat \<Rightarrow> jsstring" where
  "segmentLabel m index = (if m = Single then lit ''Post'' else lit ''Segment '' @ decimal (index + 1))"

definition xLimitMessage :: "'u engine \<Rightarrow> jsstring \<Rightarrow> nat \<Rightarrow> jsnum \<Rightarrow> jsstring" where
  "xLimitMessage E label n xLimit =
     label @ lit '' exceeds X limit ('' @ decimal n @ lit ''/'' @ showNumber E xLimit @ lit '').''"

definition blueskyLimitMessage :: "'u engine \<Rightarrow> jsstring \<Rightarrow> nat \<Rightarrow> jsnum \<Rightarrow> jsstring" where
  "blueskyLimitMessage E label n blueskyLimit =
     label @ lit '' exceeds Bluesky limit ('' @ decimal n @ lit ''/''
       @ showNumber E blueskyLimit @ lit '').''"

definition mastodonLimitMessage :: "'u engine \<Rightarrow> jsstring \<Rightarrow> nat \<Rightarrow> jsnum \<Rightarrow> jsstring" where
  "mastodonLimitMessage E label n mastodonLimit =
     label @ lit '' exceeds Mastodon limit ('' @ decimal n @ lit ''/''
       @ showNumber E mastodonLimit @ lit '').''"

definition segmentLimitErrors ::
  "'u engine \<Rightarrow> compose_draft \<Rightarrow> limits_response option \<Rightarrow> nat \<times> jsstring \<Rightarrow> jsstring list" where
  "segmentLimitErrors E st limits indexed =
     (let index = fst indexed;
          segment = snd indexed;
          label = segmentLabel (draftMode st) index;
          n = countCharacters segment
      in (if selX (draftTargets st) \<and> exceeds n (xLimitOf limits)
          then [xLimitMessage E label n (xLimitOf limits)] else [])
       @ (if selBluesky (draftTargets st) \<and> exceeds n (blueskyLimitOf limits)
          then [blueskyLimitMessage E label n (blueskyLimitOf limits)] else [])
       @ (case mastodonLimitOf limits of
            None \<Rightarrow> []
          | Some mastodonLimit \<Rightarrow>
              if selMastodon (draftTargets st) \<and> numTruthy mastodonLimit
                 \<and> exceeds n mastodonLimit
              then [mastodonLimitMessage E label n mastodonLimit] else []))"

definition limitErrors :: "'u engine \<Rightarrow> compose_draft \<Rightarrow> limits_response option \<Rightarrow> jsstring list" where
  "limitErrors E st limits =
     concat (map (segmentLimitErrors E st limits)
                 (zip [0..<length (trimmedSegments st)] (trimmedSegments st)))"

text \<open>
  The \<open>Map\<close> from \<open>threadIndex\<close> to the media of that segment, in the order in which the
  segments first occur.
\<close>

definition addToSegment ::
  "draft_media \<Rightarrow> (nat \<times> draft_media list) list \<Rightarrow> (nat \<times> draft_media list) list" where
  "addToSegment entry mediaBySegment =
     (let existing = (case map_of mediaBySegment (mediaThreadIndex entry) of
                        Some es \<Rightarrow> es | None \<Rightarrow> [])
      in AList.update (mediaThreadIndex entry) (existing @ [entry]) mediaBySegment)"

definition mediaBySegment :: "draft_media list \<Rightarrow> (nat \<times> draft_media list) list" where
  "mediaBySegment ms = fold addToSegment ms []"

definition isVideo :: "draft_media \<Rightarrow> bool" where
  "isVideo entry = startsWithStr (mediaFileType entry) (lit ''video/'')"

definition isImage :: "draft_media \<Rightarrow> bool" where
  "isImage entry = startsWithStr (mediaFileType entry) (lit ''image/'')"

definition oneVideoMessage :: "nat \<Rightarrow> jsstring" where
  "oneVideoMessage threadIndex' =
     lit ''Bluesky segment '' @ decimal (threadIndex' + 1) @ lit '' allows only one video.''"

definition mixMessage :: "nat \<Rightarrow> jsstring" where
  "mixMessage threadIndex' =
     lit ''Bluesky segment '' @ decimal (threadIndex' + 1)
       @ lit '' cannot mix video and images together.''"

definition imagesMessage :: "nat \<Rightarrow> jsstring" where
  "imagesMessage threadIndex' =
     lit ''Bluesky segment '' @ decimal (threadIndex' + 1) @ lit '' supports up to 4 images.''"

definition blueskySegmentErrors :: "nat \<times> draft_media list \<Rightarrow> jsstring list" where
  "blueskySegmentErrors keyed =
     (let threadIndex' = fst keyed;
          entries = snd keyed;
          videos = filter isVideo entries;
          images = filter isImage entries
      in (if length videos > 1 then [oneVideoMessage threadIndex'] else [])
       @ (if length videos = 1 \<and> length images > 0 then [mixMessage threadIndex'] else [])
       @ (if length videos = 0 \<and> length images > 4 then [imagesMessage threadIndex'] else []))"

definition blueskyMediaErrors :: "compose_draft \<Rightarrow> jsstring list" where
  "blueskyMediaErrors st =
     (if selBluesky (draftTargets st)
      then concat (map blueskySegmentErrors (mediaBySegment (draftMedia st)))
      else [])"

definition countInSegment :: "draft_media \<Rightarrow> (nat \<times> nat) list \<Rightarrow> (nat \<times> nat) list" where
  "countInSegment entry counts =
     AList.update (mediaThreadIndex entry)
       ((case map_of counts (mediaThreadIndex entry) of Some c \<Rightarrow> c | None \<Rightarrow> 0) + 1) counts"

definition mastodonMediaMessage :: "'u engine \<Rightarrow> nat \<Rightarrow> nat \<Rightarrow> jsnum \<Rightarrow> jsstring" where
  "mastodonMediaMessage E threadIndex' total' maxMedia =
     lit ''Mastodon segment '' @ decimal (threadIndex' + 1) @ lit '' exceeds max media (''
       @ decimal total' @ lit ''/'' @ showNumber E maxMedia @ lit '').''"

definition mastodonMediaErrors ::
  "'u engine \<Rightarrow> compose_draft \<Rightarrow> limits_response option \<Rightarrow> jsstring list" where
  "mastodonMediaErrors E st limits =
     (case mastodonMaxMediaOf limits of
        None \<Rightarrow> []
      | Some maxMedia \<Rightarrow>
          if selMastodon (draftTargets st) \<and> numTruthy maxMedia
          then concat (map (\<lambda>counted.
                              if exceeds (snd counted) maxMedia
                              then [mastodonMediaMessage E (fst counted) (snd counted) maxMedia]
                              else [])
                           (fold countInSegment (draftMedia st) []))
          else [])"

definition scheduleErrors :: "'u engine \<Rightarrow> compose_draft \<Rightarrow> bool \<Rightarrow> jsstring list" where
  "scheduleErrors E st wantsSchedule =
     (if wantsSchedule
      then (if trim (draftScheduleAt st) = []
            then [lit ''Set a schedule date/time before scheduling.'']
            else if dateGetTime E (draftScheduleAt st) = NaN
            then [lit ''Schedule date/time is invalid.'']
            else [])
      else [])"

definition getValidationErrors ::
  "'u engine \<Rightarrow> compose_draft \<Rightarrow> limits_response option \<Rightarrow> bool \<Rightarrow> jsstring list" where
  "getValidationErrors E st limits wantsSchedule =
     targetErrors st @ textErrors st @ threadErrors st @ limitErrors E st limits
       @ blueskyMediaErrors st @ mastodonMediaErrors E st limits
       @ scheduleErrors E st wantsSchedule"

section \<open>Validation as the specification words it\<close>

text \<open>
  The UTF-16 encoding of a list of Unicode scalar values (code points that are no
  surrogates), and the media of one thread segment.
\<close>

definition isScalar :: "nat \<Rightarrow> bool" where
  "isScalar cp \<longleftrightarrow> cp < 0xD800 \<or> (0xE000 \<le> cp \<and> cp \<le> 0x10FFFF)"

definition encodeUtf16 :: "nat \<Rightarrow> jsstring" where
  "encodeUtf16 cp =
     (if cp < 0x10000 then [of_nat cp]
      else [of_nat (0xD800 + (cp - 0x10000) div 0x400), of_nat (0xDC00 + (cp - 0x10000) mod 0x400)])"

definition utf16 :: "nat list \<Rightarrow> jsstring" where
  "utf16 cps = concat (map encodeUtf16 cps)"

definition segmentMedia :: "compose_draft \<Rightarrow> nat \<Rightarrow> draft_media list" where
  "segmentMedia st i = filter (\<lambda>entry. mediaThreadIndex entry = i) (draftMedia st)"

definition videoCount :: "compose_draft \<Rightarrow> nat \<Rightarrow> nat" where
  "videoCount st i = length (filter isVideo (segmentMedia st i))"

definition imageCount :: "compose_draft \<Rightarrow> nat \<Rightarrow> nat" where
  "imageCount st i = length (filter isImage (segmentMedia st i))"

text \<open>
  The segments of a draft are its text, in single mode, and the texts of its thread
  otherwise. Segment \<open>i\<close> is called \<open>Post\<close> in single mode and \<open>Segment i+1\<close> in a thread. A
  violation of the character limit of a platform by segment \<open>i\<close> is a message that starts
  with the name of the segment and \<open>exceeds <platform> limit (\<close>; it goes on with the count
  and the limit.
\<close>

definition draftSegments :: "compose_draft \<Rightarrow> jsstring list" where
  "draftSegments st = (if draftMode st = Single then [draftText st] else draftThread st)"

definition segmentName :: "compose_draft \<Rightarrow> nat \<Rightarrow> jsstring" where
  "segmentName st i = (if draftMode st = Single then lit ''Post'' else lit ''Segment '' @ decimal (i + 1))"

definition limitPrefix :: "compose_draft \<Rightarrow> nat \<Rightarrow> string \<Rightarrow> jsstring" where
  "limitPrefix st i platform =
     segmentName st i @ lit '' exceeds '' @ lit platform @ lit '' limit (''"

definition limitViolation ::
  "'u engine \<Rightarrow> compose_draft \<Rightarrow> nat \<Rightarrow> string \<Rightarrow> nat \<Rightarrow> jsnum \<Rightarrow> jsstring" where
  "limitViolation E st i platform n limit =
     limitPrefix st i platform @ decimal n @ lit ''/'' @ showNumber E limit @ lit '').''"

text \<open>What one segment contributes to \<open>errors\<close> against each platform.\<close>

definition xViolation :: "'u engine \<Rightarrow> compose_draft \<Rightarrow> limits_response option \<Rightarrow> nat \<Rightarrow> jsstring \<Rightarrow> jsstring list" where
  "xViolation E st limits i segment =
     (if selX (draftTargets st) \<and> exceeds (countCharacters segment) (xLimitOf limits)
      then [xLimitMessage E (segmentLabel (draftMode st) i) (countCharacters segment) (xLimitOf limits)]
      else [])"

definition blueskyViolation :: "'u engine \<Rightarrow> compose_draft \<Rightarrow> limits_response option \<Rightarrow> nat \<Rightarrow> jsstring \<Rightarrow> jsstring list" where
  "blueskyViolation E st limits i segment =
     (if selBluesky (draftTargets st) \<and> exceeds (countCharacters segment) (blueskyLimitOf limits)
      then [blueskyLimitMessage E (segmentLabel (draftMode st) i) (countCharacters segment)
              (blueskyLimitOf limits)]
      else [])"

definition mastodonViolation :: "'u engine \<Rightarrow> compose_draft \<Rightarrow> limits_response option \<Rightarrow> nat \<Rightarrow> jsstring \<Rightarrow> jsstring list" where
  "mastodonViolation E st limits i segment =
     (case mastodonLimitOf limits of
        None \<Rightarrow> []
      | Some mastodonLimit \<Rightarrow>
          if selMastodon (draftTargets st) \<and> numTruthy mastodonLimit
             \<and> exceeds (countCharacters segment) mastodonLimit
          then [mastodonLimitMessage E (segmentLabel (draftMode st) i) (countCharacters segment)
                  mastodonLimit]
          else [])"

section \<open>The settings routes as the specification words them\<close>

text \<open>
  The request body gives a field when it holds a non-empty string under the name of the
  field, and it sets the field when that string is not blank. The Bluesky tuple has three
  fields, and of the Mastodon tuple the instance URL and the access token go together. A
  tuple is set partially when some of its fields are and some are not, and together when
  all are. It is sent empty when the body names one of its fields and none is set.
\<close>

definition fieldGiven :: "jsval \<Rightarrow> jsstring \<Rightarrow> bool" where
  "fieldGiven body k \<longleftrightarrow> isString (getProp body k) \<and> strOf (getProp body k) \<noteq> []"

definition fieldSet :: "jsval \<Rightarrow> jsstring \<Rightarrow> bool" where
  "fieldSet body k \<longleftrightarrow> isString (getProp body k) \<and> trim (strOf (getProp body k)) \<noteq> []"

definition blueskyFields :: "jsstring list" where
  "blueskyFields = [lit ''blueskyIdentifier'', lit ''blueskyPdsUrl'', lit ''blueskyAppPassword'']"

definition mastodonFields :: "jsstring list" where
  "mastodonFields = [lit ''mastodonInstanceUrl'', lit ''mastodonAccessToken'']"

definition partially :: "(jsstring \<Rightarrow> bool) \<Rightarrow> jsstring list \<Rightarrow> bool" where
  "partially has names \<longleftrightarrow> list_ex has names \<and> \<not> list_all has names"

definition together :: "(jsstring \<Rightarrow> bool) \<Rightarrow> jsstring list \<Rightarrow> bool" where
  "together has names \<longleftrightarrow> list_all has names"

definition sentEmpty :: "jsval \<Rightarrow> jsstring list \<Rightarrow> bool" where
  "sentEmpty body names \<longleftrightarrow> list_ex (hasOwn body) names \<and> \<not> list_ex (fieldSet body) names"

text \<open>
  The URL fields of a request are well formed when each of them that is set is a URL with
  the protocol \<open>http:\<close> or \<open>https:\<close>, that is, one for which \<open>normalizeBaseUrl\<close> has a
  result.
\<close>

definition urlFields :: "jsstring list" where
  "urlFields = [lit ''blueskyPdsUrl'', lit ''mastodonInstanceUrl'']"

definition urlsWellFormed :: "'u engine \<Rightarrow> jsval \<Rightarrow> bool" where
  "urlsWellFormed E body \<longleftrightarrow>
     list_all (\<lambda>k. fieldSet body k \<longrightarrow> truthy (normalizeBaseUrl E (getProp body k))) urlFields"

text \<open>
  Two stored values agree up to their secrets when they have the same four profile fields
  and each of the four secret fields (\<open>gatewayApiKey\<close>, \<open>x.authToken\<close>,
  \<open>bluesky.appPassword\<close>, \<open>mastodon.accessToken\<close>) is present in both or in neither.
\<close>

definition sameButSecrets :: "jsval \<Rightarrow> jsval \<Rightarrow> bool" where
  "sameButSecrets s s' \<longleftrightarrow>
     truthy (getProp s (lit ''gatewayApiKey'')) = truthy (getProp s' (lit ''gatewayApiKey''))
     \<and> truthy (getOpt (getProp s (lit ''x'')) (lit ''authToken''))
         = truthy (getOpt (getProp s' (lit ''x'')) (lit ''authToken''))
     \<and> truthy (getOpt (getProp s (lit ''bluesky'')) (lit ''appPassword''))
         = truthy (getOpt (getProp s' (lit ''bluesky'')) (lit ''appPassword''))
     \<and> truthy (getOpt (getProp s (lit ''mastodon'')) (lit ''accessToken''))
         = truthy (getOpt (getProp s' (lit ''mastodon'')) (lit ''accessToken''))
     \<and> getOpt (getProp s (lit ''bluesky'')) (lit ''identifier'')
         = getOpt (getProp s' (lit ''bluesky'')) (lit ''identifier'')
     \<and> getOpt (getProp s (lit ''bluesky'')) (lit ''pdsUrl'')
         = getOpt (getProp s' (lit ''bluesky'')) (lit ''pdsUrl'')
     \<and> getOpt (getProp s (lit ''mastodon'')) (lit ''instanceUrl'')
         = getOpt (getProp s' (lit ''mastodon'')) (lit ''instanceUrl'')
     \<and> getOpt (getProp s (lit ''mastodon'')) (lit ''visibility'')
         = getOpt (getProp s' (lit ''mastodon'')) (lit ''visibility'')"

text \<open>The settings object of both routes: booleans under \<open>configured\<close>, the profile.\<close>

definition settingsView :: "jsval \<Rightarrow> (jsstring \<times> jsval) list" where
  "settingsView secrets =
     [(lit ''configured'', summarizeSecrets secrets), (lit ''profile'', profileOf secrets)]"

section \<open>The gateway payload as the specification words it\<close>

text \<open>
  The client sends a text when \<open>text\<close> is a non-empty string, and a thread when \<open>thread\<close>
  is a non-empty array. A thread element is coerced to \<open>{text: s}\<close>, where \<open>s\<close> is the
  string the helper makes of its \<open>text\<close>. A payload is plain when the \<open>text\<close> of every
  thread element and the \<open>threadIndex\<close> of every media item is no object and no array:
  then no conversion can throw.
\<close>

fun primitive :: "jsval \<Rightarrow> bool" where
  "primitive (Arr _) = False"
| "primitive (Obj _) = False"
| "primitive _ = True"

definition plainPayload :: "jsval \<Rightarrow> bool" where
  "plainPayload clientPayload \<longleftrightarrow>
     list_all (\<lambda>segment. primitive (getOpt segment (lit ''text'')))
       (elemsOf (getOpt clientPayload (lit ''thread'')))
     \<and> list_all (\<lambda>item. primitive (getOpt item (lit ''threadIndex'')))
       (elemsOf (getOpt clientPayload (lit ''media'')))"

definition sendsText :: "jsval \<Rightarrow> bool" where
  "sendsText clientPayload \<longleftrightarrow>
     isString (getOpt clientPayload (lit ''text''))
     \<and> strOf (getOpt clientPayload (lit ''text'')) \<noteq> []"

definition sendsThread :: "jsval \<Rightarrow> bool" where
  "sendsThread clientPayload \<longleftrightarrow>
     isArray (getOpt clientPayload (lit ''thread''))
     \<and> elemsOf (getOpt clientPayload (lit ''thread'')) \<noteq> []"

definition coerced :: "'u engine \<Rightarrow> jsval \<Rightarrow> jsval \<Rightarrow> bool" where
  "coerced E segment out \<longleftrightarrow> (\<exists>s. segmentText E segment = Inr s \<and> out = Obj [(lit ''text'', Str s)])"


section \<open>An engine for the examples\<close>

text \<open>
  The examples below are evaluated with this engine. It parses the JSON texts the examples
  use, and its URLs are strings that start with \<open>http://\<close> or \<open>https://\<close>, taken as they
  are.
\<close>

definition exampleEngine :: "jsstring engine" where
  "exampleEngine =
     \<lparr> numberToString = (\<lambda>n. lit ''NaN''),
       stringToNumber = (\<lambda>s. NaN),
       jsonParse = (\<lambda>s. if s = lit ''{}'' then Some (Obj [])
                         else if s = lit ''null'' then Some Null
                         else None),
       jsonStringify = (\<lambda>v. if v = Obj [] then lit ''{}'' else lit ''{...}''),
       urlParse = (\<lambda>s. if prefix (lit ''http://'') s \<or> prefix (lit ''https://'') s
                        then Some s else None),
       urlProtocol = (\<lambda>u. takeWhile (\<lambda>c. c \<noteq> 0x3A) u @ [0x3A]),
       urlPathname = (\<lambda>u. []),
       urlSetPathname = (\<lambda>u p. u),
       urlSetSearch = (\<lambda>u q. u),
       urlSetHash = (\<lambda>u h. u),
       urlToString = (\<lambda>u. u),
       dateGetTime = (\<lambda>s. NaN),
       invalidHeaderMessage = (\<lambda>v. lit ''invalid header value'') \<rparr>"

text \<open>Drafts and media for the examples: no schedule, no request id, no alt text.\<close>

definition exampleDraft ::
  "compose_mode \<Rightarrow> jsstring \<Rightarrow> jsstring list \<Rightarrow> target_selection \<Rightarrow> draft_media list
     \<Rightarrow> compose_draft" where
  "exampleDraft m t segments sel ms =
     \<lparr> draftMode = m, draftText = t, draftThread = segments, draftScheduleAt = [],
       draftTargets = sel, draftClientRequestId = [], draftMedia = ms \<rparr>"

definition exampleMedia :: "string \<Rightarrow> nat \<Rightarrow> draft_media" where
  "exampleMedia type i =
     \<lparr> mediaId = [], mediaFileType = lit type, mediaThreadIndex = i, mediaAltText = [] \<rparr>"

definition onlyX :: target_selection where
  "onlyX = \<lparr> selX = True, selBluesky = False, selMastodon = False \<rparr>"

definition onlyBluesky :: target_selection where
  "onlyBluesky = \<lparr> selX = False, selBluesky = True, selMastodon = False \<rparr>"

definition allTargets :: target_selection where
  "allTargets = \<lparr> selX = True, selBluesky = True, selMastodon = True \<rparr>"

definition allButX :: target_selection where
  "allButX = \<lparr> selX = False, selBluesky = True, selMastodon = True \<rparr>"

text \<open>A string of \<open>n\<close> emoji U+1F600, each a surrogate pair.\<close>

definition emoji :: "nat \<Rightarrow> jsstring" where
  "emoji n = utf16 (replicate n 0x1F600)"

text \<open>A string of \<open>n\<close> letters \<open>a\<close> followed by one space.\<close>

definition padded :: "nat \<Rightarrow> jsstring" where
  "padded n = replicate n 0x61 @ [0x20]"

section \<open>Basic facts\<close>

lemma unat_of_char16: "unat (of_char c :: 16 word) = of_char c"
proof -
  have "(of_char c :: 16 word) = of_nat (of_char c)"
    by (simp add: of_nat_of_char)
  moreover have "(of_char c :: nat) < 2 ^ 16"
    by (rule less_trans [OF nat_of_char_less_256]) simp
  ultimately show ?thesis
    by (simp add: unat_of_nat)
qed

lemma of_char16_inj: "(of_char c :: 16 word) = of_char d \<longleftrightarrow> c = d"
proof
  assume "(of_char c :: 16 word) = of_char d"
  then have "unat (of_char c :: 16 word) = unat (of_char d :: 16 word)" by simp
  then have "(of_char c :: nat) = of_char d" by (simp only: unat_of_char16)
  then show "c = d" by simp
qed simp

lemma lit_eq_iff [simp]: "lit a = lit b \<longleftrightarrow> a = b"
  unfolding lit_def by (simp add: inj_map_eq_map inj_def of_char16_inj)

lemma lit_Nil [simp]: "lit [] = []"
  by (simp add: lit_def)

lemma lit_eq_Nil [simp]: "lit s = [] \<longleftrightarrow> s = []"
  by (simp add: lit_def)

text \<open>Trimming: a string with no blank at either end is its own trim, and a trim is such a string.\<close>

lemma dropWhile_hd: "xs = [] \<or> \<not> P (hd xs) \<Longrightarrow> dropWhile P xs = xs"
  by (cases xs) auto

lemma trim_id:
  assumes "s = [] \<or> (\<not> isWhiteSpace (hd s) \<and> \<not> isWhiteSpace (last s))"
  shows "trim s = s"
proof -
  have 1: "dropWhile isWhiteSpace s = s"
    using assms by (intro dropWhile_hd) auto
  have "rev s = [] \<or> \<not> isWhiteSpace (hd (rev s))"
    using assms by (cases "s = []") (auto simp: hd_rev)
  then have 2: "dropWhile isWhiteSpace (rev s) = rev s"
    by (rule dropWhile_hd)
  show ?thesis by (simp add: trim_def 1 2)
qed

lemma last_dropWhile: "dropWhile P xs \<noteq> [] \<Longrightarrow> last (dropWhile P xs) = last xs"
  by (induction xs) (auto split: if_splits)

lemma trim_ends:
  assumes "trim s \<noteq> []"
  shows "\<not> isWhiteSpace (hd (trim s)) \<and> \<not> isWhiteSpace (last (trim s))"
proof -
  let ?t = "dropWhile isWhiteSpace s"
  let ?u = "dropWhile isWhiteSpace (rev ?t)"
  from assms have u: "?u \<noteq> []" by (simp add: trim_def)
  have t: "?t \<noteq> []"
  proof
    assume a: "?t = []"
    have "?u = []" unfolding a by simp
    with u show False by (simp only:)
  qed
  have "\<not> isWhiteSpace (hd ?u)" using u by (rule hd_dropWhile)
  then have l: "\<not> isWhiteSpace (last (trim s))" using u by (simp add: trim_def last_rev)
  have "last ?u = last (rev ?t)" using u by (rule last_dropWhile)
  also have "\<dots> = hd ?t" using t by (simp add: last_rev)
  finally have "hd (trim s) = hd ?t" using u by (simp add: trim_def hd_rev)
  moreover have "\<not> isWhiteSpace (hd ?t)" using t by (rule hd_dropWhile)
  ultimately show ?thesis using l by simp
qed

lemma trim_trim: "trim (trim s) = trim s"
  using trim_ends [of s] by (intro trim_id) auto

section \<open>The credential resolver\<close>

lemma platforms_distinct: "distinct platforms"
  by (simp add: platforms_def)

lemma filter_other_key:
  "k \<notin> set ks \<Longrightarrow> filter (\<lambda>k'. if k' = k then P else R k') ks = filter R ks"
  by (induction ks) auto

lemma count_keys:
  assumes "distinct ks" "k \<in> set ks" "\<not> R k"
  shows "length (filter (\<lambda>k'. if k' = k then P else R k') ks)
       = (if P then 1 else 0) + length (filter R ks)"
  using assms
proof (induction ks)
  case Nil
  then show ?case by simp
next
  case (Cons a ks)
  show ?case
  proof (cases "a = k")
    case True
    with Cons.prems have "k \<notin> set ks" by simp
    from filter_other_key [OF this, of P R] True Cons.prems(3) show ?thesis by simp
  next
    case False
    with Cons have "length (filter (\<lambda>k'. if k' = k then P else R k') ks)
                  = (if P then 1 else 0) + length (filter R ks)"
      by simp
    with False show ?thesis by simp
  qed
qed

text \<open>
  Counting the values of an object that satisfy \<open>P\<close> is counting, among any duplicate-free
  list of keys that covers the object's keys, those whose property satisfies \<open>P\<close>.
\<close>

lemma values_count:
  assumes "distinct (map fst kvs)" "set (map fst kvs) \<subseteq> set ks" "distinct ks"
  shows "length (filter P (map snd kvs)) =
         length (filter (\<lambda>k. case map_of kvs k of Some v \<Rightarrow> P v | None \<Rightarrow> False) ks)"
  using assms
proof (induction kvs)
  case Nil
  then show ?case by simp
next
  case (Cons kv kvs)
  obtain k v where kv: "kv = (k, v)" by (cases kv)
  from Cons.prems kv have k: "k \<in> set ks" "k \<notin> fst ` set kvs" by auto
  then have none: "map_of kvs k = None" by (simp add: map_of_eq_None_iff)
  have IH: "length (filter P (map snd kvs)) =
         length (filter (\<lambda>k. case map_of kvs k of Some v \<Rightarrow> P v | None \<Rightarrow> False) ks)"
    using Cons by simp
  have "(\<lambda>k'. case map_of (kv # kvs) k' of Some v \<Rightarrow> P v | None \<Rightarrow> False)
      = (\<lambda>k'. if k' = k then P v
               else (case map_of kvs k' of Some v \<Rightarrow> P v | None \<Rightarrow> False))"
    by (auto simp: kv fun_eq_iff)
  then show ?case
    using count_keys [OF Cons.prems(3) k(1),
        of "\<lambda>k'. case map_of kvs k' of Some v \<Rightarrow> P v | None \<Rightarrow> False" "P v"] none IH
    by (simp add: kv)
qed

lemma selectedCount_platformSelection:
  assumes "platformSelection sel"
  shows "length (filter truthy (objectValues sel)) = length (requestedPlatforms sel)"
proof -
  from assms obtain kvs where sel: "sel = Obj kvs" by (cases sel) auto
  with assms have d: "distinct (map fst kvs)" and s: "set (map fst kvs) \<subseteq> set platforms"
    by (auto simp: list_all_iff)
  have "(\<lambda>k. case map_of kvs k of Some v \<Rightarrow> truthy v | None \<Rightarrow> False) = requested sel"
    by (auto simp: fun_eq_iff requested_def sel split: option.splits)
  with values_count [OF d s platforms_distinct, of truthy]
  show ?thesis by (simp add: objectValues_def sel requestedPlatforms_def)
qed

lemmas resolve_defs =
  resolveTargetsFromSelection_def Let_def resolveX_def resolveBluesky_def resolveMastodon_def
  pushMissing_def setTarget_def

lemmas secrets_defs =
  hasX_def hasBluesky_def hasMastodon_def getOpt_def jsAnd_def coalesce_def
  xBlock_def blueskyBlock_def mastodonBlock_def

lemma resolve_shape:
  assumes "\<not> nullish secrets"
  shows "resolveTargetsFromSelection secrets req =
     Inr \<lparr> targets = Obj (map (\<lambda>p. (p, authBlock secrets p))
               (filter (\<lambda>p. requested (selectedOf secrets req) p \<and> credentialed secrets p)
                  platforms)),
           missing = filter (\<lambda>p. requested (selectedOf secrets req) p \<and> \<not> credentialed secrets p)
                       platforms,
           selectedCount = length (filter truthy (objectValues (selectedOf secrets req))) \<rparr>"
  using assms
  by (simp add: resolve_defs platforms_def requested_def credentialed_def authBlock_def)

lemma default_selection:
  assumes "nullish req" "p \<in> set platforms"
  shows "requested (selectedOf secrets req) p \<longleftrightarrow> credentialed secrets p"
  using assms
  by (auto simp: selectedOf_def coalesce_def requested_def credentialed_def platforms_def)

lemma default_platformSelection: "nullish req \<Longrightarrow> platformSelection (selectedOf secrets req)"
  by (simp add: selectedOf_def coalesce_def platforms_def)

text \<open>
  Claim C1, as the code has it. For every stored-secrets value that is not nullish and every
  requested selection, \<open>resolveTargetsFromSelection\<close> returns: \<open>targets\<close> holding the
  authenticated block of exactly the platforms that are both selected and fully credentialed
  (in the order x, bluesky, mastodon); \<open>missing\<close> listing exactly the selected platforms
  without complete credentials; and \<open>selectedCount\<close> the number of truthy own property
  values of the selection, which is the number of platforms the selection requested whenever
  the selection is an object with no other keys than the three platforms. A requested
  selection that is \<open>undefined\<close> (or \<open>null\<close>) defaults to exactly the credentialed
  platforms.
\<close>

theorem C1_resolveTargetsFromSelection:
  assumes "\<not> nullish secrets"
  shows "resolveTargetsFromSelection secrets req =
     Inr \<lparr> targets = Obj (map (\<lambda>p. (p, authBlock secrets p))
               (filter (\<lambda>p. requested (selectedOf secrets req) p \<and> credentialed secrets p)
                  platforms)),
           missing = filter (\<lambda>p. requested (selectedOf secrets req) p \<and> \<not> credentialed secrets p)
                       platforms,
           selectedCount = length (filter truthy (objectValues (selectedOf secrets req))) \<rparr>
     \<and> (platformSelection (selectedOf secrets req) \<longrightarrow>
          length (filter truthy (objectValues (selectedOf secrets req)))
            = length (requestedPlatforms (selectedOf secrets req)))
     \<and> (nullish req \<longrightarrow>
          platformSelection (selectedOf secrets req)
          \<and> (\<forall>p \<in> set platforms.
                requested (selectedOf secrets req) p \<longleftrightarrow> credentialed secrets p))"
  using resolve_shape [OF assms] selectedCount_platformSelection
    default_selection default_platformSelection
  by blast

text \<open>
  The two examples of the specification: nothing stored and nothing requested; and X
  stored, X and Bluesky requested.
\<close>

theorem C1_resolveTargetsFromSelection_witness:
  "\<not> nullish (Obj [])
   \<and> nullish Undefined
   \<and> platformSelection (selectedOf (Obj []) Undefined)
   \<and> resolveTargetsFromSelection (Obj []) Undefined
       = Inr \<lparr> targets = Obj [], missing = [], selectedCount = 0 \<rparr>
   \<and> resolveTargetsFromSelection
        (Obj [(lit ''x'', Obj [(lit ''authToken'', Str (lit ''t0k''))])])
        (Obj [(lit ''x'', Bool True), (lit ''bluesky'', Bool True), (lit ''mastodon'', Bool False)])
       = Inr \<lparr> targets = Obj [(lit ''x'', Obj [(lit ''authToken'', Str (lit ''t0k'')),
                                                 (lit ''client'', Str (lit ''web''))])],
               missing = [lit ''bluesky''],
               selectedCount = 2 \<rparr>"
  using C1_resolveTargetsFromSelection [of "Obj []" Undefined]
    C1_resolveTargetsFromSelection
      [of "Obj [(lit ''x'', Obj [(lit ''authToken'', Str (lit ''t0k''))])]"
          "Obj [(lit ''x'', Bool True), (lit ''bluesky'', Bool True), (lit ''mastodon'', Bool False)]"]
  by (simp add: selectedOf_def secrets_defs platforms_def requested_def credentialed_def
      authBlock_def objectValues_def requestedPlatforms_def)

text \<open>
  \<open>selectedCount\<close> is not the number of requested platforms for every selection: a selection
  with a truthy entry under a key that is no platform counts that entry too.
\<close>

theorem C1_selectedCount_counterexample:
  "resolveTargetsFromSelection (Obj [])
       (Obj [(lit ''x'', Bool True), (lit ''note'', Str (lit ''soon''))])
     = Inr \<lparr> targets = Obj [], missing = [lit ''x''], selectedCount = 2 \<rparr>
   \<and> requestedPlatforms (Obj [(lit ''x'', Bool True), (lit ''note'', Str (lit ''soon''))]) = [lit ''x'']"
  by (simp add: resolve_defs selectedOf_def secrets_defs objectValues_def
      requestedPlatforms_def platforms_def requested_def)

section \<open>Relaying the gateway's response\<close>

text \<open>
  Claim C8, as the code has it. For every upstream response, \<open>relayUpstream\<close> replies under
  the upstream's status code. When the content type contains neither \<open>application/json\<close>
  nor \<open>problem+json\<close> (or is absent), the body text is sent unchanged. When it does, the
  text is parsed and the parsed value is sent if the text parses, and the text is sent
  unchanged if it does not.
\<close>

theorem C8_relayUpstream:
  "replyCode (relayUpstream E up) = upStatus up
   \<and> (\<not> isJsonContentType (upContentType up) \<longrightarrow>
         replyPayload (relayUpstream E up) = Str (upText up))
   \<and> (isJsonContentType (upContentType up) \<longrightarrow>
         replyPayload (relayUpstream E up)
           = (case jsonParse E (upText up) of Some v \<Rightarrow> v | None \<Rightarrow> Str (upText up)))"
  by (simp add: relayUpstream_def Let_def)

text \<open>A plain-text 502, and a problem document under 422.\<close>

theorem C8_relayUpstream_witness:
  "\<not> isJsonContentType (Some (lit ''text/plain''))
   \<and> relayUpstream exampleEngine
        \<lparr> upStatus = 502, upContentType = Some (lit ''text/plain''),
          upText = lit ''Bad Gateway'' \<rparr>
       = \<lparr> replyCode = 502, replyHeaders = [(lit ''content-type'', lit ''text/plain'')],
           replyPayload = Str (lit ''Bad Gateway'') \<rparr>
   \<and> isJsonContentType (Some (lit ''application/problem+json''))
   \<and> relayUpstream exampleEngine
        \<lparr> upStatus = 422, upContentType = Some (lit ''application/problem+json''),
          upText = lit ''{}'' \<rparr>
       = \<lparr> replyCode = 422,
           replyHeaders = [(lit ''content-type'', lit ''application/problem+json'')],
           replyPayload = Obj [] \<rparr>"
  using C8_relayUpstream [of exampleEngine
          "\<lparr> upStatus = 502, upContentType = Some (lit ''text/plain''),
             upText = lit ''Bad Gateway'' \<rparr>"]
    C8_relayUpstream [of exampleEngine
          "\<lparr> upStatus = 422, upContentType = Some (lit ''application/problem+json''),
             upText = lit ''{}'' \<rparr>"]
  by (simp add: relayUpstream_def Let_def exampleEngine_def isJsonContentType_def
      includesStr_def sublist_code lit_def)

text \<open>
  Under a JSON content type, a body that is no JSON text is not parsed: it is sent as it
  came.
\<close>

theorem C8_unparsable_counterexample:
  "isJsonContentType (Some (lit ''application/json''))
   \<and> jsonParse exampleEngine (lit ''<html>Bad Gateway</html>'') = None
   \<and> relayUpstream exampleEngine
        \<lparr> upStatus = 502, upContentType = Some (lit ''application/json''),
          upText = lit ''<html>Bad Gateway</html>'' \<rparr>
       = \<lparr> replyCode = 502,
           replyHeaders = [(lit ''content-type'', lit ''application/json'')],
           replyPayload = Str (lit ''<html>Bad Gateway</html>'') \<rparr>"
  by (simp add: relayUpstream_def Let_def exampleEngine_def isJsonContentType_def
      includesStr_def sublist_code lit_def)

section \<open>Publishing: the two checks on the resolved targets\<close>

lemma bodyObject_not_nullish: "\<not> nullish (bodyObject b)"
  by (cases b) (simp_all add: bodyObject_def)

text \<open>
  A request that is not multipart always yields a client payload, and the resolver returns
  for it unless the stored value is \<open>null\<close>.
\<close>

lemma json_request_resolved:
  assumes "\<not> includesStr (case reqContentType req of Some c \<Rightarrow> c | None \<Rightarrow> [])
               (lit ''multipart/form-data'')"
    and "\<not> nullish (readSecrets E keychain)"
  shows "\<exists>r. receive E req = Inr (Json (bodyObject (reqJson req)))
           \<and> resolvedFor (readSecrets E keychain) (bodyObject (reqJson req)) = Inr r"
  using assms bodyObject_not_nullish [of "reqJson req"]
  by (simp add: receive_def Let_def resolvedFor_def member_def resolveTargetsFromSelection_def)








section \<open>Saving secrets\<close>

lemma truthy_trimToUndefined:
  "truthy (trimToUndefined v) \<longleftrightarrow> isString v \<and> trim (strOf v) \<noteq> []"
  by (simp add: trimToUndefined_def)

lemma trimToUndefined_Str:
  "isString v \<Longrightarrow> trim (strOf v) \<noteq> [] \<Longrightarrow> trimToUndefined v = Str (trim (strOf v))"
  by (simp add: trimToUndefined_def)

lemma normalize_trimmed: "normalizeBaseUrl E (Str (trim s)) = normalizeBaseUrl E (Str s)"
  by (simp add: normalizeBaseUrl_def trim_trim)

lemma fieldSet_hasOwn: "fieldSet body k \<Longrightarrow> hasOwn body k"
  by (cases body) (auto simp: fieldSet_def hasOwn_def split: option.splits)

lemma identifier_set:
  "truthy (blueskyIdentifier body) \<longleftrightarrow> fieldSet body (lit ''blueskyIdentifier'')"
  by (simp add: blueskyIdentifier_def truthy_trimToUndefined fieldSet_def)

lemma appPassword_set:
  "truthy (blueskyAppPassword body) \<longleftrightarrow> fieldSet body (lit ''blueskyAppPassword'')"
  by (simp add: blueskyAppPassword_def truthy_trimToUndefined fieldSet_def)

lemma accessToken_set:
  "truthy (mastodonAccessToken body) \<longleftrightarrow> fieldSet body (lit ''mastodonAccessToken'')"
  by (simp add: mastodonAccessToken_def truthy_trimToUndefined fieldSet_def)

lemma pdsUrl_value:
  "blueskyPdsUrl E body =
     (if fieldSet body (lit ''blueskyPdsUrl'')
      then normalizeBaseUrl E (getProp body (lit ''blueskyPdsUrl'')) else Undefined)"
proof (cases "fieldSet body (lit ''blueskyPdsUrl'')")
  case True
  then obtain s where s: "getProp body (lit ''blueskyPdsUrl'') = Str s" "trim s \<noteq> []"
    by (cases "getProp body (lit ''blueskyPdsUrl'')") (auto simp: fieldSet_def)
  then show ?thesis
    using True by (simp add: blueskyPdsUrl_def trimToUndefined_def normalize_trimmed)
next
  case False
  then show ?thesis
    by (auto simp: blueskyPdsUrl_def Let_def truthy_trimToUndefined fieldSet_def)
qed

lemma instanceUrl_value:
  "mastodonInstanceUrl E body =
     (if fieldSet body (lit ''mastodonInstanceUrl'')
      then normalizeBaseUrl E (getProp body (lit ''mastodonInstanceUrl'')) else Undefined)"
proof (cases "fieldSet body (lit ''mastodonInstanceUrl'')")
  case True
  then obtain s where s: "getProp body (lit ''mastodonInstanceUrl'') = Str s" "trim s \<noteq> []"
    by (cases "getProp body (lit ''mastodonInstanceUrl'')") (auto simp: fieldSet_def)
  then show ?thesis
    using True by (simp add: mastodonInstanceUrl_def trimToUndefined_def normalize_trimmed)
next
  case False
  then show ?thesis
    by (auto simp: mastodonInstanceUrl_def Let_def truthy_trimToUndefined fieldSet_def)
qed

lemma pdsUrl_set:
  "urlsWellFormed E body \<Longrightarrow>
     truthy (blueskyPdsUrl E body) \<longleftrightarrow> fieldSet body (lit ''blueskyPdsUrl'')"
  by (simp add: pdsUrl_value urlsWellFormed_def urlFields_def)

lemma instanceUrl_set:
  "urlsWellFormed E body \<Longrightarrow>
     truthy (mastodonInstanceUrl E body) \<longleftrightarrow> fieldSet body (lit ''mastodonInstanceUrl'')"
  by (simp add: instanceUrl_value urlsWellFormed_def urlFields_def)

lemma incomplete_partially:
  assumes "urlsWellFormed E body"
  shows "blueskyIncomplete E body \<longleftrightarrow> partially (fieldSet body) blueskyFields"
  using fieldSet_hasOwn [of body "lit ''blueskyIdentifier''"]
    fieldSet_hasOwn [of body "lit ''blueskyPdsUrl''"]
    fieldSet_hasOwn [of body "lit ''blueskyAppPassword''"]
  by (auto simp: blueskyIncomplete_def partially_def blueskyFields_def identifier_set
      appPassword_set pdsUrl_set [OF assms] touchesBluesky_def)

lemma mastodon_incomplete_partially:
  assumes "urlsWellFormed E body"
  shows "mastodonIncomplete E body \<longleftrightarrow> partially (fieldSet body) mastodonFields"
  using fieldSet_hasOwn [of body "lit ''mastodonInstanceUrl''"]
    fieldSet_hasOwn [of body "lit ''mastodonAccessToken''"]
  by (auto simp: mastodonIncomplete_def partially_def mastodonFields_def accessToken_set
      instanceUrl_set [OF assms] touchesMastodon_def)


lemma saveBluesky_incomplete:
  "blueskyIncomplete E body \<Longrightarrow> saveBluesky E body next =
      Inl (sendProblem 400 (lit ''Bluesky credentials incomplete'')
             (lit ''Set identifier, PDS URL, and app password together, or clear all three.''))"
  by (auto simp: blueskyIncomplete_def saveBluesky_def Let_def)

lemma saveBluesky_together:
  assumes "urlsWellFormed E body" "together (fieldSet body) blueskyFields"
  shows "saveBluesky E body next =
      Inr (AList.update (lit ''bluesky'')
             (Obj [(lit ''identifier'', Str (trim (strOf (getProp body (lit ''blueskyIdentifier''))))),
                   (lit ''pdsUrl'', normalizeBaseUrl E (getProp body (lit ''blueskyPdsUrl''))),
                   (lit ''appPassword'',
                      Str (trim (strOf (getProp body (lit ''blueskyAppPassword'')))))]) next)"
proof -
  from assms(2) have f: "fieldSet body (lit ''blueskyIdentifier'')"
      "fieldSet body (lit ''blueskyPdsUrl'')" "fieldSet body (lit ''blueskyAppPassword'')"
    by (simp_all add: together_def blueskyFields_def)
  have t: "touchesBluesky body"
    using fieldSet_hasOwn [OF f(1)] by (simp add: touchesBluesky_def)
  have i: "blueskyIdentifier body = Str (trim (strOf (getProp body (lit ''blueskyIdentifier''))))"
    using f(1) by (simp add: blueskyIdentifier_def fieldSet_def trimToUndefined_Str)
  have a: "blueskyAppPassword body = Str (trim (strOf (getProp body (lit ''blueskyAppPassword''))))"
    using f(3) by (simp add: blueskyAppPassword_def fieldSet_def trimToUndefined_Str)
  have u: "blueskyPdsUrl E body = normalizeBaseUrl E (getProp body (lit ''blueskyPdsUrl''))"
    using f(2) by (simp add: pdsUrl_value)
  have tr: "truthy (blueskyIdentifier body)" "truthy (blueskyPdsUrl E body)"
      "truthy (blueskyAppPassword body)"
    using f by (simp_all add: identifier_set appPassword_set pdsUrl_set [OF assms(1)])
  show ?thesis
    using t tr by (simp add: saveBluesky_def Let_def) (simp add: i a u)
qed

lemma saveBluesky_sentEmpty:
  assumes "urlsWellFormed E body" "sentEmpty body blueskyFields"
  shows "saveBluesky E body next = Inr (AList.delete (lit ''bluesky'') next)"
proof -
  from assms(2) have t: "touchesBluesky body"
    by (auto simp: sentEmpty_def blueskyFields_def touchesBluesky_def)
  from assms(2) have f: "\<not> fieldSet body (lit ''blueskyIdentifier'')"
      "\<not> fieldSet body (lit ''blueskyPdsUrl'')" "\<not> fieldSet body (lit ''blueskyAppPassword'')"
    by (simp_all add: sentEmpty_def blueskyFields_def)
  then have "\<not> truthy (blueskyIdentifier body)" "\<not> truthy (blueskyPdsUrl E body)"
      "\<not> truthy (blueskyAppPassword body)"
    by (simp_all add: identifier_set appPassword_set pdsUrl_set [OF assms(1)])
  with t show ?thesis by (simp add: saveBluesky_def Let_def)
qed

lemma saveMastodon_ok:
  "\<not> mastodonIncomplete E body \<Longrightarrow>
     \<exists>next'. saveMastodon E body next = Inr next'
       \<and> map_of next' (lit ''bluesky'') = map_of next (lit ''bluesky'')"
  by (auto simp: mastodonIncomplete_def saveMastodon_def Let_def update_conv' delete_conv')

lemma hasBluesky_stored:
  assumes "map_of next (lit ''bluesky'')
             = Some (Obj [(lit ''identifier'', a), (lit ''pdsUrl'', b), (lit ''appPassword'', c)])"
    "truthy a" "truthy b" "truthy c"
  shows "hasBluesky (Obj next)"
  using assms by (simp add: hasBluesky_def getOpt_def jsAnd_def)

lemma postSecrets_incomplete:
  assumes "blueskyIncomplete E (bodyObject rb)"
  shows "postSecrets E kc rb =
           ([], sendProblem 400 (lit ''Bluesky credentials incomplete'')
                  (lit ''Set identifier, PDS URL, and app password together, or clear all three.''))"
  using saveBluesky_incomplete [OF assms]
  by (simp add: postSecrets_def nextSecrets_def Let_def)

lemma postSecrets_saved:
  assumes "saveBluesky E (bodyObject rb)
             (saveXAuthToken (bodyObject rb)
                (saveGatewayApiKey (bodyObject rb) (ownEntries (readSecrets E kc)))) = Inr n3"
    and "\<not> mastodonIncomplete E (bodyObject rb)"
  shows "\<exists>next. fst (postSecrets E kc rb) = [jsonStringify E (Obj next)]
           \<and> map_of next (lit ''bluesky'') = map_of n3 (lit ''bluesky'')
           \<and> replyCode (snd (postSecrets E kc rb)) = 200
           \<and> getProp (getProp (replyPayload (snd (postSecrets E kc rb))) (lit ''configured''))
                (lit ''bluesky'') = Bool (hasBluesky (Obj next))"
proof -
  from saveMastodon_ok [OF assms(2), of n3] obtain next' where
    m: "saveMastodon E (bodyObject rb) n3 = Inr next'" and
    k: "map_of next' (lit ''bluesky'') = map_of n3 (lit ''bluesky'')" by blast
  have n: "nextSecrets E kc rb = Inr next'"
    using assms(1) m by (simp add: nextSecrets_def Let_def)
  have "fst (postSecrets E kc rb) = [jsonStringify E (Obj next')]"
    using n by (simp add: postSecrets_def writeSecrets_def)
  moreover have "replyCode (snd (postSecrets E kc rb)) = 200"
    using n by (simp add: postSecrets_def returnValue_def)
  moreover have "getProp (getProp (replyPayload (snd (postSecrets E kc rb))) (lit ''configured''))
                (lit ''bluesky'') = Bool (hasBluesky (Obj next'))"
    using n by (simp add: postSecrets_def returnValue_def summarizeSecrets_def)
  ultimately show ?thesis using k by blast
qed

text \<open>
  Claim C7, as the code has it, for the requests whose URL fields are well formed. A field
  is set when its value is a string that is not blank. \<open>POST /api/settings/secrets\<close>
  replies with status 400 and the problem "Bluesky credentials incomplete", and writes
  nothing, to every request that sets some but not all of identifier, PDS URL and app
  password. A request that sets the three together, and does not set one of the Mastodon
  instance URL and access token without the other, is answered with status 200 and
  \<open>configured.bluesky = true\<close>, and what it writes holds the tuple: the trimmed identifier,
  the normalized PDS URL and the trimmed app password. A request that names a Bluesky
  field and sets none of the three, and does not set the Mastodon pair partially, is
  answered with status 200 and \<open>configured.bluesky = false\<close>, and what it writes has no
  Bluesky tuple.
\<close>

theorem C7_postSecrets_bluesky:
  assumes "urlsWellFormed E (bodyObject rb)"
  shows "(partially (fieldSet (bodyObject rb)) blueskyFields \<longrightarrow>
           postSecrets E kc rb =
             ([], \<lparr> replyCode = 400, replyHeaders = [],
                    replyPayload =
                      Obj [(lit ''type'', Str (lit ''about:blank'')),
                           (lit ''title'', Str (lit ''Bluesky credentials incomplete'')),
                           (lit ''status'', Num (Fin 400)),
                           (lit ''detail'',
                              Str (lit ''Set identifier, PDS URL, and app password together, or clear all three.''))] \<rparr>))
       \<and> (together (fieldSet (bodyObject rb)) blueskyFields
            \<and> \<not> partially (fieldSet (bodyObject rb)) mastodonFields \<longrightarrow>
           (\<exists>next. fst (postSecrets E kc rb) = [jsonStringify E (Obj next)]
              \<and> map_of next (lit ''bluesky'')
                  = Some (Obj [(lit ''identifier'',
                                  Str (trim (strOf (getProp (bodyObject rb) (lit ''blueskyIdentifier''))))),
                               (lit ''pdsUrl'',
                                  normalizeBaseUrl E (getProp (bodyObject rb) (lit ''blueskyPdsUrl''))),
                               (lit ''appPassword'',
                                  Str (trim (strOf (getProp (bodyObject rb) (lit ''blueskyAppPassword'')))))]))
           \<and> replyCode (snd (postSecrets E kc rb)) = 200
           \<and> getProp (getProp (replyPayload (snd (postSecrets E kc rb))) (lit ''configured''))
                (lit ''bluesky'') = Bool True)
       \<and> (sentEmpty (bodyObject rb) blueskyFields
            \<and> \<not> partially (fieldSet (bodyObject rb)) mastodonFields \<longrightarrow>
           (\<exists>next. fst (postSecrets E kc rb) = [jsonStringify E (Obj next)]
              \<and> map_of next (lit ''bluesky'') = None)
           \<and> replyCode (snd (postSecrets E kc rb)) = 200
           \<and> getProp (getProp (replyPayload (snd (postSecrets E kc rb))) (lit ''configured''))
                (lit ''bluesky'') = Bool False)"
proof -
  let ?body = "bodyObject rb"
  let ?n2 = "saveXAuthToken ?body (saveGatewayApiKey ?body (ownEntries (readSecrets E kc)))"
  let ?tuple = "Obj [(lit ''identifier'',
                        Str (trim (strOf (getProp ?body (lit ''blueskyIdentifier''))))),
                     (lit ''pdsUrl'', normalizeBaseUrl E (getProp ?body (lit ''blueskyPdsUrl''))),
                     (lit ''appPassword'',
                        Str (trim (strOf (getProp ?body (lit ''blueskyAppPassword'')))))]"
  have 1: "postSecrets E kc rb =
             ([], \<lparr> replyCode = 400, replyHeaders = [],
                    replyPayload =
                      Obj [(lit ''type'', Str (lit ''about:blank'')),
                           (lit ''title'', Str (lit ''Bluesky credentials incomplete'')),
                           (lit ''status'', Num (Fin 400)),
                           (lit ''detail'',
                              Str (lit ''Set identifier, PDS URL, and app password together, or clear all three.''))] \<rparr>)"
    if "partially (fieldSet ?body) blueskyFields"
    using postSecrets_incomplete [of E rb kc] that incomplete_partially [OF assms]
    by (simp add: sendProblem_def problem_def)
  have 2: "(\<exists>next. fst (postSecrets E kc rb) = [jsonStringify E (Obj next)]
              \<and> map_of next (lit ''bluesky'') = Some ?tuple)
           \<and> replyCode (snd (postSecrets E kc rb)) = 200
           \<and> getProp (getProp (replyPayload (snd (postSecrets E kc rb))) (lit ''configured''))
                (lit ''bluesky'') = Bool True"
    if t: "together (fieldSet ?body) blueskyFields"
      and m: "\<not> partially (fieldSet ?body) mastodonFields"
  proof -
    from t have f: "fieldSet ?body (lit ''blueskyIdentifier'')"
        "fieldSet ?body (lit ''blueskyPdsUrl'')" "fieldSet ?body (lit ''blueskyAppPassword'')"
      by (simp_all add: together_def blueskyFields_def)
    have tr: "truthy (Str (trim (strOf (getProp ?body (lit ''blueskyIdentifier'')))))"
        "truthy (normalizeBaseUrl E (getProp ?body (lit ''blueskyPdsUrl'')))"
        "truthy (Str (trim (strOf (getProp ?body (lit ''blueskyAppPassword'')))))"
      using f assms by (simp_all add: fieldSet_def urlsWellFormed_def urlFields_def)
    from m have nm: "\<not> mastodonIncomplete E ?body"
      by (simp add: mastodon_incomplete_partially [OF assms])
    from postSecrets_saved [OF saveBluesky_together [OF assms t, of ?n2] nm]
    obtain stored where n: "fst (postSecrets E kc rb) = [jsonStringify E (Obj stored)]"
        "map_of stored (lit ''bluesky'') = Some ?tuple"
        "replyCode (snd (postSecrets E kc rb)) = 200"
        "getProp (getProp (replyPayload (snd (postSecrets E kc rb))) (lit ''configured''))
                (lit ''bluesky'') = Bool (hasBluesky (Obj stored))"
      by (auto simp: update_conv')
    from hasBluesky_stored [OF n(2) tr] n show ?thesis by auto
  qed
  have 3: "(\<exists>next. fst (postSecrets E kc rb) = [jsonStringify E (Obj next)]
              \<and> map_of next (lit ''bluesky'') = None)
           \<and> replyCode (snd (postSecrets E kc rb)) = 200
           \<and> getProp (getProp (replyPayload (snd (postSecrets E kc rb))) (lit ''configured''))
                (lit ''bluesky'') = Bool False"
    if e: "sentEmpty ?body blueskyFields"
      and m: "\<not> partially (fieldSet ?body) mastodonFields"
  proof -
    from m have nm: "\<not> mastodonIncomplete E ?body"
      by (simp add: mastodon_incomplete_partially [OF assms])
    from postSecrets_saved [OF saveBluesky_sentEmpty [OF assms e, of ?n2] nm]
    obtain stored where n: "fst (postSecrets E kc rb) = [jsonStringify E (Obj stored)]"
        "map_of stored (lit ''bluesky'') = None"
        "replyCode (snd (postSecrets E kc rb)) = 200"
        "getProp (getProp (replyPayload (snd (postSecrets E kc rb))) (lit ''configured''))
                (lit ''bluesky'') = Bool (hasBluesky (Obj stored))"
      by (auto simp: delete_conv')
    from n(2) have "\<not> hasBluesky (Obj stored)"
      by (simp add: hasBluesky_def getOpt_def jsAnd_def)
    with n show ?thesis by auto
  qed
  from 1 2 3 show ?thesis by blast
qed


lemmas secrets_eval =
  postSecrets_def nextSecrets_def Let_def bodyObject_def readSecrets_def writeSecrets_def
  saveGatewayApiKey_def saveXAuthToken_def saveBluesky_def saveMastodon_def hasOwn_def
  touchesBluesky_def touchesMastodon_def blueskyIdentifier_def blueskyPdsUrl_def
  blueskyAppPassword_def mastodonInstanceUrl_def mastodonAccessToken_def
  mastodonVisibility_def trimToUndefined_def normalizeBaseUrl_def stripTrailingSlash_def
  exampleEngine_def trim_def isWhiteSpace_def

lemmas fields_eval =
  fieldSet_def fieldGiven_def partially_def together_def sentEmpty_def blueskyFields_def
  mastodonFields_def urlsWellFormed_def urlFields_def

text \<open>
  Only the identifier given; the three fields given together (with blanks around the
  identifier and a slash after the URL); and the three fields given empty or blank.
\<close>

theorem C7_postSecrets_bluesky_witness:
  "urlsWellFormed exampleEngine
     (bodyObject (Obj [(lit ''blueskyIdentifier'', Str (lit ''me.bsky.social''))]))
   \<and> partially
       (fieldSet (bodyObject (Obj [(lit ''blueskyIdentifier'', Str (lit ''me.bsky.social''))])))
       blueskyFields
   \<and> postSecrets exampleEngine None (Obj [(lit ''blueskyIdentifier'', Str (lit ''me.bsky.social''))])
      = ([], \<lparr> replyCode = 400, replyHeaders = [],
               replyPayload =
                 Obj [(lit ''type'', Str (lit ''about:blank'')),
                      (lit ''title'', Str (lit ''Bluesky credentials incomplete'')),
                      (lit ''status'', Num (Fin 400)),
                      (lit ''detail'',
                         Str (lit ''Set identifier, PDS URL, and app password together, or clear all three.''))] \<rparr>)
   \<and> urlsWellFormed exampleEngine
       (bodyObject (Obj [(lit ''blueskyIdentifier'', Str (lit '' me.bsky.social '')),
                (lit ''blueskyPdsUrl'', Str (lit ''https://bsky.social/'')),
                (lit ''blueskyAppPassword'', Str (lit ''app-pw''))]))
   \<and> together
       (fieldSet (bodyObject (Obj [(lit ''blueskyIdentifier'', Str (lit '' me.bsky.social '')),
                (lit ''blueskyPdsUrl'', Str (lit ''https://bsky.social/'')),
                (lit ''blueskyAppPassword'', Str (lit ''app-pw''))])))
       blueskyFields
   \<and> \<not> partially
       (fieldSet (bodyObject (Obj [(lit ''blueskyIdentifier'', Str (lit '' me.bsky.social '')),
                (lit ''blueskyPdsUrl'', Str (lit ''https://bsky.social/'')),
                (lit ''blueskyAppPassword'', Str (lit ''app-pw''))])))
       mastodonFields
   \<and> postSecrets exampleEngine None
       (Obj [(lit ''blueskyIdentifier'', Str (lit '' me.bsky.social '')),
                (lit ''blueskyPdsUrl'', Str (lit ''https://bsky.social/'')),
                (lit ''blueskyAppPassword'', Str (lit ''app-pw''))])
      = ([jsonStringify exampleEngine
            (Obj [(lit ''bluesky'',
                     Obj [(lit ''identifier'', Str (lit ''me.bsky.social'')),
                          (lit ''pdsUrl'', Str (lit ''https://bsky.social'')),
                          (lit ''appPassword'', Str (lit ''app-pw''))])])],
         \<lparr> replyCode = 200, replyHeaders = [],
           replyPayload =
             Obj [(lit ''configured'',
                     Obj [(lit ''gatewayApiKey'', Bool False), (lit ''x'', Bool False),
                          (lit ''bluesky'', Bool True), (lit ''mastodon'', Bool False)]),
                  (lit ''profile'',
                     Obj [(lit ''blueskyIdentifier'', Str (lit ''me.bsky.social'')),
                          (lit ''blueskyPdsUrl'', Str (lit ''https://bsky.social'')),
                          (lit ''mastodonInstanceUrl'', Str []),
                          (lit ''mastodonVisibility'', Str (lit ''public''))])] \<rparr>)
   \<and> urlsWellFormed exampleEngine
       (bodyObject (Obj [(lit ''blueskyIdentifier'', Str []),
                (lit ''blueskyPdsUrl'', Str []),
                (lit ''blueskyAppPassword'', Str (lit ''  ''))]))
   \<and> sentEmpty
       (bodyObject (Obj [(lit ''blueskyIdentifier'', Str []),
                (lit ''blueskyPdsUrl'', Str []),
                (lit ''blueskyAppPassword'', Str (lit ''  ''))]))
       blueskyFields
   \<and> postSecrets exampleEngine None
       (Obj [(lit ''blueskyIdentifier'', Str []),
                (lit ''blueskyPdsUrl'', Str []),
                (lit ''blueskyAppPassword'', Str (lit ''  ''))])
      = ([jsonStringify exampleEngine (Obj [])],
         \<lparr> replyCode = 200, replyHeaders = [],
           replyPayload =
             Obj [(lit ''configured'',
                     Obj [(lit ''gatewayApiKey'', Bool False), (lit ''x'', Bool False),
                          (lit ''bluesky'', Bool False), (lit ''mastodon'', Bool False)]),
                  (lit ''profile'',
                     Obj [(lit ''blueskyIdentifier'', Str []),
                          (lit ''blueskyPdsUrl'', Str (lit ''https://bsky.social'')),
                          (lit ''mastodonInstanceUrl'', Str []),
                          (lit ''mastodonVisibility'', Str (lit ''public''))])] \<rparr>)"
  using C7_postSecrets_bluesky [of exampleEngine "Obj [(lit ''blueskyIdentifier'', Str (lit ''me.bsky.social''))]" None]
    C7_postSecrets_bluesky [of exampleEngine "Obj [(lit ''blueskyIdentifier'', Str (lit '' me.bsky.social '')),
                (lit ''blueskyPdsUrl'', Str (lit ''https://bsky.social/'')),
                (lit ''blueskyAppPassword'', Str (lit ''app-pw''))]" None]
    C7_postSecrets_bluesky [of exampleEngine "Obj [(lit ''blueskyIdentifier'', Str []),
                (lit ''blueskyPdsUrl'', Str []),
                (lit ''blueskyAppPassword'', Str (lit ''  ''))]" None]
  by (simp add: fields_eval secrets_eval summarizeSecrets_def profileOf_def secrets_defs
      returnValue_def lit_def)

text \<open>
  A request that gives identifier, PDS URL and app password together is refused when it
  also carries an access token for Mastodon without an instance URL. A request that gives
  a blank for the identifier and nothing else gives one field of three, and it is not
  refused: the blank counts as empty and the tuple is cleared.
\<close>

theorem C7_postSecrets_counterexample:
  "together
     (fieldGiven (bodyObject (Obj [(lit ''blueskyIdentifier'', Str (lit ''me.bsky.social'')),
                (lit ''blueskyPdsUrl'', Str (lit ''https://bsky.social'')),
                (lit ''blueskyAppPassword'', Str (lit ''app-pw'')),
                (lit ''mastodonAccessToken'', Str (lit ''tok''))])))
     blueskyFields
   \<and> postSecrets exampleEngine None
       (Obj [(lit ''blueskyIdentifier'', Str (lit ''me.bsky.social'')),
                (lit ''blueskyPdsUrl'', Str (lit ''https://bsky.social'')),
                (lit ''blueskyAppPassword'', Str (lit ''app-pw'')),
                (lit ''mastodonAccessToken'', Str (lit ''tok''))])
      = ([], \<lparr> replyCode = 400, replyHeaders = [],
               replyPayload =
                 Obj [(lit ''type'', Str (lit ''about:blank'')),
                      (lit ''title'', Str (lit ''Mastodon credentials incomplete'')),
                      (lit ''status'', Num (Fin 400)),
                      (lit ''detail'',
                         Str (lit ''Set instance URL and access token together, or clear both fields.''))] \<rparr>)
   \<and> partially (fieldGiven (bodyObject (Obj [(lit ''blueskyIdentifier'', Str (lit '' ''))])))
        blueskyFields
   \<and> postSecrets exampleEngine None (Obj [(lit ''blueskyIdentifier'', Str (lit '' ''))])
      = ([jsonStringify exampleEngine (Obj [])],
         \<lparr> replyCode = 200, replyHeaders = [],
           replyPayload =
             Obj [(lit ''configured'',
                     Obj [(lit ''gatewayApiKey'', Bool False), (lit ''x'', Bool False),
                          (lit ''bluesky'', Bool False), (lit ''mastodon'', Bool False)]),
                  (lit ''profile'',
                     Obj [(lit ''blueskyIdentifier'', Str []),
                          (lit ''blueskyPdsUrl'', Str (lit ''https://bsky.social'')),
                          (lit ''mastodonInstanceUrl'', Str []),
                          (lit ''mastodonVisibility'', Str (lit ''public''))])] \<rparr>)"
  by (simp add: fields_eval secrets_eval summarizeSecrets_def profileOf_def secrets_defs
      returnValue_def sendProblem_def problem_def lit_def)

text \<open>
  Outside the well-formed requests the handler takes a PDS URL that \<open>normalizeBaseUrl\<close>
  refuses for no URL at all. Given alone, such a URL removes the stored Bluesky tuple under
  status 200, where a well-formed URL given alone is refused; given with an identifier and
  an app password, it has the three refused as incomplete. The route that saves the
  gateway URL answers a URL it cannot normalize with a 400 of its own.
\<close>

lemma malformed_pds_url_alone:
  assumes "trim u \<noteq> []" "\<not> truthy (normalizeBaseUrl E (Str u))"
  shows "postSecrets E kc (Obj [(lit ''blueskyPdsUrl'', Str u)])
           = ([jsonStringify E
                 (Obj (AList.delete (lit ''bluesky'') (ownEntries (readSecrets E kc))))],
              returnValue
                (Obj (settingsView
                   (Obj (AList.delete (lit ''bluesky'') (ownEntries (readSecrets E kc)))))))"
proof -
  let ?body = "Obj [(lit ''blueskyPdsUrl'', Str u)]"
  have f: "fieldSet ?body (lit ''blueskyPdsUrl'')" using assms(1) by (simp add: fieldSet_def)
  have b: "bodyObject ?body = ?body" by (simp add: bodyObject_def)
  have p: "\<not> truthy (blueskyPdsUrl E ?body)" using f assms(2) by (simp add: pdsUrl_value)
  have i: "\<not> truthy (blueskyIdentifier ?body)" "\<not> truthy (blueskyAppPassword ?body)"
    by (simp_all add: identifier_set appPassword_set fieldSet_def)
  have t: "touchesBluesky ?body" "\<not> touchesMastodon ?body"
    by (simp_all add: touchesBluesky_def touchesMastodon_def hasOwn_def)
  have k: "saveXAuthToken ?body (saveGatewayApiKey ?body n) = n" for n
    by (simp add: saveXAuthToken_def saveGatewayApiKey_def hasOwn_def)
  show ?thesis
    using p i t
    by (simp add: postSecrets_def nextSecrets_def b k Let_def saveBluesky_def saveMastodon_def
        writeSecrets_def settingsView_def)
qed

lemma pds_url_examples:
  "postSecrets exampleEngine None (Obj [(lit ''blueskyPdsUrl'', Str (lit ''garbage''))])
     = ([jsonStringify exampleEngine (Obj [])],
        returnValue (Obj (settingsView (Obj []))))"
  "replyCode (snd (postSecrets exampleEngine None
     (Obj [(lit ''blueskyPdsUrl'', Str (lit ''https://bsky.social''))]))) = 400"
  "postSecrets exampleEngine None
     (Obj [(lit ''blueskyIdentifier'', Str (lit ''me.bsky.social'')),
           (lit ''blueskyPdsUrl'', Str (lit ''bsky.social'')),
           (lit ''blueskyAppPassword'', Str (lit ''app-pw''))])
     = ([], sendProblem 400 (lit ''Bluesky credentials incomplete'')
               (lit ''Set identifier, PDS URL, and app password together, or clear all three.''))"
  by (simp_all add: secrets_eval settingsView_def sendProblem_def lit_def)

subsection \<open>A refused request writes nothing\<close>

lemma saveBluesky_Inl_iff:
  "(\<exists>r. saveBluesky E body next = Inl r) \<longleftrightarrow> blueskyIncomplete E body"
  by (auto simp: saveBluesky_def blueskyIncomplete_def Let_def)

lemma saveMastodon_Inl_iff:
  "(\<exists>r. saveMastodon E body next = Inl r) \<longleftrightarrow> mastodonIncomplete E body"
  by (auto simp: saveMastodon_def mastodonIncomplete_def Let_def)

lemma saveBluesky_Inl_code: "saveBluesky E body next = Inl r \<Longrightarrow> replyCode r = 400"
  by (auto simp: saveBluesky_def Let_def sendProblem_def split: if_splits)

lemma saveMastodon_Inl_code: "saveMastodon E body next = Inl r \<Longrightarrow> replyCode r = 400"
  by (auto simp: saveMastodon_def Let_def sendProblem_def split: if_splits)

lemma nextSecrets_Inl_iff:
  "(\<exists>r. nextSecrets E kc rb = Inl r) \<longleftrightarrow>
     blueskyIncomplete E (bodyObject rb) \<or> mastodonIncomplete E (bodyObject rb)"
proof -
  let ?body = "bodyObject rb"
  let ?n2 = "saveXAuthToken ?body (saveGatewayApiKey ?body (ownEntries (readSecrets E kc)))"
  show ?thesis
  proof (cases "saveBluesky E ?body ?n2")
    case (Inl r)
    then have "blueskyIncomplete E ?body" using saveBluesky_Inl_iff [of E ?body ?n2] by blast
    with Inl show ?thesis by (simp add: nextSecrets_def Let_def)
  next
    case (Inr n3)
    then have nb: "\<not> blueskyIncomplete E ?body" using saveBluesky_Inl_iff [of E ?body ?n2] by auto
    have "nextSecrets E kc rb = saveMastodon E ?body n3"
      using Inr by (simp add: nextSecrets_def Let_def)
    with nb saveMastodon_Inl_iff [of E ?body n3] show ?thesis by simp
  qed
qed

lemma nextSecrets_Inl_code: "nextSecrets E kc rb = Inl r \<Longrightarrow> replyCode r = 400"
  by (auto simp: nextSecrets_def Let_def split: sum.splits dest: saveBluesky_Inl_code saveMastodon_Inl_code)

lemma rejected_iff:
  "replyCode (snd (postSecrets E kc rb)) = 400 \<longleftrightarrow>
     blueskyIncomplete E (bodyObject rb) \<or> mastodonIncomplete E (bodyObject rb)"
proof (cases "nextSecrets E kc rb")
  case (Inl r)
  with nextSecrets_Inl_code [OF Inl] nextSecrets_Inl_iff [of E kc rb]
  show ?thesis by (auto simp: postSecrets_def)
next
  case (Inr n)
  with nextSecrets_Inl_iff [of E kc rb]
  show ?thesis by (auto simp: postSecrets_def returnValue_def)
qed

lemma no_write: "replyCode (snd (postSecrets E kc rb)) = 400 \<Longrightarrow> fst (postSecrets E kc rb) = []"
  by (auto simp: postSecrets_def returnValue_def split: sum.splits)

text \<open>
  Claim C10. \<open>POST /api/settings/secrets\<close> replies with status 400 exactly when the handler
  finds the Bluesky or the Mastodon tuple of the request incomplete, and then it has written
  nothing: the keychain entry is what it was, whatever other fields (such as
  \<open>gatewayApiKey\<close> or \<open>xAuthToken\<close>) the rejected body carries.
\<close>

theorem C10_postSecrets_atomic:
  "(replyCode (snd (postSecrets E kc rb)) = 400 \<longleftrightarrow>
      blueskyIncomplete E (bodyObject rb) \<or> mastodonIncomplete E (bodyObject rb))
   \<and> (replyCode (snd (postSecrets E kc rb)) = 400 \<longrightarrow>
        fst (postSecrets E kc rb) = []
        \<and> keychainAfter kc (fst (postSecrets E kc rb)) = kc)"
  using rejected_iff [of E kc rb] no_write [of E kc rb]
  by (auto simp: keychainAfter_def)

text \<open>
  A request with a gateway key, an X token and a lone Mastodon access token, over a stored
  empty object.
\<close>

theorem C10_postSecrets_atomic_witness:
  "mastodonIncomplete exampleEngine
     (bodyObject (Obj [(lit ''gatewayApiKey'', Str (lit ''key-1'')),
                       (lit ''xAuthToken'', Str (lit ''tok-1'')),
                       (lit ''mastodonAccessToken'', Str (lit ''tok-2''))]))
   \<and> postSecrets exampleEngine (Some (lit ''{}''))
        (Obj [(lit ''gatewayApiKey'', Str (lit ''key-1'')),
              (lit ''xAuthToken'', Str (lit ''tok-1'')),
              (lit ''mastodonAccessToken'', Str (lit ''tok-2''))])
      = ([], sendProblem 400 (lit ''Mastodon credentials incomplete'')
               (lit ''Set instance URL and access token together, or clear both fields.''))
   \<and> keychainAfter (Some (lit ''{}'')) [] = Some (lit ''{}'')"
proof -
  let ?rb = "Obj [(lit ''gatewayApiKey'', Str (lit ''key-1'')),
              (lit ''xAuthToken'', Str (lit ''tok-1'')),
              (lit ''mastodonAccessToken'', Str (lit ''tok-2''))]"
  have p: "mastodonIncomplete exampleEngine (bodyObject ?rb)"
    by (simp add: mastodonIncomplete_def secrets_eval lit_def)
  have e: "postSecrets exampleEngine (Some (lit ''{}'')) ?rb
      = ([], sendProblem 400 (lit ''Mastodon credentials incomplete'')
               (lit ''Set instance URL and access token together, or clear both fields.''))"
    by (simp add: secrets_eval lit_def)
  from C10_postSecrets_atomic [of exampleEngine "Some (lit ''{}'')" ?rb] p e
  show ?thesis by (simp add: keychainAfter_def)
qed


section \<open>What the settings routes reply\<close>

lemma view_same: "sameButSecrets s s' \<Longrightarrow> settingsView s = settingsView s'"
  by (simp add: sameButSecrets_def settingsView_def summarizeSecrets_def profileOf_def
      hasX_def hasBluesky_def hasMastodon_def jsAnd_def)

lemma getSettings_view:
  "\<not> nullish (readSecrets E kc) \<Longrightarrow>
     getSettings E cfg kc =
       Inr (returnValue (Obj ((lit ''gatewayBaseUrl'', Str (gatewayBaseUrl cfg))
                               # settingsView (readSecrets E kc))))"
  by (simp add: getSettings_def Let_def settingsView_def)

lemma getSettings_throw:
  "nullish (readSecrets E kc) \<Longrightarrow>
     getSettings E cfg kc = Inl (TypeError (cannotRead (readSecrets E kc) ''gatewayApiKey''))"
  by (simp add: getSettings_def Let_def)

lemma postSecrets_reply:
  "snd (postSecrets E kc rb) =
     (case nextSecrets E kc rb of
        Inl r \<Rightarrow> r
      | Inr next \<Rightarrow> returnValue (Obj (settingsView (Obj next))))"
  by (simp add: postSecrets_def settingsView_def split: sum.splits)

lemma nextSecrets_Inl_cases:
  "nextSecrets E kc rb = Inl r \<Longrightarrow>
     r = sendProblem 400 (lit ''Bluesky credentials incomplete'')
           (lit ''Set identifier, PDS URL, and app password together, or clear all three.'')
   \<or> r = sendProblem 400 (lit ''Mastodon credentials incomplete'')
           (lit ''Set instance URL and access token together, or clear both fields.'')"
  by (auto simp: nextSecrets_def Let_def saveBluesky_def saveMastodon_def split: sum.splits if_splits)

lemma configured_booleans:
  "summarizeSecrets s =
     Obj [(lit ''gatewayApiKey'', Bool (truthy (getProp s (lit ''gatewayApiKey'')))),
          (lit ''x'', Bool (credentialed s (lit ''x''))),
          (lit ''bluesky'', Bool (credentialed s (lit ''bluesky''))),
          (lit ''mastodon'', Bool (credentialed s (lit ''mastodon'')))]"
  by (simp add: summarizeSecrets_def credentialed_def)

lemma profile_keys:
  "map fst (ownEntries (profileOf s)) =
     [lit ''blueskyIdentifier'', lit ''blueskyPdsUrl'', lit ''mastodonInstanceUrl'', lit ''mastodonVisibility'']"
  by (simp add: profileOf_def)

text \<open>
  Claim C9. For every stored value, \<open>GET /api/settings\<close> replies with the gateway URL and
  the settings view of the stored secrets (or throws on a stored \<open>null\<close>), and
  \<open>POST /api/settings/secrets\<close> replies with the settings view of the secrets it has
  written, or with one of its two fixed problem documents. The settings view holds, under
  \<open>configured\<close>, four booleans and, under \<open>profile\<close>, the Bluesky identifier and PDS URL
  and the Mastodon instance URL and visibility (or their defaults). It is the same for any
  two secrets that agree up to their secret values: of \<open>gatewayApiKey\<close>, \<open>authToken\<close>,
  \<open>appPassword\<close> and \<open>accessToken\<close> it shows only whether they are present.
\<close>

theorem C9_settings_without_secrets:
  "(\<not> nullish (readSecrets E kc) \<longrightarrow>
      getSettings E cfg kc =
        Inr (returnValue (Obj ((lit ''gatewayBaseUrl'', Str (gatewayBaseUrl cfg))
                                # settingsView (readSecrets E kc)))))
   \<and> (nullish (readSecrets E kc) \<longrightarrow>
      getSettings E cfg kc = Inl (TypeError (cannotRead (readSecrets E kc) ''gatewayApiKey'')))
   \<and> (\<forall>next. nextSecrets E kc rb = Inr next \<longrightarrow>
         snd (postSecrets E kc rb) = returnValue (Obj (settingsView (Obj next))))
   \<and> (\<forall>r. nextSecrets E kc rb = Inl r \<longrightarrow>
         snd (postSecrets E kc rb) = r
         \<and> (r = sendProblem 400 (lit ''Bluesky credentials incomplete'')
                  (lit ''Set identifier, PDS URL, and app password together, or clear all three.'')
            \<or> r = sendProblem 400 (lit ''Mastodon credentials incomplete'')
                  (lit ''Set instance URL and access token together, or clear both fields.'')))
   \<and> settingsView s =
        [(lit ''configured'',
            Obj [(lit ''gatewayApiKey'', Bool (truthy (getProp s (lit ''gatewayApiKey'')))),
                 (lit ''x'', Bool (credentialed s (lit ''x''))),
                 (lit ''bluesky'', Bool (credentialed s (lit ''bluesky''))),
                 (lit ''mastodon'', Bool (credentialed s (lit ''mastodon'')))]),
         (lit ''profile'',
            Obj [(lit ''blueskyIdentifier'',
                    coalesce (getOpt (getProp s (lit ''bluesky'')) (lit ''identifier'')) (Str [])),
                 (lit ''blueskyPdsUrl'',
                    coalesce (getOpt (getProp s (lit ''bluesky'')) (lit ''pdsUrl''))
                      (Str (lit ''https://bsky.social''))),
                 (lit ''mastodonInstanceUrl'',
                    coalesce (getOpt (getProp s (lit ''mastodon'')) (lit ''instanceUrl'')) (Str [])),
                 (lit ''mastodonVisibility'',
                    coalesce (getOpt (getProp s (lit ''mastodon'')) (lit ''visibility''))
                      (Str (lit ''public'')))])]
   \<and> (sameButSecrets s s' \<longrightarrow> settingsView s = settingsView s')"
  using getSettings_view [of E kc cfg] getSettings_throw [of E kc cfg]
    postSecrets_reply [of E kc rb] nextSecrets_Inl_cases [of E kc rb]
    configured_booleans [of s] view_same [of s s']
  by (auto simp: settingsView_def profileOf_def)

text \<open>
  Nothing stored; a stored \<open>null\<close>; an X token saved; a lone app password refused; and two
  stored values that differ in their gateway key and app password only.
\<close>

theorem C9_settings_without_secrets_witness:
  "\<not> nullish (readSecrets exampleEngine None)
   \<and> getSettings exampleEngine \<lparr> gatewayBaseUrl = lit ''http://127.0.0.1:38081'' \<rparr> None
       = Inr (returnValue
           (Obj [(lit ''gatewayBaseUrl'', Str (lit ''http://127.0.0.1:38081'')),
                 (lit ''configured'',
                    Obj [(lit ''gatewayApiKey'', Bool False), (lit ''x'', Bool False),
                         (lit ''bluesky'', Bool False), (lit ''mastodon'', Bool False)]),
                 (lit ''profile'',
                    Obj [(lit ''blueskyIdentifier'', Str []),
                         (lit ''blueskyPdsUrl'', Str (lit ''https://bsky.social'')),
                         (lit ''mastodonInstanceUrl'', Str []),
                         (lit ''mastodonVisibility'', Str (lit ''public''))])]))
   \<and> nullish (readSecrets exampleEngine (Some (lit ''null'')))
   \<and> getSettings exampleEngine \<lparr> gatewayBaseUrl = lit ''http://127.0.0.1:38081'' \<rparr>
         (Some (lit ''null''))
       = Inl (TypeError (cannotRead Null ''gatewayApiKey''))
   \<and> nextSecrets exampleEngine None (Obj [(lit ''xAuthToken'', Str (lit ''tok-1''))])
       = Inr [(lit ''x'', Obj [(lit ''authToken'', Str (lit ''tok-1''))])]
   \<and> snd (postSecrets exampleEngine None (Obj [(lit ''xAuthToken'', Str (lit ''tok-1''))]))
       = returnValue
           (Obj [(lit ''configured'',
                    Obj [(lit ''gatewayApiKey'', Bool False), (lit ''x'', Bool True),
                         (lit ''bluesky'', Bool False), (lit ''mastodon'', Bool False)]),
                 (lit ''profile'',
                    Obj [(lit ''blueskyIdentifier'', Str []),
                         (lit ''blueskyPdsUrl'', Str (lit ''https://bsky.social'')),
                         (lit ''mastodonInstanceUrl'', Str []),
                         (lit ''mastodonVisibility'', Str (lit ''public''))])])
   \<and> nextSecrets exampleEngine None (Obj [(lit ''blueskyAppPassword'', Str (lit ''app-pw''))])
       = Inl (sendProblem 400 (lit ''Bluesky credentials incomplete'')
                (lit ''Set identifier, PDS URL, and app password together, or clear all three.''))
   \<and> sameButSecrets
        (Obj [(lit ''gatewayApiKey'', Str (lit ''key-A'')),
              (lit ''bluesky'', Obj [(lit ''identifier'', Str (lit ''me.bsky.social'')),
                                    (lit ''pdsUrl'', Str (lit ''https://bsky.social'')),
                                    (lit ''appPassword'', Str (lit ''app-pw-A''))])])
        (Obj [(lit ''gatewayApiKey'', Str (lit ''key-B'')),
              (lit ''bluesky'', Obj [(lit ''identifier'', Str (lit ''me.bsky.social'')),
                                    (lit ''pdsUrl'', Str (lit ''https://bsky.social'')),
                                    (lit ''appPassword'', Str (lit ''app-pw-B''))])])
   \<and> settingsView
        (Obj [(lit ''gatewayApiKey'', Str (lit ''key-A'')),
              (lit ''bluesky'', Obj [(lit ''identifier'', Str (lit ''me.bsky.social'')),
                                    (lit ''pdsUrl'', Str (lit ''https://bsky.social'')),
                                    (lit ''appPassword'', Str (lit ''app-pw-A''))])])
     = settingsView
        (Obj [(lit ''gatewayApiKey'', Str (lit ''key-B'')),
              (lit ''bluesky'', Obj [(lit ''identifier'', Str (lit ''me.bsky.social'')),
                                    (lit ''pdsUrl'', Str (lit ''https://bsky.social'')),
                                    (lit ''appPassword'', Str (lit ''app-pw-B''))])])"
proof -
  let ?cfg = "\<lparr> gatewayBaseUrl = lit ''http://127.0.0.1:38081'' \<rparr>"
  let ?sA = "Obj [(lit ''gatewayApiKey'', Str (lit ''key-A'')),
              (lit ''bluesky'', Obj [(lit ''identifier'', Str (lit ''me.bsky.social'')),
                                    (lit ''pdsUrl'', Str (lit ''https://bsky.social'')),
                                    (lit ''appPassword'', Str (lit ''app-pw-A''))])]"
  let ?sB = "Obj [(lit ''gatewayApiKey'', Str (lit ''key-B'')),
              (lit ''bluesky'', Obj [(lit ''identifier'', Str (lit ''me.bsky.social'')),
                                    (lit ''pdsUrl'', Str (lit ''https://bsky.social'')),
                                    (lit ''appPassword'', Str (lit ''app-pw-B''))])]"
  have r1: "readSecrets exampleEngine None = Obj []"
    by (simp add: readSecrets_def)
  have r2: "readSecrets exampleEngine (Some (lit ''null'')) = Null"
    by (simp add: readSecrets_def exampleEngine_def)
  have n1: "nextSecrets exampleEngine None (Obj [(lit ''xAuthToken'', Str (lit ''tok-1''))])
       = Inr [(lit ''x'', Obj [(lit ''authToken'', Str (lit ''tok-1''))])]"
    by (simp add: secrets_eval lit_def)
  have n2: "nextSecrets exampleEngine None (Obj [(lit ''blueskyAppPassword'', Str (lit ''app-pw''))])
       = Inl (sendProblem 400 (lit ''Bluesky credentials incomplete'')
                (lit ''Set identifier, PDS URL, and app password together, or clear all three.''))"
    by (simp add: secrets_eval lit_def)
  have sb: "sameButSecrets ?sA ?sB"
    by (simp add: sameButSecrets_def getOpt_def)
  note a = C9_settings_without_secrets [of exampleEngine None ?cfg
              "Obj [(lit ''xAuthToken'', Str (lit ''tok-1''))]" ?sA ?sB]
  note b = C9_settings_without_secrets [of exampleEngine "Some (lit ''null'')" ?cfg
              "Obj [(lit ''blueskyAppPassword'', Str (lit ''app-pw''))]" ?sA ?sB]
  have g1: "getSettings exampleEngine ?cfg None =
        Inr (returnValue (Obj ((lit ''gatewayBaseUrl'', Str (gatewayBaseUrl ?cfg))
                                # settingsView (Obj []))))"
    using a r1 by simp
  have g2: "getSettings exampleEngine ?cfg (Some (lit ''null''))
       = Inl (TypeError (cannotRead Null ''gatewayApiKey''))"
    using b r2 by simp
  have p1: "snd (postSecrets exampleEngine None (Obj [(lit ''xAuthToken'', Str (lit ''tok-1''))]))
      = returnValue (Obj (settingsView (Obj [(lit ''x'', Obj [(lit ''authToken'', Str (lit ''tok-1''))])])))"
    using a n1 by simp
  have v: "settingsView ?sA = settingsView ?sB"
    using a sb by blast
  show ?thesis
    using r1 r2 n1 n2 sb g1 g2 p1 v
    by (simp add: settingsView_def summarizeSecrets_def profileOf_def secrets_defs)
qed

section \<open>The gateway payload\<close>

lemma mapE_Inr_all2:
  "mapE f xs = Inr ys \<Longrightarrow> list_all2 (\<lambda>x y. f x = Inr y) xs ys"
  by (induction xs arbitrary: ys) (auto split: sum.splits)

lemma mapE_total:
  "list_all (\<lambda>x. \<exists>y. f x = Inr y) xs \<Longrightarrow> \<exists>ys. mapE f xs = Inr ys"
  by (induction xs) auto

lemma toStringJS_primitive: "primitive v \<Longrightarrow> \<exists>s. toStringJS E v = Inr s"
  by (cases v) auto

lemma toNumberJS_primitive: "primitive v \<Longrightarrow> \<exists>n. toNumberJS E v = Inr n"
  by (cases v) auto

lemma segmentText_primitive:
  "primitive (getOpt seg (lit ''text'')) \<Longrightarrow> \<exists>s. segmentText E seg = Inr s"
  using toStringJS_primitive [of "getOpt seg (lit ''text'')" E]
  by (auto simp: segmentText_def getOpt_def)

lemma sanitizeSegment_primitive:
  "primitive (getOpt seg (lit ''text'')) \<Longrightarrow> \<exists>s. sanitizeSegment E seg = Inr s"
  using segmentText_primitive [of seg E]
  by (auto simp: sanitizeSegment_def)

lemma sanitizeMediaItem_primitive:
  "primitive (getOpt item (lit ''threadIndex'')) \<Longrightarrow> \<exists>s. sanitizeMediaItem E item = Inr s"
  using toNumberJS_primitive [of "getOpt item (lit ''threadIndex'')" E]
  by (auto simp: sanitizeMediaItem_def)

lemma sanitizeThread_total:
  "list_all (\<lambda>segment. primitive (getOpt segment (lit ''text''))) (elemsOf thread)
   \<Longrightarrow> \<exists>v. sanitizeThread E thread = Inr v"
proof -
  assume a: "list_all (\<lambda>segment. primitive (getOpt segment (lit ''text''))) (elemsOf thread)"
  have "list_all (\<lambda>x. \<exists>y. sanitizeSegment E x = Inr y) (elemsOf thread)"
    using a sanitizeSegment_primitive [of _ E] by (simp add: list_all_iff)
  from mapE_total [OF this] show ?thesis
    by (auto simp: sanitizeThread_def)
qed

lemma sanitizeMedia_total:
  "list_all (\<lambda>item. primitive (getOpt item (lit ''threadIndex''))) (elemsOf media)
   \<Longrightarrow> \<exists>v. sanitizeMedia E media = Inr v"
proof -
  assume a: "list_all (\<lambda>item. primitive (getOpt item (lit ''threadIndex''))) (elemsOf media)"
  have "list_all (\<lambda>x. \<exists>y. sanitizeMediaItem E x = Inr y) (elemsOf media)"
    using a sanitizeMediaItem_primitive [of _ E] by (simp add: list_all_iff)
  from mapE_total [OF this] show ?thesis
    by (auto simp: sanitizeMedia_def Let_def)
qed

lemma build_total: "plainPayload cp \<Longrightarrow> \<exists>p. buildGatewayPayload E cp t = Inr p"
  using sanitizeThread_total [of "getOpt cp (lit ''thread'')" E]
    sanitizeMedia_total [of "getOpt cp (lit ''media'')" E]
  by (auto simp: plainPayload_def buildGatewayPayload_def Let_def)

lemma sanitizeThread_result:
  assumes "sanitizeThread E thread = Inr v"
  shows "(truthy v \<longleftrightarrow> isArray thread \<and> elemsOf thread \<noteq> [])
       \<and> (truthy v \<longrightarrow> (\<exists>segs. v = Arr segs \<and> list_all2 (coerced E) (elemsOf thread) segs))"
proof (cases "isArray thread")
  case False
  with assms show ?thesis by (simp add: sanitizeThread_def)
next
  case True
  with assms obtain normalized where
    m: "mapE (sanitizeSegment E) (elemsOf thread) = Inr normalized"
    and v: "v = (if length normalized > 0 then Arr normalized else Undefined)"
    by (auto simp: sanitizeThread_def split: sum.splits)
  from mapE_Inr_all2 [OF m]
  have l: "list_all2 (\<lambda>x y. sanitizeSegment E x = Inr y) (elemsOf thread) normalized" .
  then have len: "length (elemsOf thread) = length normalized"
    by (rule list_all2_lengthD)
  have "list_all2 (coerced E) (elemsOf thread) normalized"
    using l
    by (rule list_all2_mono) (auto simp: sanitizeSegment_def coerced_def split: sum.splits)
  with True v len show ?thesis by auto
qed

lemma build_fields:
  assumes "buildGatewayPayload E cp t = Inr p"
  shows "(hasOwn p (lit ''text'') \<longleftrightarrow> sendsText cp)
       \<and> (hasOwn p (lit ''text'') \<longrightarrow> getProp p (lit ''text'') = getOpt cp (lit ''text''))
       \<and> (hasOwn p (lit ''thread'') \<longleftrightarrow> sendsThread cp)
       \<and> (hasOwn p (lit ''thread'') \<longrightarrow>
            (\<exists>segs. getProp p (lit ''thread'') = Arr segs
               \<and> list_all2 (coerced E) (elemsOf (getOpt cp (lit ''thread''))) segs))
       \<and> getProp p (lit ''targets'') = t"
proof -
  from assms obtain thread media where
    th: "sanitizeThread E (getOpt cp (lit ''thread'')) = Inr thread"
    and me: "sanitizeMedia E (getOpt cp (lit ''media'')) = Inr media"
    and p: "p = Obj (setMedia media (setClientRequestId cp (setScheduleAt cp
                  (setThread thread (setText cp [(lit ''targets'', t)])))))"
    by (auto simp: buildGatewayPayload_def Let_def split: sum.splits)
  note r = sanitizeThread_result [OF th]
  have m: "map_of (setMedia media (setClientRequestId cp (setScheduleAt cp
                  (setThread thread (setText cp [(lit ''targets'', t)]))))) k
         = map_of (setThread thread (setText cp [(lit ''targets'', t)])) k"
    if "k = lit ''text'' \<or> k = lit ''thread'' \<or> k = lit ''targets''" for k
    using that
    by (auto simp: setMedia_def setClientRequestId_def setScheduleAt_def update_conv')
  have tx: "map_of (setThread thread (setText cp [(lit ''targets'', t)])) (lit ''text'')
        = (if sendsText cp then Some (getOpt cp (lit ''text'')) else None)"
    by (simp add: setThread_def setText_def sendsText_def update_conv')
  have thr: "map_of (setThread thread (setText cp [(lit ''targets'', t)])) (lit ''thread'')
        = (if truthy thread then Some thread else None)"
    by (simp add: setThread_def setText_def update_conv')
  have tg: "map_of (setThread thread (setText cp [(lit ''targets'', t)])) (lit ''targets'')
        = Some t"
    by (simp add: setThread_def setText_def update_conv')
  show ?thesis
    using r by (auto simp: p hasOwn_def m tx thr tg sendsThread_def)
qed

text \<open>
  Claim C6, as the code has it. In the payload that \<open>buildGatewayPayload\<close> returns, \<open>text\<close>
  is set exactly when the client sends a text (a non-empty string), and is that string;
  \<open>thread\<close> is set exactly when the client sends a thread (a non-empty array), and is the
  array of its elements, each coerced to \<open>{text: string}\<close>; a \<open>thread\<close> that is no array is
  discarded. The two fields are set independently of each other, so exactly one of them is
  set exactly when the client sends exactly one of the two. \<open>buildGatewayPayload\<close> returns
  for every plain client payload.
\<close>

theorem C6_buildGatewayPayload_text_thread:
  "(buildGatewayPayload E cp t = Inr p \<longrightarrow>
      (hasOwn p (lit ''text'') \<longleftrightarrow> sendsText cp)
      \<and> (hasOwn p (lit ''text'') \<longrightarrow> getProp p (lit ''text'') = getOpt cp (lit ''text''))
      \<and> (hasOwn p (lit ''thread'') \<longleftrightarrow> sendsThread cp)
      \<and> (hasOwn p (lit ''thread'') \<longrightarrow>
           (\<exists>segs. getProp p (lit ''thread'') = Arr segs
              \<and> list_all2 (coerced E) (elemsOf (getOpt cp (lit ''thread''))) segs))
      \<and> (\<not> isArray (getOpt cp (lit ''thread'')) \<longrightarrow> \<not> hasOwn p (lit ''thread''))
      \<and> ((hasOwn p (lit ''text'') \<noteq> hasOwn p (lit ''thread''))
            \<longleftrightarrow> (sendsText cp \<noteq> sendsThread cp)))
   \<and> (plainPayload cp \<longrightarrow> (\<exists>p. buildGatewayPayload E cp t = Inr p))"
  using build_fields [of E cp t p] build_total [of cp E t]
  by (auto simp: sendsThread_def)

lemmas payload_eval =
  buildGatewayPayload_def Let_def setText_def setThread_def setScheduleAt_def
  setClientRequestId_def setMedia_def sanitizeThread_def sanitizeSegment_def segmentText_def
  sanitizeMedia_def sanitizeMediaItem_def getOpt_def showNumber_def isNatNumber_def
  natOfNumber_def isInteger_def trim_def isWhiteSpace_def

text \<open>
  A text beside a thread that is no array; and a thread whose elements have a string, a
  number, \<open>null\<close> and nothing for their text.
\<close>

theorem C6_buildGatewayPayload_text_thread_witness:
  "plainPayload
     (Obj [(lit ''text'', Str (lit ''hello'')), (lit ''thread'', Str (lit ''not an array''))])
   \<and> buildGatewayPayload exampleEngine
        (Obj [(lit ''text'', Str (lit ''hello'')), (lit ''thread'', Str (lit ''not an array''))])
        (Obj [])
      = Inr (Obj [(lit ''targets'', Obj []), (lit ''text'', Str (lit ''hello''))])
   \<and> plainPayload
        (Obj [(lit ''thread'',
                 Arr [Obj [(lit ''text'', Str (lit ''one''))],
                      Obj [(lit ''text'', Num (Fin 42))],
                      Obj [(lit ''text'', Null)],
                      Str (lit ''four'')])])
   \<and> buildGatewayPayload exampleEngine
        (Obj [(lit ''thread'',
                 Arr [Obj [(lit ''text'', Str (lit ''one''))],
                      Obj [(lit ''text'', Num (Fin 42))],
                      Obj [(lit ''text'', Null)],
                      Str (lit ''four'')])])
        (Obj [])
      = Inr (Obj [(lit ''targets'', Obj []),
                  (lit ''thread'',
                     Arr [Obj [(lit ''text'', Str (lit ''one''))],
                          Obj [(lit ''text'', Str (lit ''42''))],
                          Obj [(lit ''text'', Str [])],
                          Obj [(lit ''text'', Str [])]])])"
proof -
  let ?cp1 = "Obj [(lit ''text'', Str (lit ''hello'')), (lit ''thread'', Str (lit ''not an array''))]"
  let ?cp2 = "Obj [(lit ''thread'',
                 Arr [Obj [(lit ''text'', Str (lit ''one''))],
                      Obj [(lit ''text'', Num (Fin 42))],
                      Obj [(lit ''text'', Null)],
                      Str (lit ''four'')])]"
  let ?p1 = "Obj [(lit ''targets'', Obj []), (lit ''text'', Str (lit ''hello''))]"
  let ?p2 = "Obj [(lit ''targets'', Obj []),
                  (lit ''thread'',
                     Arr [Obj [(lit ''text'', Str (lit ''one''))],
                          Obj [(lit ''text'', Str (lit ''42''))],
                          Obj [(lit ''text'', Str [])],
                          Obj [(lit ''text'', Str [])]])]"
  have d: "decimal 42 = lit ''42''"
    by (simp add: decimal.simps [of 42] decimal.simps [of 4] digit_def lit_def)
  have pl1: "plainPayload ?cp1" by (simp add: plainPayload_def getOpt_def)
  have pl2: "plainPayload ?cp2" by (simp add: plainPayload_def getOpt_def)
  have b1: "buildGatewayPayload exampleEngine ?cp1 (Obj []) = Inr ?p1"
    by (simp add: payload_eval)
  have b2: "buildGatewayPayload exampleEngine ?cp2 (Obj []) = Inr ?p2"
    by (simp add: payload_eval d)
  from C6_buildGatewayPayload_text_thread [of exampleEngine ?cp1 "Obj []" ?p1]
    C6_buildGatewayPayload_text_thread [of exampleEngine ?cp2 "Obj []" ?p2]
    pl1 pl2 b1 b2
  show ?thesis by simp
qed

text \<open>
  A client payload with a text and a thread gives a payload with both; one with an empty
  text gives a payload with neither.
\<close>

theorem C6_both_or_neither_counterexample:
  "buildGatewayPayload exampleEngine
      (Obj [(lit ''text'', Str (lit ''hello'')),
            (lit ''thread'', Arr [Obj [(lit ''text'', Str (lit ''one''))]])])
      (Obj [])
    = Inr (Obj [(lit ''targets'', Obj []),
                (lit ''text'', Str (lit ''hello'')),
                (lit ''thread'', Arr [Obj [(lit ''text'', Str (lit ''one''))]])])
   \<and> buildGatewayPayload exampleEngine (Obj [(lit ''text'', Str [])]) (Obj [])
    = Inr (Obj [(lit ''targets'', Obj [])])"
  by (simp add: payload_eval)

section \<open>Strings: code points, decimal renderings, trimming\<close>

lemma unat_of_nat16: "n < 65536 \<Longrightarrow> unat (of_nat n :: 16 word) = n"
  by (simp add: unat_of_nat)

lemma codePoints_single: 
  "\<not> isHighSurrogate c \<Longrightarrow> codePoints (c # rest) = unat c # codePoints rest"
  by (cases rest) simp_all

lemma codePoints_pair:
  "isHighSurrogate c \<Longrightarrow> isLowSurrogate d \<Longrightarrow>
   codePoints (c # d # rest) = (0x10000 + (unat c - 0xD800) * 0x400 + (unat d - 0xDC00)) # codePoints rest"
  by simp

lemma high_of_nat: "n < 65536 \<Longrightarrow> isHighSurrogate (of_nat n) \<longleftrightarrow> 0xD800 \<le> n \<and> n \<le> 0xDBFF"
  by (simp add: isHighSurrogate_def word_le_nat_alt unat_of_nat16)

lemma low_of_nat: "n < 65536 \<Longrightarrow> isLowSurrogate (of_nat n) \<longleftrightarrow> 0xDC00 \<le> n \<and> n \<le> 0xDFFF"
  by (simp add: isLowSurrogate_def word_le_nat_alt unat_of_nat16)

lemma codePoints_encode:
  assumes "isScalar cp"
  shows "codePoints (encodeUtf16 cp @ rest) = cp # codePoints rest"
proof (cases "cp < 0x10000")
  case True
  with assms have "\<not> isHighSurrogate (of_nat cp)"
    by (auto simp: high_of_nat isScalar_def)
  from codePoints_single [OF this, of rest] True show ?thesis
    by (simp add: encodeUtf16_def unat_of_nat16)
next
  case False
  define h where "h = 0xD800 + (cp - 0x10000) div 0x400"
  define l where "l = 0xDC00 + (cp - 0x10000) mod 0x400"
  from assms False have r: "cp \<le> 0x10FFFF" "0x10000 \<le> cp" by (auto simp: isScalar_def)
  then have hb: "0xD800 \<le> h" "h \<le> 0xDBFF" by (auto simp: h_def)
  have lb: "0xDC00 \<le> l" "l \<le> 0xDFFF" by (auto simp: l_def)
  from hb lb have lt: "h < 65536" "l < 65536" by auto
  have hs: "isHighSurrogate (of_nat h)" using hb lt by (simp add: high_of_nat)
  have ls: "isLowSurrogate (of_nat l)" using lb lt by (simp add: low_of_nat)
  have v: "0x10000 + (h - 0xD800) * 0x400 + (l - 0xDC00) = cp"
    using r by (simp add: h_def l_def)
  have "encodeUtf16 cp = [of_nat h, of_nat l]"
    using False by (simp add: encodeUtf16_def h_def l_def)
  with codePoints_pair [OF hs ls, of rest] v lt show ?thesis
    by (simp add: unat_of_nat16)
qed

lemma codePoints_utf16: "list_all isScalar cps \<Longrightarrow> codePoints (utf16 cps) = cps"
  by (induction cps) (simp_all add: utf16_def codePoints_encode)

lemma countCharacters_utf16: "list_all isScalar cps \<Longrightarrow> countCharacters (utf16 cps) = length cps"
  by (simp add: countCharacters_def codePoints_utf16)

lemma encode_emoji: "encodeUtf16 0x1F600 = [0xD83D, 0xDE00]"
  by (simp add: encodeUtf16_def)

lemma length_utf16_emoji: "length (utf16 (replicate n 0x1F600)) = 2 * n"
  by (induction n) (simp_all add: utf16_def encode_emoji)

lemma trim_emoji: "trim (utf16 (replicate n 0x1F600)) = utf16 (replicate n 0x1F600)"
proof (rule trim_id, cases n)
  case 0
  then show "utf16 (replicate n 0x1F600) = [] \<or>
    \<not> isWhiteSpace (hd (utf16 (replicate n 0x1F600))) \<and>
    \<not> isWhiteSpace (last (utf16 (replicate n 0x1F600)))" by (simp add: utf16_def)
next
  case (Suc m)
  have a: "utf16 (replicate (Suc m) 0x1F600) = [0xD83D, 0xDE00] @ utf16 (replicate m 0x1F600)"
    by (simp add: utf16_def encode_emoji)
  have "replicate (Suc m) (0x1F600::nat) = replicate m 0x1F600 @ [0x1F600]"
    by (simp add: replicate_append_same)
  then have b: "utf16 (replicate (Suc m) 0x1F600) = utf16 (replicate m 0x1F600) @ [0xD83D, 0xDE00]"
    by (simp add: utf16_def encode_emoji del: replicate.simps)
  have "hd (utf16 (replicate (Suc m) 0x1F600)) = 0xD83D" by (simp only: a) simp
  moreover have "last (utf16 (replicate (Suc m) 0x1F600)) = 0xDE00" by (simp only: b) simp
  ultimately show "utf16 (replicate n 0x1F600) = [] \<or>
    \<not> isWhiteSpace (hd (utf16 (replicate n 0x1F600))) \<and>
    \<not> isWhiteSpace (last (utf16 (replicate n 0x1F600)))"
    using Suc by (simp add: isWhiteSpace_def)
qed

lemma unat_digit: "d < 10 \<Longrightarrow> unat (digit d) = 48 + d"
proof -
  assume "d < 10"
  then have "(48 + d) mod 2 ^ LENGTH(16) = 48 + d" by simp
  moreover have "unat (of_nat (48 + d) :: 16 word) = (48 + d) mod 2 ^ LENGTH(16)"
    by (rule unat_of_nat)
  ultimately show ?thesis by (simp only: digit_def)
qed

lemma digit_range: "d < 10 \<Longrightarrow> 0x30 \<le> digit d \<and> digit d \<le> 0x39"
  by (simp add: word_le_nat_alt unat_digit)

lemma decimal_digits: "list_all (\<lambda>c. 0x30 \<le> c \<and> c \<le> 0x39) (decimal n)"
proof (induction n rule: decimal.induct)
  case (1 n)
  show ?case
  proof (cases "n < 10")
    case True
    then show ?thesis using digit_range [of n] by (simp add: decimal.simps [of n])
  next
    case False
    with 1 have "list_all (\<lambda>c. 0x30 \<le> c \<and> c \<le> 0x39) (decimal (n div 10))" by simp
    moreover have "n mod 10 < 10" by simp
    ultimately show ?thesis
      using False digit_range [of "n mod 10"] by (simp add: decimal.simps [of n])
  qed
qed

lemma decimal_not_Nil: "decimal n \<noteq> []"
  by (simp add: decimal.simps [of n])

lemma decimal_value: "foldl (\<lambda>a d. 10 * a + (unat d - 48)) 0 (decimal n) = n"
proof (induction n rule: decimal.induct)
  case (1 n)
  show ?case
  proof (cases "n < 10")
    case True
    then show ?thesis by (simp add: decimal.simps [of n] unat_digit)
  next
    case False
    with 1 have "foldl (\<lambda>a d. 10 * a + (unat d - 48)) 0 (decimal (n div 10)) = n div 10" by simp
    then show ?thesis
      using False by (simp add: decimal.simps [of n] unat_digit)
  qed
qed

lemma decimal_inj:
  assumes "decimal n = decimal m"
  shows "n = m"
proof -
  have "foldl (\<lambda>a d. 10 * a + (unat d - 48)) 0 (decimal n)
      = foldl (\<lambda>a d. 10 * a + (unat d - 48)) 0 (decimal m)"
    by (simp only: assms)
  then show ?thesis by (simp only: decimal_value)
qed

lemma run_split:
  assumes "list_all P xs" "list_all P ys" "\<not> P a" "\<not> P b" "xs @ a # as = ys @ b # bs"
  shows "xs = ys \<and> a # as = b # bs"
  using assms
proof (induction xs arbitrary: ys)
  case Nil
  then show ?case by (cases ys) auto
next
  case (Cons x xs)
  then show ?case by (cases ys) auto
qed

lemma run_prefix:
  assumes "list_all P xs" "list_all P ys" "\<not> P a" "\<not> P b" "prefix (xs @ a # as) (ys @ b # bs)"
  shows "xs = ys \<and> prefix (a # as) (b # bs)"
  using assms
proof (induction xs arbitrary: ys)
  case Nil
  show ?case
  proof (cases ys)
    case Nil
    with Nil.prems show ?thesis by simp
  next
    case (Cons y ys')
    with Nil.prems have "a = y" "P y" by simp_all
    with Nil.prems(3) show ?thesis by simp
  qed
next
  case (Cons x xs)
  show ?case
  proof (cases ys)
    case Nil
    with Cons.prems have "x = b" "P x" by simp_all
    with Cons.prems(4) show ?thesis by simp
  next
    case (Cons y ys')
    with Cons.prems have xy: "x = y" and p: "prefix (xs @ a # as) (ys' @ b # bs)"
      and l: "list_all P xs" "list_all P ys'" by simp_all
    from Cons.IH [OF l Cons.prems(3) Cons.prems(4) p] xy Cons show ?thesis by simp
  qed
qed

lemma decimal_split:
  assumes "decimal n @ 0x20 # s = decimal m @ 0x20 # t"
  shows "n = m \<and> s = t"
proof -
  have "\<not> (0x30 \<le> (0x20::16 word) \<and> (0x20::16 word) \<le> 0x39)" by simp
  from run_split [OF decimal_digits decimal_digits this this assms]
  show ?thesis by (auto dest: decimal_inj)
qed

lemma decimal_prefix:
  assumes "prefix (decimal n @ 0x20 # s) (decimal m @ 0x20 # t)"
  shows "n = m \<and> prefix s t"
proof -
  have "\<not> (0x30 \<le> (0x20::16 word) \<and> (0x20::16 word) \<le> 0x39)" by simp
  from run_prefix [OF decimal_digits decimal_digits this this assms]
  show ?thesis by (auto dest: decimal_inj)
qed


lemma decimal_eq_iff [simp]: "decimal n = decimal m \<longleftrightarrow> n = m"
  by (auto dest: decimal_inj)

lemma decimal_space_eq [simp]:
  "decimal n @ 0x20 # s = decimal m @ 0x20 # t \<longleftrightarrow> n = m \<and> s = t"
  by (auto dest: decimal_split)

lemma decimal_space_prefix [simp]:
  "prefix (decimal n @ 0x20 # s) (decimal m @ 0x20 # t) \<longleftrightarrow> n = m \<and> prefix s t"
  by (auto dest: decimal_prefix)

section \<open>The messages of the validation\<close>

lemma segmentName_label: "segmentName st i = segmentLabel (draftMode st) i"
  by (simp add: segmentName_def segmentLabel_def)

lemma limitPrefix_label:
  "limitPrefix st i platform =
     segmentLabel (draftMode st) i @ lit '' exceeds '' @ lit platform @ lit '' limit (''"
  by (simp add: limitPrefix_def segmentName_label)

lemma space_suffix: 
  "lit '' allows only one video.'' = 0x20 # lit ''allows only one video.''"
  "lit '' cannot mix video and images together.'' = 0x20 # lit ''cannot mix video and images together.''"
  "lit '' supports up to 4 images.'' = 0x20 # lit ''supports up to 4 images.''"
  by (simp_all add: lit_def)

lemma oneVideo_eq [simp]: "oneVideoMessage i = oneVideoMessage j \<longleftrightarrow> i = j"
  by (simp add: oneVideoMessage_def space_suffix)

lemma mix_eq [simp]: "mixMessage i = mixMessage j \<longleftrightarrow> i = j"
  by (simp add: mixMessage_def space_suffix)

lemma images_eq [simp]: "imagesMessage i = imagesMessage j \<longleftrightarrow> i = j"
  by (simp add: imagesMessage_def space_suffix)

lemma bluesky_messages_differ [simp]:
  "oneVideoMessage i \<noteq> mixMessage j" "mixMessage j \<noteq> oneVideoMessage i"
  "oneVideoMessage i \<noteq> imagesMessage j" "imagesMessage j \<noteq> oneVideoMessage i"
  "mixMessage i \<noteq> imagesMessage j" "imagesMessage j \<noteq> mixMessage i"
  by (simp_all add: oneVideoMessage_def mixMessage_def imagesMessage_def space_suffix)

lemma take1_lit: "take 1 (lit (c # cs) @ rest) = [of_char c]"
  by (simp add: lit_def)

lemma first_target: "m \<in> set (targetErrors st) \<Longrightarrow> take 1 m = [0x53]"
  by (auto simp: targetErrors_def lit_def split: if_splits)

lemma first_text: "m \<in> set (textErrors st) \<Longrightarrow> take 1 m = [0x41]"
  by (auto simp: textErrors_def lit_def split: if_splits)

lemma first_thread: "m \<in> set (threadErrors st) \<Longrightarrow> take 1 m = [0x45]"
  by (auto simp: threadErrors_def lit_def split: if_splits)

lemma first_label:
  "take 1 (segmentLabel md i @ rest) = [0x50] \<or> take 1 (segmentLabel md i @ rest) = [0x53]"
  by (simp add: segmentLabel_def lit_def)

lemma labelled_segment_limit:
  "m \<in> set (segmentLimitErrors E st limits z) \<Longrightarrow>
     \<exists>rest. m = segmentLabel (draftMode st) (fst z) @ rest"
  by (auto simp: segmentLimitErrors_def Let_def xLimitMessage_def blueskyLimitMessage_def
      mastodonLimitMessage_def split: if_splits option.splits)

lemma first_segment_limit:
  "m \<in> set (segmentLimitErrors E st limits z) \<Longrightarrow> take 1 m = [0x50] \<or> take 1 m = [0x53]"
  using labelled_segment_limit [of m E st limits z] first_label [of "draftMode st" "fst z"]
  by blast

lemma first_limit:
  "m \<in> set (limitErrors E st limits) \<Longrightarrow> take 1 m = [0x50] \<or> take 1 m = [0x53]"
  by (auto simp: limitErrors_def dest: first_segment_limit)

lemma first_bluesky_segment: "m \<in> set (blueskySegmentErrors z) \<Longrightarrow> take 1 m = [0x42]"
  by (auto simp: blueskySegmentErrors_def Let_def oneVideoMessage_def mixMessage_def
      imagesMessage_def lit_def split: if_splits)

lemma first_bluesky: "m \<in> set (blueskyMediaErrors st) \<Longrightarrow> take 1 m = [0x42]"
  by (auto simp: blueskyMediaErrors_def dest: first_bluesky_segment split: if_splits)

lemma first_mastodon: "m \<in> set (mastodonMediaErrors E st limits) \<Longrightarrow> take 1 m = [0x4D]"
  by (auto simp: mastodonMediaErrors_def mastodonMediaMessage_def lit_def
      split: if_splits option.splits)

lemma first_schedule: "m \<in> set (scheduleErrors E st ws) \<Longrightarrow> take 1 m = [0x53]"
  by (auto simp: scheduleErrors_def lit_def split: if_splits)

lemma count_text:
  "count_list (getValidationErrors E st limits ws) (lit ''Add post text before publishing.'')
   = (if list_all (\<lambda>v. v = []) (trimmedSegments st) then 1 else 0)"
proof -
  let ?m = "lit ''Add post text before publishing.''"
  have t: "take 1 ?m = [0x41]" by (simp add: lit_def)
  have "?m \<notin> set (targetErrors st)" using first_target [of ?m st] t by auto
  moreover have "?m \<notin> set (threadErrors st)" using first_thread [of ?m st] t by auto
  moreover have "?m \<notin> set (limitErrors E st limits)" using first_limit [of ?m E st limits] t by auto
  moreover have "?m \<notin> set (blueskyMediaErrors st)" using first_bluesky [of ?m st] t by auto
  moreover have "?m \<notin> set (mastodonMediaErrors E st limits)"
    using first_mastodon [of ?m E st limits] t by auto
  moreover have "?m \<notin> set (scheduleErrors E st ws)" using first_schedule [of ?m E st ws] t by auto
  ultimately show ?thesis
    by (simp add: getValidationErrors_def count_list_0_iff [THEN iffD2] textErrors_def)
qed

lemma count_thread:
  "count_list (getValidationErrors E st limits ws) (lit ''Each thread segment should contain text.'')
   = (if draftMode st = Thread \<and> list_ex (\<lambda>v. v = []) (trimmedSegments st) then 1 else 0)"
proof -
  let ?m = "lit ''Each thread segment should contain text.''"
  have t: "take 1 ?m = [0x45]" by (simp add: lit_def)
  have "?m \<notin> set (targetErrors st)" using first_target [of ?m st] t by auto
  moreover have "?m \<notin> set (textErrors st)" using first_text [of ?m st] t by auto
  moreover have "?m \<notin> set (limitErrors E st limits)" using first_limit [of ?m E st limits] t by auto
  moreover have "?m \<notin> set (blueskyMediaErrors st)" using first_bluesky [of ?m st] t by auto
  moreover have "?m \<notin> set (mastodonMediaErrors E st limits)"
    using first_mastodon [of ?m E st limits] t by auto
  moreover have "?m \<notin> set (scheduleErrors E st ws)" using first_schedule [of ?m E st ws] t by auto
  ultimately show ?thesis
    by (simp add: getValidationErrors_def count_list_0_iff [THEN iffD2] threadErrors_def)
qed

lemma all_trimmed: "list_all (\<lambda>v. v = []) (map trim xs) \<longleftrightarrow> (\<forall>s \<in> set xs. trim s = [])"
  by (simp add: list_all_iff)

lemma ex_trimmed: "list_ex (\<lambda>v. v = []) (map trim xs) \<longleftrightarrow> (\<exists>s \<in> set xs. trim s = [])"
  by (induction xs) auto

text \<open>
  Claim C3, as the code has it. In thread mode, \<open>getValidationErrors\<close> reports the missing
  text ("Add post text before publishing.") once if every segment trims to empty and not
  at all otherwise; and it reports "Each thread segment should contain text." once if
  at least one segment trims to empty, however many do, and not at all otherwise.
\<close>

theorem C3_thread_text_violations:
  assumes "draftMode st = Thread"
  shows "count_list (getValidationErrors E st limits ws) (lit ''Add post text before publishing.'')
           = (if \<forall>segment \<in> set (draftThread st). trim segment = [] then 1 else 0)
       \<and> count_list (getValidationErrors E st limits ws)
            (lit ''Each thread segment should contain text.'')
           = (if \<exists>segment \<in> set (draftThread st). trim segment = [] then 1 else 0)"
  using assms count_text [of E st limits ws] count_thread [of E st limits ws]
  by (simp add: trimmedSegments_def all_trimmed ex_trimmed)

lemmas validation_eval =
  getValidationErrors_def targetErrors_def textErrors_def threadErrors_def limitErrors_def
  segmentLimitErrors_def blueskyMediaErrors_def mastodonMediaErrors_def scheduleErrors_def
  trimmedSegments_def hasSelectedTarget_def xLimitOf_def blueskyLimitOf_def mastodonLimitOf_def
  mastodonMaxMediaOf_def exceeds_def countCharacters_def mediaBySegment_def Let_def
  trim_def isWhiteSpace_def


text \<open>
  A thread of three segments of which two are empty or blank, and a thread of two that
  are both.
\<close>

theorem C3_thread_text_violations_witness:
  "draftMode (exampleDraft Thread [] [lit ''first'', [], lit ''  ''] onlyX []) = Thread
   \<and> count_list
        (getValidationErrors exampleEngine
           (exampleDraft Thread [] [lit ''first'', [], lit ''  ''] onlyX []) None False)
        (lit ''Add post text before publishing.'') = 0
   \<and> count_list
        (getValidationErrors exampleEngine
           (exampleDraft Thread [] [lit ''first'', [], lit ''  ''] onlyX []) None False)
        (lit ''Each thread segment should contain text.'') = 1
   \<and> count_list
        (getValidationErrors exampleEngine
           (exampleDraft Thread (lit ''unused'') [[], lit '' ''] onlyX []) None False)
        (lit ''Add post text before publishing.'') = 1
   \<and> count_list
        (getValidationErrors exampleEngine
           (exampleDraft Thread (lit ''unused'') [[], lit '' ''] onlyX []) None False)
        (lit ''Each thread segment should contain text.'') = 1"
proof -
  have t: "trim (lit ''first'') \<noteq> []" "trim [] = []" "trim (lit ''  '') = []"
      "trim (lit '' '') = []"
    by (simp_all add: trim_def isWhiteSpace_def lit_def)
  from C3_thread_text_violations
         [of "exampleDraft Thread [] [lit ''first'', [], lit ''  ''] onlyX []"
             exampleEngine None False]
       C3_thread_text_violations
         [of "exampleDraft Thread (lit ''unused'') [[], lit '' ''] onlyX []"
             exampleEngine None False]
       t
  show ?thesis by (simp add: exampleDraft_def)
qed

text \<open>
  A thread with two empty segments beside a non-empty one has one violation, not two.
\<close>

theorem C3_one_violation_counterexample:
  "getValidationErrors exampleEngine
      (exampleDraft Thread [] [lit ''first'', [], lit ''  ''] onlyX []) None False
     = [lit ''Each thread segment should contain text.'']
   \<and> length (filter (\<lambda>segment. trim segment = []) [lit ''first'', [], lit ''  '']) = 2"
  by (simp add: validation_eval exampleDraft_def onlyX_def lit_def)

section \<open>The Bluesky media rule\<close>

lemma map_of_addToSegment:
  "map_of (addToSegment e acc) i =
     (if i = mediaThreadIndex e
      then Some ((case map_of acc i of Some es \<Rightarrow> es | None \<Rightarrow> []) @ [e])
      else map_of acc i)"
  by (simp add: addToSegment_def Let_def update_conv')

lemma map_of_fold_addToSegment:
  "map_of (fold addToSegment ms acc) i =
     (if filter (\<lambda>e. mediaThreadIndex e = i) ms = [] then map_of acc i
      else Some ((case map_of acc i of Some es \<Rightarrow> es | None \<Rightarrow> [])
                   @ filter (\<lambda>e. mediaThreadIndex e = i) ms))"
proof (induction ms arbitrary: acc)
  case Nil
  then show ?case by simp
next
  case (Cons m ms)
  show ?case
    by (simp add: Cons.IH map_of_addToSegment)
qed

lemma distinct_fold_addToSegment:
  "distinct (map fst acc) \<Longrightarrow> distinct (map fst (fold addToSegment ms acc))"
  by (induction ms arbitrary: acc) (simp_all add: addToSegment_def Let_def distinct_update)

lemma map_of_mediaBySegment:
  "map_of (mediaBySegment ms) i =
     (if filter (\<lambda>e. mediaThreadIndex e = i) ms = [] then None
      else Some (filter (\<lambda>e. mediaThreadIndex e = i) ms))"
  by (simp add: mediaBySegment_def map_of_fold_addToSegment)

lemma distinct_mediaBySegment: "distinct (map fst (mediaBySegment ms))"
  by (simp add: mediaBySegment_def distinct_fold_addToSegment)

lemma in_mediaBySegment:
  "(i, es) \<in> set (mediaBySegment ms) \<longleftrightarrow>
     es = filter (\<lambda>e. mediaThreadIndex e = i) ms \<and> es \<noteq> []"
  using map_of_eq_Some_iff [OF distinct_mediaBySegment, of ms i es]
  by (auto simp: map_of_mediaBySegment split: if_splits)

text \<open>
  Counting a message in what the entries of a map contribute, when only the entry under
  one key can contribute it.
\<close>

lemma count_keyed:
  assumes "distinct (map fst kvs)"
    and "\<And>j es. count_list (f (j, es)) m = (if j = i then g es else 0)"
  shows "count_list (concat (map f kvs)) m = (case map_of kvs i of None \<Rightarrow> 0 | Some es \<Rightarrow> g es)"
  using assms(1)
proof (induction kvs)
  case Nil
  then show ?case by simp
next
  case (Cons kv kvs)
  obtain j es where kv: "kv = (j, es)" by (cases kv)
  from Cons have IH: "count_list (concat (map f kvs)) m
                    = (case map_of kvs i of None \<Rightarrow> 0 | Some es \<Rightarrow> g es)" by simp
  show ?case
  proof (cases "j = i")
    case True
    with Cons.prems kv have "map_of kvs i = None" by (simp add: map_of_eq_None_iff)
    with IH True show ?thesis by (simp add: kv assms(2))
  next
    case False
    with IH show ?thesis by (simp add: kv assms(2))
  qed
qed

lemma count_blueskySegmentErrors:
  "count_list (blueskySegmentErrors (j, es)) (oneVideoMessage i)
     = (if j = i then (if length (filter isVideo es) > 1 then 1 else 0) else 0)"
  "count_list (blueskySegmentErrors (j, es)) (mixMessage i)
     = (if j = i then (if length (filter isVideo es) = 1 \<and> length (filter isImage es) > 0
                       then 1 else 0) else 0)"
  "count_list (blueskySegmentErrors (j, es)) (imagesMessage i)
     = (if j = i then (if length (filter isVideo es) = 0 \<and> length (filter isImage es) > 4
                       then 1 else 0) else 0)"
  by (auto simp: blueskySegmentErrors_def Let_def)

lemma count_media:
  assumes "\<And>j es. count_list (blueskySegmentErrors (j, es)) m = (if j = i then g es else 0)"
    and "g [] = 0"
  shows "count_list (blueskyMediaErrors st) m
           = (if selBluesky (draftTargets st) then g (segmentMedia st i) else 0)"
proof (cases "selBluesky (draftTargets st)")
  case True
  have "count_list (concat (map blueskySegmentErrors (mediaBySegment (draftMedia st)))) m
          = (case map_of (mediaBySegment (draftMedia st)) i of None \<Rightarrow> 0 | Some es \<Rightarrow> g es)"
    by (rule count_keyed [OF distinct_mediaBySegment assms(1)])
  also have "\<dots> = g (segmentMedia st i)"
    by (simp add: map_of_mediaBySegment segmentMedia_def assms(2))
  finally show ?thesis using True by (simp add: blueskyMediaErrors_def)
next
  case False
  then show ?thesis by (simp add: blueskyMediaErrors_def)
qed

lemma count_blueskyMediaErrors:
  "count_list (blueskyMediaErrors st) (oneVideoMessage i)
     = (if selBluesky (draftTargets st) \<and> videoCount st i > 1 then 1 else 0)"
  "count_list (blueskyMediaErrors st) (mixMessage i)
     = (if selBluesky (draftTargets st) \<and> videoCount st i = 1 \<and> imageCount st i > 0
        then 1 else 0)"
  "count_list (blueskyMediaErrors st) (imagesMessage i)
     = (if selBluesky (draftTargets st) \<and> videoCount st i = 0 \<and> imageCount st i > 4
        then 1 else 0)"
proof -
  show "count_list (blueskyMediaErrors st) (oneVideoMessage i)
     = (if selBluesky (draftTargets st) \<and> videoCount st i > 1 then 1 else 0)"
    using count_media [OF count_blueskySegmentErrors(1), where st = st]
    by (simp add: videoCount_def)
  show "count_list (blueskyMediaErrors st) (mixMessage i)
     = (if selBluesky (draftTargets st) \<and> videoCount st i = 1 \<and> imageCount st i > 0
        then 1 else 0)"
    using count_media [OF count_blueskySegmentErrors(2), where st = st]
    by (simp add: videoCount_def imageCount_def)
  show "count_list (blueskyMediaErrors st) (imagesMessage i)
     = (if selBluesky (draftTargets st) \<and> videoCount st i = 0 \<and> imageCount st i > 4
        then 1 else 0)"
    using count_media [OF count_blueskySegmentErrors(3), where st = st]
    by (simp add: videoCount_def imageCount_def)
qed

lemma count_only_bluesky:
  assumes "take 1 m = [0x42]"
  shows "count_list (getValidationErrors E st limits ws) m = count_list (blueskyMediaErrors st) m"
proof -
  have "m \<notin> set (targetErrors st)" using first_target [of m st] assms by auto
  moreover have "m \<notin> set (textErrors st)" using first_text [of m st] assms by auto
  moreover have "m \<notin> set (threadErrors st)" using first_thread [of m st] assms by auto
  moreover have "m \<notin> set (limitErrors E st limits)" using first_limit [of m E st limits] assms by auto
  moreover have "m \<notin> set (mastodonMediaErrors E st limits)"
    using first_mastodon [of m E st limits] assms by auto
  moreover have "m \<notin> set (scheduleErrors E st ws)" using first_schedule [of m E st ws] assms by auto
  ultimately show ?thesis
    by (simp add: getValidationErrors_def count_list_0_iff [THEN iffD2])
qed

lemma first_bluesky_messages:
  "take 1 (oneVideoMessage i) = [0x42]" "take 1 (mixMessage i) = [0x42]"
  "take 1 (imagesMessage i) = [0x42]"
  by (simp_all add: oneVideoMessage_def mixMessage_def imagesMessage_def lit_def)

lemma bluesky_segment_messages:
  assumes "m \<in> set (getValidationErrors E st limits ws)" "prefix (lit ''Bluesky segment '') m"
  shows "\<exists>j. m = oneVideoMessage j \<or> m = mixMessage j \<or> m = imagesMessage j"
proof -
  from assms(2) have t: "take 1 m = [0x42]" by (auto simp: prefix_def lit_def)
  have "m \<notin> set (targetErrors st)" using first_target [of m st] t by auto
  moreover have "m \<notin> set (textErrors st)" using first_text [of m st] t by auto
  moreover have "m \<notin> set (threadErrors st)" using first_thread [of m st] t by auto
  moreover have "m \<notin> set (limitErrors E st limits)" using first_limit [of m E st limits] t by auto
  moreover have "m \<notin> set (mastodonMediaErrors E st limits)"
    using first_mastodon [of m E st limits] t by auto
  moreover have "m \<notin> set (scheduleErrors E st ws)" using first_schedule [of m E st ws] t by auto
  ultimately have "m \<in> set (blueskyMediaErrors st)"
    using assms(1) by (simp add: getValidationErrors_def)
  then show ?thesis
    by (auto simp: blueskyMediaErrors_def blueskySegmentErrors_def Let_def split: if_splits)
qed

text \<open>
  Claim C4, as the code has it. The videos and images of segment \<open>i\<close> are the attached
  media whose \<open>threadIndex\<close> is \<open>i\<close>. With Bluesky selected, the list of violations holds
  "Bluesky segment i+1 allows only one video." once if the segment has 2 or more videos,
  "Bluesky segment i+1 cannot mix video and images together." once if it has exactly one
  video and at least one image, and "Bluesky segment i+1 supports up to 4 images." once if
  it has no video and more than 4 images; otherwise, and without Bluesky selected, it
  holds none of them. So a segment with two or more videos gets the first message alone,
  whatever images it has, and a segment with no video and exactly 4 images gets none. No
  other violation starts with "Bluesky segment".
\<close>

theorem C4_bluesky_media_rule:
  "count_list (getValidationErrors E st limits ws)
      (lit ''Bluesky segment '' @ decimal (i + 1) @ lit '' allows only one video.'')
     = (if selBluesky (draftTargets st) \<and> videoCount st i \<ge> 2 then 1 else 0)
   \<and> count_list (getValidationErrors E st limits ws)
      (lit ''Bluesky segment '' @ decimal (i + 1) @ lit '' cannot mix video and images together.'')
     = (if selBluesky (draftTargets st) \<and> videoCount st i = 1 \<and> imageCount st i \<ge> 1
        then 1 else 0)
   \<and> count_list (getValidationErrors E st limits ws)
      (lit ''Bluesky segment '' @ decimal (i + 1) @ lit '' supports up to 4 images.'')
     = (if selBluesky (draftTargets st) \<and> videoCount st i = 0 \<and> imageCount st i > 4
        then 1 else 0)
   \<and> (\<forall>m \<in> set (getValidationErrors E st limits ws).
        prefix (lit ''Bluesky segment '') m \<longrightarrow>
          (\<exists>j. m = lit ''Bluesky segment '' @ decimal (j + 1) @ lit '' allows only one video.''
              \<or> m = lit ''Bluesky segment '' @ decimal (j + 1)
                      @ lit '' cannot mix video and images together.''
              \<or> m = lit ''Bluesky segment '' @ decimal (j + 1) @ lit '' supports up to 4 images.''))"
proof -
  let ?errs = "getValidationErrors E st limits ws"
  have a: "count_list ?errs (oneVideoMessage i)
             = (if selBluesky (draftTargets st) \<and> videoCount st i \<ge> 2 then 1 else 0)"
    using count_only_bluesky [OF first_bluesky_messages(1), of E st limits ws i]
    by (auto simp: count_blueskyMediaErrors)
  have b: "count_list ?errs (mixMessage i)
             = (if selBluesky (draftTargets st) \<and> videoCount st i = 1 \<and> imageCount st i \<ge> 1
                then 1 else 0)"
    using count_only_bluesky [OF first_bluesky_messages(2), of E st limits ws i]
    by (auto simp: count_blueskyMediaErrors)
  have c: "count_list ?errs (imagesMessage i)
             = (if selBluesky (draftTargets st) \<and> videoCount st i = 0 \<and> imageCount st i > 4
                then 1 else 0)"
    using count_only_bluesky [OF first_bluesky_messages(3), of E st limits ws i]
    by (auto simp: count_blueskyMediaErrors)
  have d: "\<forall>m \<in> set ?errs. prefix (lit ''Bluesky segment '') m \<longrightarrow>
          (\<exists>j. m = oneVideoMessage j \<or> m = mixMessage j \<or> m = imagesMessage j)"
    using bluesky_segment_messages [of _ E st limits ws] by blast
  from a b c d show ?thesis
    unfolding oneVideoMessage_def mixMessage_def imagesMessage_def by blast
qed


text \<open>The first segment numbers in decimal.\<close>

lemma decimal_small:
  "decimal (Suc 0) = lit ''1''" "decimal (Suc (Suc 0)) = lit ''2''" "decimal 3 = lit ''3''"
  "decimal 4 = lit ''4''"
  by (simp_all add: decimal.simps [of "Suc 0"] decimal.simps [of "Suc (Suc 0)"]
      decimal.simps [of 3] decimal.simps [of 4] digit_def lit_def)

text \<open>
  The four examples of the specification in one draft: two videos on segment 1, a video
  and an image on segment 2, five images on segment 3, four images on segment 4.
\<close>

theorem C4_bluesky_media_rule_witness:
  "selBluesky (draftTargets
      (exampleDraft Thread [] [lit ''one'', lit ''two'', lit ''three'', lit ''four''] onlyBluesky
         [exampleMedia ''video/mp4'' 0, exampleMedia ''video/webm'' 0,
          exampleMedia ''video/mp4'' 1, exampleMedia ''image/png'' 1,
          exampleMedia ''image/png'' 2, exampleMedia ''image/png'' 2,
          exampleMedia ''image/png'' 2, exampleMedia ''image/png'' 2,
          exampleMedia ''image/png'' 2,
          exampleMedia ''image/jpeg'' 3, exampleMedia ''image/jpeg'' 3,
          exampleMedia ''image/jpeg'' 3, exampleMedia ''image/jpeg'' 3]))
   \<and> getValidationErrors exampleEngine
      (exampleDraft Thread [] [lit ''one'', lit ''two'', lit ''three'', lit ''four''] onlyBluesky
         [exampleMedia ''video/mp4'' 0, exampleMedia ''video/webm'' 0,
          exampleMedia ''video/mp4'' 1, exampleMedia ''image/png'' 1,
          exampleMedia ''image/png'' 2, exampleMedia ''image/png'' 2,
          exampleMedia ''image/png'' 2, exampleMedia ''image/png'' 2,
          exampleMedia ''image/png'' 2,
          exampleMedia ''image/jpeg'' 3, exampleMedia ''image/jpeg'' 3,
          exampleMedia ''image/jpeg'' 3, exampleMedia ''image/jpeg'' 3])
      None False
     = [lit ''Bluesky segment 1 allows only one video.'',
        lit ''Bluesky segment 2 cannot mix video and images together.'',
        lit ''Bluesky segment 3 supports up to 4 images.'']
   \<and> list_all (prefix (lit ''Bluesky segment ''))
       [lit ''Bluesky segment 1 allows only one video.'',
        lit ''Bluesky segment 2 cannot mix video and images together.'',
        lit ''Bluesky segment 3 supports up to 4 images.'']
   \<and> count_list
       (getValidationErrors exampleEngine
      (exampleDraft Thread [] [lit ''one'', lit ''two'', lit ''three'', lit ''four''] onlyBluesky
         [exampleMedia ''video/mp4'' 0, exampleMedia ''video/webm'' 0,
          exampleMedia ''video/mp4'' 1, exampleMedia ''image/png'' 1,
          exampleMedia ''image/png'' 2, exampleMedia ''image/png'' 2,
          exampleMedia ''image/png'' 2, exampleMedia ''image/png'' 2,
          exampleMedia ''image/png'' 2,
          exampleMedia ''image/jpeg'' 3, exampleMedia ''image/jpeg'' 3,
          exampleMedia ''image/jpeg'' 3, exampleMedia ''image/jpeg'' 3])
      None False)
       (lit ''Bluesky segment 1 allows only one video.'') = 1
   \<and> count_list
       (getValidationErrors exampleEngine
      (exampleDraft Thread [] [lit ''one'', lit ''two'', lit ''three'', lit ''four''] onlyBluesky
         [exampleMedia ''video/mp4'' 0, exampleMedia ''video/webm'' 0,
          exampleMedia ''video/mp4'' 1, exampleMedia ''image/png'' 1,
          exampleMedia ''image/png'' 2, exampleMedia ''image/png'' 2,
          exampleMedia ''image/png'' 2, exampleMedia ''image/png'' 2,
          exampleMedia ''image/png'' 2,
          exampleMedia ''image/jpeg'' 3, exampleMedia ''image/jpeg'' 3,
          exampleMedia ''image/jpeg'' 3, exampleMedia ''image/jpeg'' 3])
      None False)
       (lit ''Bluesky segment 2 cannot mix video and images together.'') = 1
   \<and> count_list
       (getValidationErrors exampleEngine
      (exampleDraft Thread [] [lit ''one'', lit ''two'', lit ''three'', lit ''four''] onlyBluesky
         [exampleMedia ''video/mp4'' 0, exampleMedia ''video/webm'' 0,
          exampleMedia ''video/mp4'' 1, exampleMedia ''image/png'' 1,
          exampleMedia ''image/png'' 2, exampleMedia ''image/png'' 2,
          exampleMedia ''image/png'' 2, exampleMedia ''image/png'' 2,
          exampleMedia ''image/png'' 2,
          exampleMedia ''image/jpeg'' 3, exampleMedia ''image/jpeg'' 3,
          exampleMedia ''image/jpeg'' 3, exampleMedia ''image/jpeg'' 3])
      None False)
       (lit ''Bluesky segment 3 supports up to 4 images.'') = 1
   \<and> count_list
       (getValidationErrors exampleEngine
      (exampleDraft Thread [] [lit ''one'', lit ''two'', lit ''three'', lit ''four''] onlyBluesky
         [exampleMedia ''video/mp4'' 0, exampleMedia ''video/webm'' 0,
          exampleMedia ''video/mp4'' 1, exampleMedia ''image/png'' 1,
          exampleMedia ''image/png'' 2, exampleMedia ''image/png'' 2,
          exampleMedia ''image/png'' 2, exampleMedia ''image/png'' 2,
          exampleMedia ''image/png'' 2,
          exampleMedia ''image/jpeg'' 3, exampleMedia ''image/jpeg'' 3,
          exampleMedia ''image/jpeg'' 3, exampleMedia ''image/jpeg'' 3])
      None False)
       (lit ''Bluesky segment 4 supports up to 4 images.'') = 0"
proof -
  let ?st = "exampleDraft Thread [] [lit ''one'', lit ''two'', lit ''three'', lit ''four'']
         onlyBluesky
         [exampleMedia ''video/mp4'' 0, exampleMedia ''video/webm'' 0,
          exampleMedia ''video/mp4'' 1, exampleMedia ''image/png'' 1,
          exampleMedia ''image/png'' 2, exampleMedia ''image/png'' 2,
          exampleMedia ''image/png'' 2, exampleMedia ''image/png'' 2,
          exampleMedia ''image/png'' 2,
          exampleMedia ''image/jpeg'' 3, exampleMedia ''image/jpeg'' 3,
          exampleMedia ''image/jpeg'' 3, exampleMedia ''image/jpeg'' 3]"
  let ?errs = "getValidationErrors exampleEngine ?st None False"
  have v: "videoCount ?st 0 = 2" "videoCount ?st 1 = 1" "videoCount ?st 2 = 0"
      "videoCount ?st 3 = 0"
    by (simp_all add: videoCount_def segmentMedia_def isVideo_def startsWithStr_def
        exampleDraft_def exampleMedia_def lit_def)
  have i: "imageCount ?st 0 = 0" "imageCount ?st 1 = 1" "imageCount ?st 2 = 5"
      "imageCount ?st 3 = 4"
    by (simp_all add: imageCount_def segmentMedia_def isImage_def startsWithStr_def
        exampleDraft_def exampleMedia_def lit_def)
  have s: "selBluesky (draftTargets ?st)" by (simp add: exampleDraft_def onlyBluesky_def)
  have m: "lit ''Bluesky segment '' @ decimal (0 + 1) @ lit '' allows only one video.''
             = lit ''Bluesky segment 1 allows only one video.''"
      "lit ''Bluesky segment '' @ decimal (1 + 1) @ lit '' cannot mix video and images together.''
             = lit ''Bluesky segment 2 cannot mix video and images together.''"
      "lit ''Bluesky segment '' @ decimal (2 + 1) @ lit '' supports up to 4 images.''
             = lit ''Bluesky segment 3 supports up to 4 images.''"
      "lit ''Bluesky segment '' @ decimal (3 + 1) @ lit '' supports up to 4 images.''
             = lit ''Bluesky segment 4 supports up to 4 images.''"
    by (subst decimal.simps, simp add: digit_def lit_def)+
  note c = C4_bluesky_media_rule [of exampleEngine ?st None False]
  have c0: "count_list ?errs (lit ''Bluesky segment 1 allows only one video.'') = 1"
    using c [of 0, unfolded m] v i s by simp
  have c1: "count_list ?errs (lit ''Bluesky segment 2 cannot mix video and images together.'') = 1"
    using c [of 1, unfolded m] v i s by simp
  have c2: "count_list ?errs (lit ''Bluesky segment 3 supports up to 4 images.'') = 1"
    using c [of 2, unfolded m] v i s by simp
  have c3: "count_list ?errs (lit ''Bluesky segment 4 supports up to 4 images.'') = 0"
    using c [of 3, unfolded m] v i s by simp
  have e: "?errs = [lit ''Bluesky segment 1 allows only one video.'',
        lit ''Bluesky segment 2 cannot mix video and images together.'',
        lit ''Bluesky segment 3 supports up to 4 images.'']"
    by (simp add: validation_eval exampleDraft_def exampleMedia_def onlyBluesky_def
        addToSegment_def blueskySegmentErrors_def isVideo_def isImage_def startsWithStr_def
        oneVideoMessage_def mixMessage_def imagesMessage_def decimal_small lit_def)
  have p: "list_all (prefix (lit ''Bluesky segment ''))
       [lit ''Bluesky segment 1 allows only one video.'',
        lit ''Bluesky segment 2 cannot mix video and images together.'',
        lit ''Bluesky segment 3 supports up to 4 images.'']"
    by (simp add: lit_def)
  from s c0 c1 c2 c3 e p show ?thesis by (simp only:)
qed

text \<open>
  Two videos and an image on one segment: a video and an image coexist, and the only
  violation is that of the two videos.
\<close>

theorem C4_two_videos_counterexample:
  "videoCount (exampleDraft Single (lit ''hello'') [] onlyBluesky
       [exampleMedia ''video/mp4'' 0, exampleMedia ''video/webm'' 0,
        exampleMedia ''image/png'' 0]) 0 = 2
   \<and> imageCount (exampleDraft Single (lit ''hello'') [] onlyBluesky
       [exampleMedia ''video/mp4'' 0, exampleMedia ''video/webm'' 0,
        exampleMedia ''image/png'' 0]) 0 = 1
   \<and> getValidationErrors exampleEngine
       (exampleDraft Single (lit ''hello'') [] onlyBluesky
          [exampleMedia ''video/mp4'' 0, exampleMedia ''video/webm'' 0,
           exampleMedia ''image/png'' 0]) None False
     = [lit ''Bluesky segment 1 allows only one video.'']"
  by (simp add: validation_eval exampleDraft_def exampleMedia_def onlyBluesky_def
        addToSegment_def blueskySegmentErrors_def isVideo_def isImage_def startsWithStr_def
        oneVideoMessage_def mixMessage_def imagesMessage_def decimal_small lit_def
        videoCount_def imageCount_def segmentMedia_def)

section \<open>The character limits\<close>

lemma onehot_concat:
  "concat (map (\<lambda>z. if fst z = i then g (snd z) else []) (zip [0..<length xs] xs))
     = (if i < length xs then g (xs ! i) else [])"
proof (induction xs rule: rev_induct)
  case Nil
  then show ?case by simp
next
  case (snoc x xs)
  have "zip [0..<length (xs @ [x])] (xs @ [x]) = zip [0..<length xs] xs @ [(length xs, x)]"
    by simp
  then show ?case
    using snoc by (auto simp: nth_append)
qed

lemma filter_concat_map:
  "filter P (concat (map f zs)) = concat (map (\<lambda>z. filter P (f z)) zs)"
  by (induction zs) simp_all

lemma thread_label_prefix:
  "prefix (segmentLabel Thread i @ 0x20 # s) (segmentLabel Thread j @ 0x20 # t) \<longleftrightarrow>
     i = j \<and> prefix s t"
  by (simp add: segmentLabel_def)

lemma single_label_prefix:
  "prefix (segmentLabel Single i @ s) (segmentLabel Single j @ t) \<longleftrightarrow> prefix s t"
  by (simp add: segmentLabel_def)

lemma exceeds_space: 
  "lit '' exceeds '' @ r = 0x20 # lit ''exceeds '' @ r"
  "lit '' exceeds X limit ('' @ r = 0x20 # lit ''exceeds X limit ('' @ r"
  "lit '' exceeds Bluesky limit ('' @ r = 0x20 # lit ''exceeds Bluesky limit ('' @ r"
  "lit '' exceeds Mastodon limit ('' @ r = 0x20 # lit ''exceeds Mastodon limit ('' @ r"
  by (simp_all add: lit_def)

lemma mode_cases: "md = Single \<or> md = Thread"
  by (cases md) auto

lemma x_prefix_x:
  "md = draftMode st \<Longrightarrow>
   prefix (limitPrefix st i ''X'') (xLimitMessage E (segmentLabel md j) n l)
     \<longleftrightarrow> (md = Thread \<longrightarrow> i = j)"
  using mode_cases [of md]
  by (auto simp: limitPrefix_label xLimitMessage_def single_label_prefix thread_label_prefix
      exceeds_space lit_def)

lemma x_prefix_bluesky:
  "md = draftMode st \<Longrightarrow>
   \<not> prefix (limitPrefix st i ''X'') (blueskyLimitMessage E (segmentLabel md j) n l)"
  using mode_cases [of md]
  by (auto simp: limitPrefix_label blueskyLimitMessage_def single_label_prefix thread_label_prefix
      exceeds_space lit_def)

lemma x_prefix_mastodon:
  "md = draftMode st \<Longrightarrow>
   \<not> prefix (limitPrefix st i ''X'') (mastodonLimitMessage E (segmentLabel md j) n l)"
  using mode_cases [of md]
  by (auto simp: limitPrefix_label mastodonLimitMessage_def single_label_prefix thread_label_prefix
      exceeds_space lit_def)


lemma bluesky_prefix_x:
  "md = draftMode st \<Longrightarrow>
   \<not> prefix (limitPrefix st i ''Bluesky'') (xLimitMessage E (segmentLabel md j) n l)"
  using mode_cases [of md]
  by (auto simp: limitPrefix_label xLimitMessage_def single_label_prefix thread_label_prefix
      exceeds_space lit_def)

lemma bluesky_prefix_bluesky:
  "md = draftMode st \<Longrightarrow>
   prefix (limitPrefix st i ''Bluesky'') (blueskyLimitMessage E (segmentLabel md j) n l)
     \<longleftrightarrow> (md = Thread \<longrightarrow> i = j)"
  using mode_cases [of md]
  by (auto simp: limitPrefix_label blueskyLimitMessage_def single_label_prefix thread_label_prefix
      exceeds_space lit_def)

lemma bluesky_prefix_mastodon:
  "md = draftMode st \<Longrightarrow>
   \<not> prefix (limitPrefix st i ''Bluesky'')
        (mastodonLimitMessage E (segmentLabel md j) n l)"
  using mode_cases [of md]
  by (auto simp: limitPrefix_label mastodonLimitMessage_def single_label_prefix thread_label_prefix
      exceeds_space lit_def)

lemma mastodon_prefix_x:
  "md = draftMode st \<Longrightarrow>
   \<not> prefix (limitPrefix st i ''Mastodon'') (xLimitMessage E (segmentLabel md j) n l)"
  using mode_cases [of md]
  by (auto simp: limitPrefix_label xLimitMessage_def single_label_prefix thread_label_prefix
      exceeds_space lit_def)

lemma mastodon_prefix_bluesky:
  "md = draftMode st \<Longrightarrow>
   \<not> prefix (limitPrefix st i ''Mastodon'')
        (blueskyLimitMessage E (segmentLabel md j) n l)"
  using mode_cases [of md]
  by (auto simp: limitPrefix_label blueskyLimitMessage_def single_label_prefix thread_label_prefix
      exceeds_space lit_def)

lemma mastodon_prefix_mastodon:
  "md = draftMode st \<Longrightarrow>
   prefix (limitPrefix st i ''Mastodon'')
      (mastodonLimitMessage E (segmentLabel md j) n l)
     \<longleftrightarrow> (md = Thread \<longrightarrow> i = j)"
  using mode_cases [of md]
  by (auto simp: limitPrefix_label mastodonLimitMessage_def single_label_prefix thread_label_prefix
      exceeds_space lit_def)

lemmas limit_prefixes =
  x_prefix_x x_prefix_bluesky x_prefix_mastodon
  bluesky_prefix_x bluesky_prefix_bluesky bluesky_prefix_mastodon
  mastodon_prefix_x mastodon_prefix_bluesky mastodon_prefix_mastodon

lemma segmentLimitErrors_split:
  "segmentLimitErrors E st limits (j, seg) =
     xViolation E st limits j seg @ blueskyViolation E st limits j seg
       @ mastodonViolation E st limits j seg"
  by (simp add: segmentLimitErrors_def Let_def xViolation_def blueskyViolation_def
      mastodonViolation_def split: option.splits)

lemma filter_segment_x:
  "filter (prefix (limitPrefix st i ''X'')) (segmentLimitErrors E st limits z) =
     (if draftMode st = Thread \<longrightarrow> i = fst z then xViolation E st limits (fst z) (snd z) else [])"
  by (cases z)
     (auto simp: segmentLimitErrors_split xViolation_def blueskyViolation_def
        mastodonViolation_def limit_prefixes split: option.splits)

lemma filter_segment_bluesky:
  "filter (prefix (limitPrefix st i ''Bluesky'')) (segmentLimitErrors E st limits z) =
     (if draftMode st = Thread \<longrightarrow> i = fst z then blueskyViolation E st limits (fst z) (snd z)
      else [])"
  by (cases z)
     (auto simp: segmentLimitErrors_split xViolation_def blueskyViolation_def
        mastodonViolation_def limit_prefixes split: option.splits)

lemma filter_segment_mastodon:
  "filter (prefix (limitPrefix st i ''Mastodon'')) (segmentLimitErrors E st limits z) =
     (if draftMode st = Thread \<longrightarrow> i = fst z then mastodonViolation E st limits (fst z) (snd z)
      else [])"
  by (cases z)
     (auto simp: segmentLimitErrors_split xViolation_def blueskyViolation_def
        mastodonViolation_def limit_prefixes split: option.splits)


lemma onehot_rewrite:
  "(\<lambda>z. if md = Thread \<longrightarrow> i = fst z then g (fst z) (snd z) else [])
     = (\<lambda>z. if md = Thread \<longrightarrow> i = fst z then g (if md = Thread then i else fst z) (snd z) else [])"
  by (auto simp: fun_eq_iff)

lemma filter_limitErrors:
  assumes "i < length (trimmedSegments st)"
    and "\<And>z. filter P (segmentLimitErrors E st limits z) =
           (if draftMode st = Thread \<longrightarrow> i = fst z then g (fst z) (snd z) else [])"
  shows "filter P (limitErrors E st limits) = g i (trimmedSegments st ! i)"
proof (cases "draftMode st")
  case Single
  then have t: "trimmedSegments st = [trim (draftText st)]" by (simp add: trimmedSegments_def)
  with assms(1) have i: "i = 0" by simp
  show ?thesis
    using Single by (simp add: limitErrors_def t i assms(2))
next
  case Thread
  have "filter P (limitErrors E st limits) =
      concat (map (\<lambda>z. if fst z = i then g i (snd z) else [])
                (zip [0..<length (trimmedSegments st)] (trimmedSegments st)))"
    using Thread
    by (auto simp: limitErrors_def filter_concat_map assms(2) intro!: arg_cong [where f = concat])
  also have "\<dots> = g i (trimmedSegments st ! i)"
    using assms(1) by (simp add: onehot_concat)
  finally show ?thesis .
qed

lemma prefix_first:
  "prefix p m \<Longrightarrow> p \<noteq> [] \<Longrightarrow> take 1 m = take 1 p"
  by (cases p; cases m) auto

lemma first_limitPrefix:
  "take 1 (limitPrefix st i platform) = [0x50] \<or> take 1 (limitPrefix st i platform) = [0x53]"
  unfolding limitPrefix_label by (rule first_label)

lemma limitPrefix_not_Nil: "limitPrefix st i platform \<noteq> []"
  by (simp add: limitPrefix_label segmentLabel_def)

lemma not_limit_message:
  assumes "take 1 m \<noteq> [0x50]" "take 1 m \<noteq> [0x53]"
  shows "\<not> prefix (limitPrefix st i platform) m"
  using prefix_first [OF _ limitPrefix_not_Nil, of st i platform m]
    first_limitPrefix [of st i platform] assms
  by auto

lemma filter_none: "(\<And>m. m \<in> set xs \<Longrightarrow> \<not> P m) \<Longrightarrow> filter P xs = []"
  by (induction xs) auto

lemma filter_targetErrors: "filter (prefix (limitPrefix st i platform)) (targetErrors st) = []"
  using mode_cases [of "draftMode st"]
  by (auto simp: targetErrors_def limitPrefix_label segmentLabel_def lit_def)

lemma filter_textErrors: "filter (prefix (limitPrefix st i platform)) (textErrors st) = []"
  by (rule filter_none, rule not_limit_message) (auto dest: first_text)

lemma filter_threadErrors: "filter (prefix (limitPrefix st i platform)) (threadErrors st) = []"
  by (rule filter_none, rule not_limit_message) (auto dest: first_thread)

lemma filter_blueskyMediaErrors:
  "filter (prefix (limitPrefix st i platform)) (blueskyMediaErrors st) = []"
  by (rule filter_none, rule not_limit_message) (auto dest: first_bluesky)

lemma filter_mastodonMediaErrors:
  "filter (prefix (limitPrefix st i platform)) (mastodonMediaErrors E st limits) = []"
  by (rule filter_none, rule not_limit_message) (auto dest: first_mastodon)

lemma filter_scheduleErrors:
  "filter (prefix (limitPrefix st i platform)) (scheduleErrors E st ws) = []"
  using mode_cases [of "draftMode st"]
  by (auto simp: scheduleErrors_def limitPrefix_label segmentLabel_def lit_def)

lemma filter_errors:
  "filter (prefix (limitPrefix st i platform)) (getValidationErrors E st limits ws)
     = filter (prefix (limitPrefix st i platform)) (limitErrors E st limits)"
  by (simp add: getValidationErrors_def filter_targetErrors filter_textErrors
      filter_threadErrors filter_blueskyMediaErrors filter_mastodonMediaErrors
      filter_scheduleErrors)

lemma exceeds_default: "exceeds n (Fin 280) \<longleftrightarrow> n > 280"
  by (simp add: exceeds_def)

lemma limit_violations:
  assumes "i < length (trimmedSegments st)"
  shows "filter (prefix (limitPrefix st i ''X'')) (getValidationErrors E st limits ws)
          = xViolation E st limits i (trimmedSegments st ! i)"
    and "filter (prefix (limitPrefix st i ''Bluesky'')) (getValidationErrors E st limits ws)
          = blueskyViolation E st limits i (trimmedSegments st ! i)"
    and "filter (prefix (limitPrefix st i ''Mastodon'')) (getValidationErrors E st limits ws)
          = mastodonViolation E st limits i (trimmedSegments st ! i)"
  using filter_limitErrors [of i st "prefix (limitPrefix st i ''X'')" E limits
       "xViolation E st limits", OF assms filter_segment_x]
    filter_limitErrors [of i st "prefix (limitPrefix st i ''Bluesky'')" E limits
       "blueskyViolation E st limits", OF assms filter_segment_bluesky]
    filter_limitErrors [of i st "prefix (limitPrefix st i ''Mastodon'')" E limits
       "mastodonViolation E st limits", OF assms filter_segment_mastodon]
  by (simp_all add: filter_errors)

lemma trimmedSegments_nth:
  "length (trimmedSegments st) = length (draftSegments st)"
  "i < length (draftSegments st) \<Longrightarrow> trimmedSegments st ! i = trim (draftSegments st ! i)"
  by (simp_all add: trimmedSegments_def draftSegments_def)

lemma limit_messages:
  "xLimitMessage E (segmentLabel (draftMode st) i) n l = limitViolation E st i ''X'' n l"
  "blueskyLimitMessage E (segmentLabel (draftMode st) i) n l = limitViolation E st i ''Bluesky'' n l"
  "mastodonLimitMessage E (segmentLabel (draftMode st) i) n l = limitViolation E st i ''Mastodon'' n l"
  by (simp_all add: xLimitMessage_def blueskyLimitMessage_def mastodonLimitMessage_def
      limitViolation_def limitPrefix_label lit_def)

text \<open>
  Claim C5, as the code has it. \<open>countCharacters\<close> counts code points: the UTF-16 string
  of a list of scalar values counts as the length of the list. What is counted of a
  segment is its text with the blanks at both ends removed. For every segment \<open>i\<close> of a
  draft, the violations of the X limit by that segment are: one message, if X is selected
  and the count of the trimmed segment exceeds the X limit, and none otherwise; the same
  for Bluesky; and for Mastodon, with the further condition that the limits response has
  a (non-zero) Mastodon limit. Without a limits response the X limit is 280 and the
  Bluesky limit 300, and a count exceeds 280 when it is 281 or more.
\<close>

theorem C5_code_point_limits:
  "(list_all isScalar cps \<longrightarrow> countCharacters (utf16 cps) = length cps)
   \<and> (i < length (draftSegments st) \<longrightarrow>
        (let n = countCharacters (trim (draftSegments st ! i));
             xLimit = (case limits of None \<Rightarrow> Fin 280 | Some l \<Rightarrow> xMaxCharacters l);
             blueskyLimit = (case limits of None \<Rightarrow> Fin 300 | Some l \<Rightarrow> blueskyMaxCharacters l);
             mastodonLimit = (case limits of None \<Rightarrow> None
                              | Some l \<Rightarrow> map_option mastodonMaxCharacters (mastodonLimits l))
         in filter (prefix (limitPrefix st i ''X'')) (getValidationErrors E st limits ws)
              = (if selX (draftTargets st) \<and> numLess xLimit (Fin (of_nat n))
                 then [limitViolation E st i ''X'' n xLimit] else [])
          \<and> filter (prefix (limitPrefix st i ''Bluesky'')) (getValidationErrors E st limits ws)
              = (if selBluesky (draftTargets st) \<and> numLess blueskyLimit (Fin (of_nat n))
                 then [limitViolation E st i ''Bluesky'' n blueskyLimit] else [])
          \<and> filter (prefix (limitPrefix st i ''Mastodon'')) (getValidationErrors E st limits ws)
              = (case mastodonLimit of
                   None \<Rightarrow> []
                 | Some fetched \<Rightarrow>
                     if selMastodon (draftTargets st) \<and> numTruthy fetched
                        \<and> numLess fetched (Fin (of_nat n))
                     then [limitViolation E st i ''Mastodon'' n fetched] else [])))
   \<and> (numLess (Fin 280) (Fin (of_nat k)) \<longleftrightarrow> k > 280)"
proof -
  have a: "list_all isScalar cps \<longrightarrow> countCharacters (utf16 cps) = length cps"
    by (simp add: countCharacters_utf16)
  have b: "numLess (Fin 280) (Fin (of_nat k)) \<longleftrightarrow> k > 280"
    using exceeds_default [of k] by (simp add: exceeds_def)
  have c: ?thesis if i: "i < length (draftSegments st)"
  proof -
    from i have t: "i < length (trimmedSegments st)" by (simp add: trimmedSegments_nth)
    show ?thesis
      using a b i limit_violations [OF t, of E limits ws]
      by (simp add: Let_def trimmedSegments_nth xViolation_def blueskyViolation_def
          mastodonViolation_def limit_messages xLimitOf_def blueskyLimitOf_def
          mastodonLimitOf_def exceeds_def split: option.splits)
  qed
  show ?thesis
  proof (cases "i < length (draftSegments st)")
    case True
    then show ?thesis by (rule c)
  next
    case False
    with a b show ?thesis by simp
  qed
qed


text \<open>
  A post of 281 emoji (562 code units) and one of 280, under the default limits, with X
  selected and not.
\<close>

theorem C5_code_point_limits_witness:
  "list_all isScalar (replicate 281 0x1F600)
   \<and> length (emoji 281) = 562
   \<and> countCharacters (emoji 281) = 281
   \<and> countCharacters (emoji 280) = 280
   \<and> 0 < length (draftSegments (exampleDraft Single (emoji 281) [] allTargets []))
   \<and> filter (prefix (lit ''Post exceeds X limit (''))
       (getValidationErrors exampleEngine
          (exampleDraft Single (emoji 281) [] allTargets []) None False)
     = [lit ''Post exceeds X limit (281/280).'']
   \<and> filter (prefix (lit ''Post exceeds X limit (''))
       (getValidationErrors exampleEngine
          (exampleDraft Single (emoji 280) [] allTargets []) None False)
     = []
   \<and> filter (prefix (lit ''Post exceeds X limit (''))
       (getValidationErrors exampleEngine
          (exampleDraft Single (emoji 281) [] allButX []) None False)
     = []
   \<and> filter (prefix (lit ''Post exceeds Mastodon limit (''))
       (getValidationErrors exampleEngine
          (exampleDraft Single (emoji 281) [] allTargets []) None False)
     = []"
proof -
  let ?a = "exampleDraft Single (emoji 281) [] allTargets []"
  let ?b = "exampleDraft Single (emoji 280) [] allTargets []"
  let ?c = "exampleDraft Single (emoji 281) [] allButX []"
  have sc: "list_all isScalar (replicate n 0x1F600)" for n
    by (simp add: list_all_iff isScalar_def)
  have d: "decimal 281 = lit ''281''" "decimal 280 = lit ''280''"
    by (simp_all add: decimal.simps [of 281] decimal.simps [of 280] decimal.simps [of 28]
        decimal.simps [of 2] digit_def lit_def)
  have sh: "showNumber exampleEngine (Fin 280) = lit ''280''"
    by (simp add: showNumber_def isNatNumber_def natOfNumber_def d)
  have px: "limitPrefix ?a 0 ''X'' = lit ''Post exceeds X limit (''"
      "limitPrefix ?b 0 ''X'' = lit ''Post exceeds X limit (''"
      "limitPrefix ?c 0 ''X'' = lit ''Post exceeds X limit (''"
      "limitPrefix ?a 0 ''Mastodon'' = lit ''Post exceeds Mastodon limit (''"
    by (simp_all add: limitPrefix_def segmentName_def exampleDraft_def lit_def)
  have m: "limitViolation exampleEngine ?a 0 ''X'' 281 (Fin 280)
         = lit ''Post exceeds X limit (281/280).''"
    by (simp add: limitViolation_def px d sh) (simp add: lit_def)
  have sg: "draftSegments ?a = [emoji 281]" "draftSegments ?b = [emoji 280]"
      "draftSegments ?c = [emoji 281]"
    by (simp_all add: draftSegments_def exampleDraft_def)
  have tr: "trim (emoji n) = emoji n" for n by (simp add: emoji_def trim_emoji)
  have tg: "selX (draftTargets ?a)" "selX (draftTargets ?b)" "\<not> selX (draftTargets ?c)"
    by (simp_all add: exampleDraft_def allTargets_def allButX_def)
  note w = C5_code_point_limits [of "replicate 281 0x1F600" 0 ?a None exampleEngine False 281]
  note x = C5_code_point_limits [of "replicate 280 0x1F600" 0 ?b None exampleEngine False 280]
  note y = C5_code_point_limits [of "replicate 281 0x1F600" 0 ?c None exampleEngine False 281]
  have c1: "countCharacters (emoji 281) = 281" using w sc [of 281] by (simp add: emoji_def)
  have c0: "countCharacters (emoji 280) = 280" using x sc [of 280] by (simp add: emoji_def)
  have l: "length (emoji 281) = 562" using length_utf16_emoji [of 281] by (simp add: emoji_def)
  have fa: "filter (prefix (lit ''Post exceeds X limit ('')) (getValidationErrors exampleEngine ?a None False)
          = [lit ''Post exceeds X limit (281/280).'']"
    using w by (simp add: Let_def sg tr c1 m tg px)
  have fb: "filter (prefix (lit ''Post exceeds X limit ('')) (getValidationErrors exampleEngine ?b None False)
          = []"
    using x by (simp add: Let_def sg tr c0 tg px)
  have fc: "filter (prefix (lit ''Post exceeds X limit ('')) (getValidationErrors exampleEngine ?c None False)
          = []"
    using y by (simp add: Let_def sg tr tg px)
  have fm: "filter (prefix (lit ''Post exceeds Mastodon limit ('')) (getValidationErrors exampleEngine ?a None False)
          = []"
    using w by (simp add: Let_def sg px)
  show ?thesis
    using sc [of 281] l c1 c0 fa fb fc fm by (simp add: sg)
qed

text \<open>Letters count one each, and trimming removes the space after them.\<close>

lemma codePoints_letters: "codePoints (replicate n 0x61 @ rest) = replicate n 0x61 @ codePoints rest"
proof (induction n)
  case 0
  then show ?case by simp
next
  case (Suc n)
  have "\<not> isHighSurrogate 0x61" by (simp add: isHighSurrogate_def)
  from codePoints_single [OF this, of "replicate n 0x61 @ rest"] Suc show ?case by simp
qed

lemma countCharacters_padded: "countCharacters (padded n) = n + 1"
  using codePoints_letters [of n "[0x20]"] by (simp add: countCharacters_def padded_def)

lemma countCharacters_letters: "countCharacters (replicate n 0x61) = n"
  using codePoints_letters [of n "[]"] by (simp add: countCharacters_def)

lemma trim_padded: "trim (padded n) = replicate n 0x61"
proof (cases n)
  case 0
  then show ?thesis by (simp add: padded_def trim_def isWhiteSpace_def)
next
  case (Suc m)
  have w: "\<not> isWhiteSpace 0x61" "isWhiteSpace 0x20" by (simp_all add: isWhiteSpace_def)
  have 1: "dropWhile isWhiteSpace (padded n) = padded n"
    using w Suc by (simp add: padded_def)
  have 2: "rev (padded n) = 0x20 # replicate n 0x61" by (simp add: padded_def)
  have 3: "dropWhile isWhiteSpace (0x20 # replicate n 0x61) = replicate n 0x61"
    using w Suc by simp
  show ?thesis by (simp only: trim_def 1 2 3 rev_replicate)
qed

text \<open>
  A post of 280 letters and a space has 281 code points and, with X selected under the
  default limit of 280, no violation: the space is not counted.
\<close>

theorem C5_trailing_blank_counterexample:
  "countCharacters (padded 280) = 281
   \<and> selX (draftTargets (exampleDraft Single (padded 280) [] onlyX []))
   \<and> getValidationErrors exampleEngine
        (exampleDraft Single (padded 280) [] onlyX []) None False = []"
proof -
  have r: "replicate 280 (0x61 :: 16 word) \<noteq> []" by simp
  have "getValidationErrors exampleEngine
        (exampleDraft Single (padded 280) [] onlyX []) None False = []"
    using r
    by (simp add: getValidationErrors_def targetErrors_def textErrors_def threadErrors_def
        limitErrors_def segmentLimitErrors_def blueskyMediaErrors_def mastodonMediaErrors_def
        scheduleErrors_def trimmedSegments_def hasSelectedTarget_def xLimitOf_def
        mastodonLimitOf_def mastodonMaxMediaOf_def exceeds_def Let_def exampleDraft_def
        onlyX_def trim_padded countCharacters_letters)
  then show ?thesis
    by (simp add: countCharacters_padded exampleDraft_def onlyX_def)
qed

end
